theory Spec2Isabelle
  imports Main "HOL-Library.Word"
begin

unbundle bit_operations_syntax

chapter \<open>The emulator, as written in the C sources\<close>

section \<open>Memory bus and cartridge (memory.c, cartridge.c)\<close>

type_synonym byte = "8 word"
type_synonym addr = "16 word"

text \<open>
  The C struct \<open>Cartridge\<close> holds a heap buffer \<open>data\<close> together with its length
  \<open>size\<close>; \<open>cartridge_load\<close> allocates exactly \<open>size\<close> bytes and stores that number, so
  the pair is modelled as one list and \<open>size\<close> is its length.
\<close>

record Cartridge =
  cart_data :: "byte list"
  cart_title :: string
  cart_type :: byte

definition cart_size :: "Cartridge \<Rightarrow> nat" where
  "cart_size c = length (cart_data c)"

text \<open>
  The globals \<open>memory[0x10000]\<close> and \<open>current_cartridge\<close> (a pointer, \<open>NULL\<close> when no
  cartridge is loaded).  The CPU, timer and PPU states extend this record.
\<close>

record bus =
  memory :: "addr \<Rightarrow> byte"
  current_cartridge :: "Cartridge option"

definition cartridge_read :: "Cartridge option \<Rightarrow> addr \<Rightarrow> byte" where
  "cartridge_read cart address =
     (case cart of
        None \<Rightarrow> 0xFF
      | Some c \<Rightarrow> if unat address \<ge> cart_size c then 0xFF else cart_data c ! unat address)"

definition memory_init :: "'a bus_scheme \<Rightarrow> 'a bus_scheme" where
  "memory_init s = s\<lparr>memory := (\<lambda>_. 0)\<rparr>"

definition memory_read :: "'a bus_scheme \<Rightarrow> addr \<Rightarrow> byte" where
  "memory_read s address =
     (if address < 0x8000 then cartridge_read (current_cartridge s) address
      else memory s address)"

definition memory_write :: "addr \<Rightarrow> byte \<Rightarrow> 'a bus_scheme \<Rightarrow> 'a bus_scheme" where
  "memory_write address v s =
     (if address < 0x8000 then s
      else if address \<ge> 0xE000 \<and> address < 0xFE00 then
        s\<lparr>memory := ((memory s)(address := v))(address - 0x2000 := v)\<rparr>
      else s\<lparr>memory := (memory s)(address := v)\<rparr>)"

section \<open>Timer (timer.c)\<close>

record timer_sys = bus +
  divider_cycles :: "16 word"
  timer_cycles :: "16 word"

definition timer_init :: "'a timer_sys_scheme \<Rightarrow> 'a timer_sys_scheme" where
  "timer_init s =
     memory_write 0xFF07 0x00 (memory_write 0xFF06 0x00 (memory_write 0xFF05 0x00
       (memory_write 0xFF04 0x00 (s\<lparr>divider_cycles := 0, timer_cycles := 0\<rparr>))))"

text \<open>
  The \<open>switch (tac & 0x03)\<close> that selects the threshold; its four labels cover every
  value of the two bits, so the last branch is the label \<open>case 3\<close>.
\<close>

definition timer_threshold :: "byte \<Rightarrow> 16 word" where
  "timer_threshold tac =
     (if tac AND 0x03 = 0 then 1024
      else if tac AND 0x03 = 1 then 16
      else if tac AND 0x03 = 2 then 64
      else 256)"

definition timer_update :: "16 word \<Rightarrow> 'a timer_sys_scheme \<Rightarrow> 'a timer_sys_scheme" where
  "timer_update cycles s =
     (let s1 = s\<lparr>divider_cycles := divider_cycles s + cycles\<rparr>;
          s2 = (if divider_cycles s1 \<ge> 256 then
                  (let s' = s1\<lparr>divider_cycles := divider_cycles s1 - 256\<rparr>;
                       dv = memory_read s' 0xFF04
                   in memory_write 0xFF04 (dv + 1) s')
                else s1);
          tac = memory_read s2 0xFF07
      in if tac AND 0x04 \<noteq> 0 then
           (let s3 = s2\<lparr>timer_cycles := timer_cycles s2 + cycles\<rparr>;
                threshold = timer_threshold tac
            in if timer_cycles s3 \<ge> threshold then
                 (let s4 = s3\<lparr>timer_cycles := timer_cycles s3 - threshold\<rparr>;
                      tima = memory_read s4 0xFF05
                  in if tima = 0xFF then memory_write 0xFF05 (memory_read s4 0xFF06) s4
                     else memory_write 0xFF05 (tima + 1) s4)
               else s3)
         else s2)"

definition update_timer :: "'a timer_sys_scheme \<Rightarrow> 'a timer_sys_scheme" where
  "update_timer s = timer_update 4 s"

section \<open>Picture processing unit\<close>

abbreviation LCDC :: addr where "LCDC \<equiv> 0xFF40"
abbreviation STAT :: addr where "STAT \<equiv> 0xFF41"
abbreviation SCY :: addr where "SCY \<equiv> 0xFF42"
abbreviation SCX :: addr where "SCX \<equiv> 0xFF43"
abbreviation LY :: addr where "LY \<equiv> 0xFF44"
abbreviation LYC :: addr where "LYC \<equiv> 0xFF45"
abbreviation BGP :: addr where "BGP \<equiv> 0xFF47"

abbreviation GB_SCREEN_WIDTH :: nat where "GB_SCREEN_WIDTH \<equiv> 160"
abbreviation GB_SCREEN_HEIGHT :: nat where "GB_SCREEN_HEIGHT \<equiv> 144"

abbreviation TILE_DATA_TABLE_0 :: addr where "TILE_DATA_TABLE_0 \<equiv> 0x8000"
abbreviation TILE_DATA_TABLE_2 :: addr where "TILE_DATA_TABLE_2 \<equiv> 0x9000"
abbreviation BG_MAP_0 :: addr where "BG_MAP_0 \<equiv> 0x9800"
abbreviation BG_MAP_1 :: addr where "BG_MAP_1 \<equiv> 0x9C00"

subsection \<open>The first revision (src/gameboy-emulator/src/ppu.c): timing only\<close>

record ppu_core = bus +
  ppu_cycles :: "16 word"
  ppu_mode :: byte
  ppu_line :: byte

definition ppu_init_plain :: "'a ppu_core_scheme \<Rightarrow> 'a ppu_core_scheme" where
  "ppu_init_plain s =
     memory_write LYC 0x00 (memory_write LY 0x00 (memory_write SCX 0x00
       (memory_write SCY 0x00 (memory_write STAT 0x00 (memory_write LCDC 0x91
         (s\<lparr>ppu_cycles := 0, ppu_mode := 0, ppu_line := 0\<rparr>))))))"

text \<open>
  \<open>ppu_update\<close> of ppu.c.  The LCD-enable test comes first; the cycle counter is
  touched only when the LCD is on.
\<close>

definition ppu_update_plain :: "16 word \<Rightarrow> 'a ppu_core_scheme \<Rightarrow> 'a ppu_core_scheme" where
  "ppu_update_plain cycles s =
     (if memory_read s LCDC AND 0x80 = 0 then s
      else
        (let s = s\<lparr>ppu_cycles := ppu_cycles s + cycles\<rparr>;
             s =
              (if ppu_mode s = 0 then
                 (if ppu_cycles s \<ge> 204 then
                    (let s = s\<lparr>ppu_cycles := ppu_cycles s - 204\<rparr>;
                         s = s\<lparr>ppu_line := ppu_line s + 1\<rparr>;
                         s = (if ppu_line s = 144 then s\<lparr>ppu_mode := 1\<rparr>
                              else s\<lparr>ppu_mode := 2\<rparr>)
                     in memory_write LY (ppu_line s) s)
                  else s)
               else if ppu_mode s = 1 then
                 (if ppu_cycles s \<ge> 456 then
                    (let s = s\<lparr>ppu_cycles := ppu_cycles s - 456\<rparr>;
                         s = s\<lparr>ppu_line := ppu_line s + 1\<rparr>;
                         s = (if ppu_line s > 153 then s\<lparr>ppu_line := 0, ppu_mode := 2\<rparr>
                              else s)
                     in memory_write LY (ppu_line s) s)
                  else s)
               else if ppu_mode s = 2 then
                 (if ppu_cycles s \<ge> 80 then
                    s\<lparr>ppu_cycles := ppu_cycles s - 80, ppu_mode := 3\<rparr>
                  else s)
               else if ppu_mode s = 3 then
                 (if ppu_cycles s \<ge> 172 then
                    s\<lparr>ppu_cycles := ppu_cycles s - 172, ppu_mode := 0\<rparr>
                  else s)
               else s);
             stat = memory_read s STAT AND 0xF8;
             stat = stat OR ppu_mode s
         in memory_write STAT stat s))"

subsection \<open>The rendering revision (the ppu.c text that follows main.c in
  src/gameboy-emulator/src/main.c): frame buffer and frame-ready flag\<close>

text \<open>
  \<open>framebuffer[GB_SCREEN_HEIGHT][GB_SCREEN_WIDTH*2 + 1]\<close> is indexed by row and column;
  only rows below 144 and columns below 321 exist in the C array.  \<open>int frame_count\<close> is
  a 32-bit integer, read through \<open>sint\<close>.
\<close>

record ppu_sys = ppu_core +
  ppu_framebuffer :: "nat \<Rightarrow> nat \<Rightarrow> char"
  ppu_frame_ready :: bool
  ppu_frame_count :: "32 word"

definition pixel_chars :: "string list" where
  "pixel_chars = [''  '', ''..'', ''##'', ''@@'']"

definition ppu_init :: "'a ppu_sys_scheme \<Rightarrow> 'a ppu_sys_scheme" where
  "ppu_init s =
     memory_write BGP 0xFC (memory_write LYC 0x00 (memory_write LY 0x00
       (memory_write SCX 0x00 (memory_write SCY 0x00 (memory_write STAT 0x00
         (memory_write LCDC 0x91
           (s\<lparr>ppu_cycles := 0, ppu_mode := 0, ppu_line := 0,
              ppu_frame_ready := False, ppu_frame_count := 0,
              ppu_framebuffer := (\<lambda>y x.
                 if y < GB_SCREEN_HEIGHT then
                   (if x < GB_SCREEN_WIDTH * 2 then CHR '' ''
                    else if x = GB_SCREEN_WIDTH * 2 then CHR 0x00
                    else ppu_framebuffer s y x)
                 else ppu_framebuffer s y x)\<rparr>)))))))"

definition get_color :: "byte \<Rightarrow> byte \<Rightarrow> byte" where
  "get_color palette color_id = drop_bit (unat color_id * 2) palette AND 0x03"

text \<open>One iteration of the pixel loop of \<open>render_scanline\<close>.\<close>

definition render_pixel ::
  "'a ppu_sys_scheme \<Rightarrow> byte \<Rightarrow> byte \<Rightarrow> byte \<Rightarrow> addr \<Rightarrow> bool \<Rightarrow> addr \<Rightarrow> byte \<Rightarrow> byte \<Rightarrow>
   nat \<Rightarrow> (nat \<Rightarrow> nat \<Rightarrow> char) \<Rightarrow> (nat \<Rightarrow> nat \<Rightarrow> char)" where
  "render_pixel s line scroll_x palette bg_map_addr tile_data_unsigned tile_data_base
       tile_row tile_y pixel fb =
     (let bg_x = (of_nat pixel + scroll_x :: byte);
          tile_col = bg_x div 8;
          tile_x = bg_x mod 8;
          tile_map_addr = bg_map_addr + (ucast tile_row * 32) + ucast tile_col;
          tile_num = memory_read s tile_map_addr;
          tile_addr =
            (if tile_data_unsigned then tile_data_base + (ucast tile_num * 16)
             else tile_data_base + (scast tile_num + 128) * 16);
          line_addr = tile_addr + (ucast tile_y * 2);
          low_byte = memory_read s line_addr;
          high_byte = memory_read s (line_addr + 1);
          bit_position = 7 - tile_x;
          color_id = push_bit 1 (drop_bit (unat bit_position) high_byte AND 0x01);
          color_id = color_id OR (drop_bit (unat bit_position) low_byte AND 0x01);
          color = get_color palette color_id;
          pixel_ascii = pixel_chars ! unat color
      in fb(unat line := (fb (unat line))
              (pixel * 2 := pixel_ascii ! 0, pixel * 2 + 1 := pixel_ascii ! 1)))"

text \<open>
  \<open>render_scanline\<close>.  The result is \<open>None\<close> when the function would store outside the
  144 rows of the frame buffer, which C leaves undefined.
\<close>

definition render_scanline :: "byte \<Rightarrow> 'a ppu_sys_scheme \<Rightarrow> 'a ppu_sys_scheme option" where
  "render_scanline line s =
     (let lcdc = memory_read s LCDC
      in if lcdc AND 0x80 = 0 \<or> lcdc AND 0x01 = 0 then Some s
         else
           (let scroll_y = memory_read s SCY;
                scroll_x = memory_read s SCX;
                palette = memory_read s BGP;
                bg_map_addr = (if lcdc AND 0x08 \<noteq> 0 then BG_MAP_1 else BG_MAP_0);
                tile_data_unsigned = (lcdc AND 0x10 \<noteq> 0);
                tile_data_base =
                  (if tile_data_unsigned then TILE_DATA_TABLE_0 else TILE_DATA_TABLE_2);
                bg_y = line + scroll_y;
                tile_row = bg_y div 8;
                tile_y = bg_y mod 8
            in if unat line < GB_SCREEN_HEIGHT then
                 Some (s\<lparr>ppu_framebuffer :=
                   fold (render_pixel s line scroll_x palette bg_map_addr tile_data_unsigned
                           tile_data_base tile_row tile_y)
                        [0..<GB_SCREEN_WIDTH] (ppu_framebuffer s)\<rparr>)
               else None))"

text \<open>
  The state change of \<open>ppu_render_frame\<close>, which prints the frame buffer to the terminal:
  it counts the frame and resets the frame-ready flag.  \<open>ppu.frame_count++\<close> is the
  increment of a 32-bit \<open>int\<close>: after 2147483647 the counter reads -2147483648.
\<close>

definition ppu_render_frame :: "'a ppu_sys_scheme \<Rightarrow> 'a ppu_sys_scheme" where
  "ppu_render_frame s =
     s\<lparr>ppu_frame_count := ppu_frame_count s + 1, ppu_frame_ready := False\<rparr>"

definition ppu_is_frame_ready :: "'a ppu_sys_scheme \<Rightarrow> bool" where
  "ppu_is_frame_ready s = ppu_frame_ready s"

text \<open>
  \<open>ppu_update\<close> of the rendering revision.  Here the cycle counter is advanced before
  the LCD-enable test.
\<close>

definition ppu_update :: "16 word \<Rightarrow> 'a ppu_sys_scheme \<Rightarrow> 'a ppu_sys_scheme option" where
  "ppu_update cycles s =
     (let s = s\<lparr>ppu_cycles := ppu_cycles s + cycles\<rparr>
      in if memory_read s LCDC AND 0x80 = 0 then Some s
         else
           (case
              (if ppu_mode s = 0 then
                 (if ppu_cycles s \<ge> 204 then
                    (let s = s\<lparr>ppu_cycles := ppu_cycles s - 204\<rparr>;
                         s = s\<lparr>ppu_line := ppu_line s + 1\<rparr>;
                         s = memory_write LY (ppu_line s) s
                     in case render_scanline (ppu_line s - 1) s of
                          None \<Rightarrow> None
                        | Some s \<Rightarrow>
                            if ppu_line s = 144 then
                              Some (s\<lparr>ppu_mode := 1, ppu_frame_ready := True\<rparr>)
                            else Some (s\<lparr>ppu_mode := 2\<rparr>))
                  else Some s)
               else if ppu_mode s = 1 then
                 (if ppu_cycles s \<ge> 456 then
                    (let s = s\<lparr>ppu_cycles := ppu_cycles s - 456\<rparr>;
                         s = s\<lparr>ppu_line := ppu_line s + 1\<rparr>;
                         s = memory_write LY (ppu_line s) s
                     in if ppu_line s > 153 then
                          Some ((memory_write LY 0 (s\<lparr>ppu_line := 0\<rparr>))\<lparr>ppu_mode := 2\<rparr>)
                        else Some s)
                  else Some s)
               else if ppu_mode s = 2 then
                 (if ppu_cycles s \<ge> 80 then
                    Some (s\<lparr>ppu_cycles := ppu_cycles s - 80, ppu_mode := 3\<rparr>)
                  else Some s)
               else if ppu_mode s = 3 then
                 (if ppu_cycles s \<ge> 172 then
                    Some (s\<lparr>ppu_cycles := ppu_cycles s - 172, ppu_mode := 0\<rparr>)
                  else Some s)
               else Some s)
            of None \<Rightarrow> None
             | Some s \<Rightarrow>
                 (let stat = memory_read s STAT AND 0xF8;
                      stat = stat OR ppu_mode s
                  in Some (memory_write STAT stat s))))"

definition update_ppu :: "'a ppu_sys_scheme \<Rightarrow> 'a ppu_sys_scheme option" where
  "update_ppu s = ppu_update 4 s"

subsection \<open>Driving the PPU alone\<close>

text \<open>
  The PPU part of the main loop: the PPU is advanced once per step and, as soon as
  \<open>ppu_is_frame_ready\<close> holds, \<open>ppu_render_frame\<close> consumes the frame.  The main loop
  advances the PPU through \<open>update_ppu\<close>, that is \<open>ppu_update(4)\<close>; the driver takes
  the cycle count of a call as its first argument, so that \<open>ppu_drive 4\<close> is the loop of
  main.c.  Each step is recorded as the mode and the line in which its cycles are spent
  and the value of the frame-ready flag right after \<open>ppu_update\<close>.
\<close>

type_synonym ppu_obs = "byte \<times> byte \<times> bool"

fun ppu_drive ::
  "16 word \<Rightarrow> nat \<Rightarrow> 'a ppu_sys_scheme \<Rightarrow> (ppu_obs list \<times> 'a ppu_sys_scheme) option" where
  "ppu_drive cycles 0 s = Some ([], s)"
| "ppu_drive cycles (Suc n) s =
     (case ppu_update cycles s of
        None \<Rightarrow> None
      | Some s1 \<Rightarrow>
          (let ready = ppu_is_frame_ready s1;
               s2 = (if ready then ppu_render_frame s1 else s1)
           in case ppu_drive cycles n s2 of
                None \<Rightarrow> None
              | Some (tr, t) \<Rightarrow> Some ((ppu_mode s, ppu_line s, ready) # tr, t)))"

text \<open>Modes: 0 is HBlank, 1 is VBlank, 2 is OAMScan, 3 is PixelTransfer.\<close>

definition ppu_lcd_enabled :: "'a bus_scheme \<Rightarrow> bool" where
  "ppu_lcd_enabled s = (memory_read s LCDC AND 0x80 \<noteq> 0)"

definition ppu_at :: "byte \<Rightarrow> byte \<Rightarrow> 16 word \<Rightarrow> 'a ppu_sys_scheme \<Rightarrow> bool" where
  "ppu_at m l c s =
     (ppu_lcd_enabled s \<and> ppu_mode s = m \<and> ppu_line s = l \<and> ppu_cycles s = c \<and>
      \<not> ppu_frame_ready s)"

text \<open>
  The schedule of a visible line when every call advances the PPU by \<open>c\<close> cycles:
  \<open>80 div c\<close> steps of OAMScan (80 cycles), \<open>172 div c\<close> of PixelTransfer (172),
  \<open>204 div c\<close> of HBlank (204); the flag says whether the frame-ready flag is set after
  the step.  With 4 cycles per call these are 20, 43 and 51 steps.
\<close>

definition line_schedule :: "nat \<Rightarrow> bool \<Rightarrow> nat \<Rightarrow> ppu_obs list" where
  "line_schedule c ready l =
     replicate (80 div c) (2, of_nat l, False) @ replicate (172 div c) (3, of_nat l, False) @
     replicate (204 div c - 1) (0, of_nat l, False) @ [(0, of_nat l, ready)]"

definition vblank_schedule :: "nat \<Rightarrow> ppu_obs list" where
  "vblank_schedule c =
     concat (map (\<lambda>l. replicate (456 div c) (1, of_nat l, False)) [144..<154])"

definition frame_schedule :: "nat \<Rightarrow> ppu_obs list" where
  "frame_schedule c =
     concat (map (line_schedule c False) [0..<143]) @ line_schedule c True 143 @
     vblank_schedule c"

definition reset_schedule :: "nat \<Rightarrow> ppu_obs list" where
  "reset_schedule c =
     replicate (204 div c) (0, 0, False) @ concat (map (line_schedule c False) [1..<143]) @
     line_schedule c True 143 @ vblank_schedule c"

text \<open>
  Vocabulary for the proofs: one \<open>ppu_update\<close> step that ends in a given mode, line and
  cycle count, and a run of \<open>ppu_drive\<close> with a given trace that ends so with the
  frame-ready flag consumed.
\<close>

definition ppu_step_to ::
  "16 word \<Rightarrow> 'a ppu_sys_scheme \<Rightarrow> bool \<Rightarrow> byte \<Rightarrow> byte \<Rightarrow> 16 word \<Rightarrow> bool" where
  "ppu_step_to cycles s ready m l c =
     (\<exists>s'. ppu_update cycles s = Some s' \<and> ppu_frame_ready s' = ready \<and>
           ppu_lcd_enabled s' \<and> ppu_mode s' = m \<and> ppu_line s' = l \<and> ppu_cycles s' = c \<and>
           ppu_frame_count s' = ppu_frame_count s)"

definition ppu_drives ::
  "16 word \<Rightarrow> nat \<Rightarrow> 'a ppu_sys_scheme \<Rightarrow> ppu_obs list \<Rightarrow> byte \<Rightarrow> byte \<Rightarrow> 16 word \<Rightarrow>
   32 word \<Rightarrow> bool" where
  "ppu_drives cycles n s tr m l c d =
     (\<exists>s'. ppu_drive cycles n s = Some (tr, s') \<and> ppu_at m l c s' \<and>
           ppu_frame_count s' = ppu_frame_count s + d)"

text \<open>A power-on state before \<open>ppu_init\<close>: memory zeroed, so the LCD is off.\<close>

definition ppu_blank :: ppu_sys where
  "ppu_blank =
     \<lparr>memory = (\<lambda>_. 0), current_cartridge = None,
      ppu_cycles = 0, ppu_mode = 0, ppu_line = 0,
      ppu_framebuffer = (\<lambda>_ _. CHR '' ''), ppu_frame_ready = False, ppu_frame_count = 0\<rparr>"

text \<open>
  The state in which every frame after the first begins: OAMScan at line 0 with the
  LCD enabled; and the same state with a frame waiting for the consumer.
\<close>

definition ppu_oam0 :: ppu_sys where
  "ppu_oam0 = ppu_blank\<lparr>memory := (\<lambda>_. 0)(LCDC := 0x91), ppu_mode := 2\<rparr>"

definition ppu_oam0_ready :: ppu_sys where
  "ppu_oam0_ready = ppu_oam0\<lparr>ppu_frame_ready := True\<rparr>"

section \<open>CPU (cpu.c)\<close>

subsection \<open>State, console and log\<close>

text \<open>
  What the CPU code prints: the two \<open>printf\<close> diagnostics.  Their second argument is
  \<open>cpu.pc - 1\<close> or \<open>cpu.pc - 2\<close>, computed after integer promotion, hence an \<open>int\<close>.
\<close>

datatype console_line =
    Unimplemented_opcode byte int
  | Unimplemented_CB_opcode byte int

text \<open>
  What the CPU code logs through logger.c: the line of \<open>cpu_init\<close> (PC, SP) and the
  per-instruction line of \<open>cpu_execute_instruction\<close> (PC, opcode, opcode name, the
  registers A F B C D E H L, SP).  The time stamp that \<open>logger_log\<close> prepends is left
  out.
\<close>

datatype log_level = LOG_DEBUG | LOG_INFO | LOG_WARNING | LOG_ERROR

datatype log_message =
    Cpu_initialized addr addr
  | Executing addr byte string "byte list" addr

record cpu_sys = bus +
  cpu_a :: byte
  cpu_f :: byte
  cpu_b :: byte
  cpu_c :: byte
  cpu_d :: byte
  cpu_e :: byte
  cpu_h :: byte
  cpu_l :: byte
  cpu_pc :: addr
  cpu_sp :: addr
  cpu_halted :: bool
  cpu_interrupts_enabled :: bool
  console :: "console_line list"
  log_file :: bool
  log_lines :: "(log_level \<times> log_message) list"

text \<open>\<open>logger_log\<close>: nothing is written unless the log file has been opened.\<close>

definition logger_log ::
  "log_level \<Rightarrow> log_message \<Rightarrow> 'a cpu_sys_scheme \<Rightarrow> 'a cpu_sys_scheme" where
  "logger_log level msg s =
     (if \<not> log_file s then s else s\<lparr>log_lines := log_lines s @ [(level, msg)]\<rparr>)"

definition printf :: "console_line \<Rightarrow> 'a cpu_sys_scheme \<Rightarrow> 'a cpu_sys_scheme" where
  "printf ln s = s\<lparr>console := console s @ [ln]\<rparr>"

abbreviation FLAG_Z :: byte where "FLAG_Z \<equiv> 0x80"
abbreviation FLAG_N :: byte where "FLAG_N \<equiv> 0x40"
abbreviation FLAG_H :: byte where "FLAG_H \<equiv> 0x20"
abbreviation FLAG_C :: byte where "FLAG_C \<equiv> 0x10"

definition cpu_init :: "'a cpu_sys_scheme \<Rightarrow> 'a cpu_sys_scheme" where
  "cpu_init s =
     (let s = s\<lparr>cpu_a := 0x01, cpu_f := 0xB0, cpu_b := 0x00, cpu_c := 0x13, cpu_d := 0x00,
                cpu_e := 0xD8, cpu_h := 0x01, cpu_l := 0x4D, cpu_pc := 0x0100,
                cpu_sp := 0xFFFE, cpu_halted := False, cpu_interrupts_enabled := False\<rparr>
      in logger_log LOG_INFO (Cpu_initialized (cpu_pc s) (cpu_sp s)) s)"

definition cpu_fetch_byte :: "'a cpu_sys_scheme \<Rightarrow> byte \<times> 'a cpu_sys_scheme" where
  "cpu_fetch_byte s = (memory_read s (cpu_pc s), s\<lparr>cpu_pc := cpu_pc s + 1\<rparr>)"

definition cpu_fetch_word :: "'a cpu_sys_scheme \<Rightarrow> addr \<times> 'a cpu_sys_scheme" where
  "cpu_fetch_word s =
     (let (low, s) = cpu_fetch_byte s;
          (high, s) = cpu_fetch_byte s
      in (push_bit 8 (ucast high) OR ucast low, s))"

definition get_bc :: "'a cpu_sys_scheme \<Rightarrow> addr" where
  "get_bc s = push_bit 8 (ucast (cpu_b s)) OR ucast (cpu_c s)"

definition get_de :: "'a cpu_sys_scheme \<Rightarrow> addr" where
  "get_de s = push_bit 8 (ucast (cpu_d s)) OR ucast (cpu_e s)"

definition get_hl :: "'a cpu_sys_scheme \<Rightarrow> addr" where
  "get_hl s = push_bit 8 (ucast (cpu_h s)) OR ucast (cpu_l s)"

definition set_bc :: "addr \<Rightarrow> 'a cpu_sys_scheme \<Rightarrow> 'a cpu_sys_scheme" where
  "set_bc v s = s\<lparr>cpu_b := ucast (drop_bit 8 v), cpu_c := ucast (v AND 0xFF)\<rparr>"

definition set_de :: "addr \<Rightarrow> 'a cpu_sys_scheme \<Rightarrow> 'a cpu_sys_scheme" where
  "set_de v s = s\<lparr>cpu_d := ucast (drop_bit 8 v), cpu_e := ucast (v AND 0xFF)\<rparr>"

definition set_hl :: "addr \<Rightarrow> 'a cpu_sys_scheme \<Rightarrow> 'a cpu_sys_scheme" where
  "set_hl v s = s\<lparr>cpu_h := ucast (drop_bit 8 v), cpu_l := ucast (v AND 0xFF)\<rparr>"

definition set_flag :: "byte \<Rightarrow> 'a cpu_sys_scheme \<Rightarrow> 'a cpu_sys_scheme" where
  "set_flag flag s = s\<lparr>cpu_f := cpu_f s OR flag\<rparr>"

definition clear_flag :: "byte \<Rightarrow> 'a cpu_sys_scheme \<Rightarrow> 'a cpu_sys_scheme" where
  "clear_flag flag s = s\<lparr>cpu_f := cpu_f s AND NOT flag\<rparr>"

definition get_flag :: "byte \<Rightarrow> 'a cpu_sys_scheme \<Rightarrow> bool" where
  "get_flag flag s = (cpu_f s AND flag \<noteq> 0)"

text \<open>
  The 16-bit additions \<open>ADD HL, rr\<close> compute in 32 bits:
  \<open>uint32_t result = get_hl() + rr\<close>, then the flags and \<open>set_hl(result & 0xFFFF)\<close>.
  The three cases of the switch (0x09, 0x19, 0x29) have this body with \<open>rr\<close> being
  \<open>get_bc()\<close>, \<open>get_de()\<close> and \<open>get_hl()\<close>.
\<close>

definition add_hl :: "addr \<Rightarrow> 'a cpu_sys_scheme \<Rightarrow> 'a cpu_sys_scheme" where
  "add_hl rr s =
     (let result = (ucast (get_hl s) + ucast rr :: 32 word);
          s = s\<lparr>cpu_f := (cpu_f s AND FLAG_Z) OR (if result > 0xFFFF then FLAG_C else 0) OR
                (if (ucast (get_hl s AND 0x0FFF) + ucast (rr AND 0x0FFF) :: 32 word) > 0x0FFF
                 then FLAG_H else 0)\<rparr>
      in set_hl (ucast (result AND 0xFFFF)) s)"

text \<open>
  Two statement groups that the switch repeats verbatim: the push of one byte
  (\<open>cpu.sp--; memory_write(cpu.sp, v);\<close>) and the pop of a 16-bit value
  (\<open>low = memory_read(cpu.sp++); high = memory_read(cpu.sp++);\<close> giving
  \<open>(high << 8) | low\<close>).
\<close>

definition push_byte :: "byte \<Rightarrow> 'a cpu_sys_scheme \<Rightarrow> 'a cpu_sys_scheme" where
  "push_byte v s =
     (let s = s\<lparr>cpu_sp := cpu_sp s - 1\<rparr>
      in memory_write (cpu_sp s) v s)"

definition pop_word :: "'a cpu_sys_scheme \<Rightarrow> addr \<times> 'a cpu_sys_scheme" where
  "pop_word s =
     (let low = memory_read s (cpu_sp s);
          s = s\<lparr>cpu_sp := cpu_sp s + 1\<rparr>;
          high = memory_read s (cpu_sp s);
          s = s\<lparr>cpu_sp := cpu_sp s + 1\<rparr>
      in (push_bit 8 (ucast high) OR ucast low, s))"

subsection \<open>The opcode switch of \<open>cpu_execute_instruction\<close>\<close>

text \<open>
  The \<open>case\<close> labels that both revisions of cpu.c share, in the order of the source
  and in five parts; \<open>None\<close> means that no label of the part matches.  The argument
  state is the one after the opcode fetch.
\<close>

definition opcode_switch_00 :: "byte \<Rightarrow> 'a cpu_sys_scheme \<Rightarrow> 'a cpu_sys_scheme option" where
  "opcode_switch_00 opcode s =
     (if opcode = 0x00 then Some s
      else if opcode = 0x01 then
        Some (let (w, s) = cpu_fetch_word s in set_bc w s)
      else if opcode = 0x02 then Some (memory_write (get_bc s) (cpu_a s) s)
      else if opcode = 0x03 then Some (set_bc (get_bc s + 1) s)
      else if opcode = 0x04 then
        Some (let s = s\<lparr>cpu_b := cpu_b s + 1\<rparr>
              in s\<lparr>cpu_f := (cpu_f s AND FLAG_C) OR (if cpu_b s = 0 then FLAG_Z else 0) OR
                      (if cpu_b s AND 0x0F = 0 then FLAG_H else 0)\<rparr>)
      else if opcode = 0x05 then
        Some (let s = s\<lparr>cpu_f := (cpu_f s AND FLAG_C) OR FLAG_N OR
                          (if cpu_b s AND 0x0F = 0 then FLAG_H else 0)\<rparr>;
                  s = s\<lparr>cpu_b := cpu_b s - 1\<rparr>
              in if cpu_b s = 0 then s\<lparr>cpu_f := cpu_f s OR FLAG_Z\<rparr> else s)
      else if opcode = 0x06 then
        Some (let (v, s) = cpu_fetch_byte s in s\<lparr>cpu_b := v\<rparr>)
      else if opcode = 0x07 then
        Some (let s = s\<lparr>cpu_f := (if cpu_a s AND 0x80 \<noteq> 0 then FLAG_C else 0)\<rparr>
              in s\<lparr>cpu_a := push_bit 1 (cpu_a s) OR
                      (if cpu_f s AND FLAG_C \<noteq> 0 then 0x01 else 0)\<rparr>)
      else if opcode = 0x08 then
        Some (let (addr, s) = cpu_fetch_word s;
                  s = memory_write addr (ucast (cpu_sp s AND 0xFF)) s
              in memory_write (addr + 1) (ucast (drop_bit 8 (cpu_sp s))) s)
      else if opcode = 0x09 then Some (add_hl (get_bc s) s)
      else if opcode = 0x0A then Some (s\<lparr>cpu_a := memory_read s (get_bc s)\<rparr>)
      else if opcode = 0x0B then Some (set_bc (get_bc s - 1) s)
      else if opcode = 0x0C then
        Some (let s = s\<lparr>cpu_c := cpu_c s + 1\<rparr>
              in s\<lparr>cpu_f := (cpu_f s AND FLAG_C) OR (if cpu_c s = 0 then FLAG_Z else 0) OR
                      (if cpu_c s AND 0x0F = 0 then FLAG_H else 0)\<rparr>)
      else if opcode = 0x0D then
        Some (let s = s\<lparr>cpu_f := (cpu_f s AND FLAG_C) OR FLAG_N OR
                          (if cpu_c s AND 0x0F = 0 then FLAG_H else 0)\<rparr>;
                  s = s\<lparr>cpu_c := cpu_c s - 1\<rparr>
              in if cpu_c s = 0 then s\<lparr>cpu_f := cpu_f s OR FLAG_Z\<rparr> else s)
      else if opcode = 0x0E then
        Some (let (v, s) = cpu_fetch_byte s in s\<lparr>cpu_c := v\<rparr>)
      else if opcode = 0x0F then
        Some (let s = s\<lparr>cpu_f := (if cpu_a s AND 0x01 \<noteq> 0 then FLAG_C else 0)\<rparr>
              in s\<lparr>cpu_a := drop_bit 1 (cpu_a s) OR
                      (if cpu_f s AND FLAG_C \<noteq> 0 then 0x80 else 0)\<rparr>)
      else if opcode = 0x11 then
        Some (let (w, s) = cpu_fetch_word s in set_de w s)
      else if opcode = 0x12 then Some (memory_write (get_de s) (cpu_a s) s)
      else if opcode = 0x13 then Some (set_de (get_de s + 1) s)
      else if opcode = 0x14 then
        Some (let s = s\<lparr>cpu_d := cpu_d s + 1\<rparr>
              in s\<lparr>cpu_f := (cpu_f s AND FLAG_C) OR (if cpu_d s = 0 then FLAG_Z else 0) OR
                      (if cpu_d s AND 0x0F = 0 then FLAG_H else 0)\<rparr>)
      else if opcode = 0x15 then
        Some (let s = s\<lparr>cpu_f := (cpu_f s AND FLAG_C) OR FLAG_N OR
                          (if cpu_d s AND 0x0F = 0 then FLAG_H else 0)\<rparr>;
                  s = s\<lparr>cpu_d := cpu_d s - 1\<rparr>
              in if cpu_d s = 0 then s\<lparr>cpu_f := cpu_f s OR FLAG_Z\<rparr> else s)
      else if opcode = 0x16 then
        Some (let (v, s) = cpu_fetch_byte s in s\<lparr>cpu_d := v\<rparr>)
      else if opcode = 0x19 then Some (add_hl (get_de s) s)
      else if opcode = 0x1A then Some (s\<lparr>cpu_a := memory_read s (get_de s)\<rparr>)
      else if opcode = 0x1B then Some (set_de (get_de s - 1) s)
      else if opcode = 0x1C then
        Some (let s = s\<lparr>cpu_e := cpu_e s + 1\<rparr>
              in s\<lparr>cpu_f := (cpu_f s AND FLAG_C) OR (if cpu_e s = 0 then FLAG_Z else 0) OR
                      (if cpu_e s AND 0x0F = 0 then FLAG_H else 0)\<rparr>)
      else if opcode = 0x1D then
        Some (let s = s\<lparr>cpu_f := (cpu_f s AND FLAG_C) OR FLAG_N OR
                          (if cpu_e s AND 0x0F = 0 then FLAG_H else 0)\<rparr>;
                  s = s\<lparr>cpu_e := cpu_e s - 1\<rparr>
              in if cpu_e s = 0 then s\<lparr>cpu_f := cpu_f s OR FLAG_Z\<rparr> else s)
      else if opcode = 0x1E then
        Some (let (v, s) = cpu_fetch_byte s in s\<lparr>cpu_e := v\<rparr>)
      else if opcode = 0x17 then
        Some (let old_carry = (if get_flag FLAG_C s then 1 else 0 :: byte);
                  s = s\<lparr>cpu_f := (if cpu_a s AND 0x80 \<noteq> 0 then FLAG_C else 0)\<rparr>
              in s\<lparr>cpu_a := push_bit 1 (cpu_a s) OR old_carry\<rparr>)
      else if opcode = 0x18 then
        Some (let (offset, s) = cpu_fetch_byte s
              in s\<lparr>cpu_pc := cpu_pc s + scast offset\<rparr>)
      else if opcode = 0x1F then
        Some (let old_carry = (if get_flag FLAG_C s then 0x80 else 0 :: byte);
                  s = s\<lparr>cpu_f := (if cpu_a s AND 0x01 \<noteq> 0 then FLAG_C else 0)\<rparr>
              in s\<lparr>cpu_a := drop_bit 1 (cpu_a s) OR old_carry\<rparr>)
      else None)"

definition opcode_switch_20 :: "byte \<Rightarrow> 'a cpu_sys_scheme \<Rightarrow> 'a cpu_sys_scheme option" where
  "opcode_switch_20 opcode s =
     (if opcode = 0x20 then
        Some (let (offset, s) = cpu_fetch_byte s
              in if \<not> get_flag FLAG_Z s then s\<lparr>cpu_pc := cpu_pc s + scast offset\<rparr> else s)
      else if opcode = 0x21 then
        Some (let (w, s) = cpu_fetch_word s in set_hl w s)
      else if opcode = 0x22 then
        Some (let s = memory_write (get_hl s) (cpu_a s) s in set_hl (get_hl s + 1) s)
      else if opcode = 0x23 then Some (set_hl (get_hl s + 1) s)
      else if opcode = 0x24 then
        Some (let s = s\<lparr>cpu_h := cpu_h s + 1\<rparr>
              in s\<lparr>cpu_f := (cpu_f s AND FLAG_C) OR (if cpu_h s = 0 then FLAG_Z else 0) OR
                      (if cpu_h s AND 0x0F = 0 then FLAG_H else 0)\<rparr>)
      else if opcode = 0x25 then
        Some (let s = s\<lparr>cpu_f := (cpu_f s AND FLAG_C) OR FLAG_N OR
                          (if cpu_h s AND 0x0F = 0 then FLAG_H else 0)\<rparr>;
                  s = s\<lparr>cpu_h := cpu_h s - 1\<rparr>
              in if cpu_h s = 0 then s\<lparr>cpu_f := cpu_f s OR FLAG_Z\<rparr> else s)
      else if opcode = 0x26 then
        Some (let (v, s) = cpu_fetch_byte s in s\<lparr>cpu_h := v\<rparr>)
      else if opcode = 0x27 then
        Some (let correction = (0 :: byte);
                  set_carry = False;
                  correction =
                    (if get_flag FLAG_H s \<or> (\<not> get_flag FLAG_N s \<and> (cpu_a s AND 0x0F) > 9)
                     then correction OR 0x06 else correction);
                  (correction, set_carry) =
                    (if get_flag FLAG_C s \<or> (\<not> get_flag FLAG_N s \<and> cpu_a s > 0x99)
                     then (correction OR 0x60, True) else (correction, set_carry));
                  s = (if get_flag FLAG_N s then s\<lparr>cpu_a := cpu_a s - correction\<rparr>
                       else s\<lparr>cpu_a := cpu_a s + correction\<rparr>);
                  s = s\<lparr>cpu_f := (cpu_f s AND FLAG_N) OR (if cpu_a s = 0 then FLAG_Z else 0)\<rparr>
              in if set_carry then s\<lparr>cpu_f := cpu_f s OR FLAG_C\<rparr> else s)
      else if opcode = 0x28 then
        Some (let (offset, s) = cpu_fetch_byte s
              in if get_flag FLAG_Z s then s\<lparr>cpu_pc := cpu_pc s + scast offset\<rparr> else s)
      else if opcode = 0x29 then Some (add_hl (get_hl s) s)
      else if opcode = 0x2A then
        Some (let s = s\<lparr>cpu_a := memory_read s (get_hl s)\<rparr> in set_hl (get_hl s + 1) s)
      else if opcode = 0x2C then
        Some (let s = s\<lparr>cpu_l := cpu_l s + 1\<rparr>
              in s\<lparr>cpu_f := (cpu_f s AND FLAG_C) OR (if cpu_l s = 0 then FLAG_Z else 0) OR
                      (if cpu_l s AND 0x0F = 0 then FLAG_H else 0)\<rparr>)
      else if opcode = 0x2F then
        Some (let s = s\<lparr>cpu_a := NOT (cpu_a s)\<rparr>
              in s\<lparr>cpu_f := cpu_f s OR (FLAG_N OR FLAG_H)\<rparr>)
      else if opcode = 0x31 then
        Some (let (w, s) = cpu_fetch_word s in s\<lparr>cpu_sp := w\<rparr>)
      else if opcode = 0x32 then
        Some (let s = memory_write (get_hl s) (cpu_a s) s in set_hl (get_hl s - 1) s)
      else if opcode = 0x35 then
        Some (let v = memory_read s (get_hl s);
                  s = s\<lparr>cpu_f := (cpu_f s AND FLAG_C) OR FLAG_N OR
                          (if v AND 0x0F = 0 then FLAG_H else 0)\<rparr>;
                  v = v - 1;
                  s = (if v = 0 then s\<lparr>cpu_f := cpu_f s OR FLAG_Z\<rparr> else s)
              in memory_write (get_hl s) v s)
      else if opcode = 0x36 then
        Some (let (v, s) = cpu_fetch_byte s in memory_write (get_hl s) v s)
      else if opcode = 0x37 then Some (s\<lparr>cpu_f := (cpu_f s AND FLAG_Z) OR FLAG_C\<rparr>)
      else if opcode = 0x3D then
        Some (let s = s\<lparr>cpu_f := (cpu_f s AND FLAG_C) OR FLAG_N OR
                          (if cpu_a s AND 0x0F = 0 then FLAG_H else 0)\<rparr>;
                  s = s\<lparr>cpu_a := cpu_a s - 1\<rparr>
              in if cpu_a s = 0 then s\<lparr>cpu_f := cpu_f s OR FLAG_Z\<rparr> else s)
      else if opcode = 0x3E then
        Some (let (v, s) = cpu_fetch_byte s in s\<lparr>cpu_a := v\<rparr>)
      else None)"

definition opcode_switch_40 :: "byte \<Rightarrow> 'a cpu_sys_scheme \<Rightarrow> 'a cpu_sys_scheme option" where
  "opcode_switch_40 opcode s =
     (if opcode = 0x44 then Some (s\<lparr>cpu_b := cpu_h s\<rparr>)
      else if opcode = 0x47 then Some (s\<lparr>cpu_b := cpu_a s\<rparr>)
      else if opcode = 0x4F then Some (s\<lparr>cpu_c := cpu_a s\<rparr>)
      else if opcode = 0x56 then Some (s\<lparr>cpu_d := memory_read s (get_hl s)\<rparr>)
      else if opcode = 0x57 then Some (s\<lparr>cpu_d := cpu_a s\<rparr>)
      else if opcode = 0x5E then Some (s\<lparr>cpu_e := memory_read s (get_hl s)\<rparr>)
      else if opcode = 0x5F then Some (s\<lparr>cpu_e := cpu_a s\<rparr>)
      else if opcode = 0x67 then Some (s\<lparr>cpu_h := cpu_a s\<rparr>)
      else if opcode = 0x6F then Some (s\<lparr>cpu_l := cpu_a s\<rparr>)
      else if opcode = 0x77 then Some (memory_write (get_hl s) (cpu_a s) s)
      else if opcode = 0x78 then Some (s\<lparr>cpu_a := cpu_b s\<rparr>)
      else if opcode = 0x79 then Some (s\<lparr>cpu_a := cpu_c s\<rparr>)
      else if opcode = 0x7A then Some (s\<lparr>cpu_a := cpu_d s\<rparr>)
      else if opcode = 0x7B then Some (s\<lparr>cpu_a := cpu_e s\<rparr>)
      else if opcode = 0x7C then Some (s\<lparr>cpu_a := cpu_h s\<rparr>)
      else if opcode = 0x7D then Some (s\<lparr>cpu_a := cpu_l s\<rparr>)
      else if opcode = 0x7E then Some (s\<lparr>cpu_a := memory_read s (get_hl s)\<rparr>)
      else if opcode = 0x7F then Some s
      else if opcode = 0x87 then
        Some (let result = (ucast (cpu_a s) + ucast (cpu_a s) :: 16 word);
                  s = s\<lparr>cpu_f := (if result AND 0xFF = 0 then FLAG_Z else 0)\<rparr>;
                  s = s\<lparr>cpu_f := cpu_f s OR (if result > 0xFF then FLAG_C else 0)\<rparr>;
                  s = s\<lparr>cpu_f := cpu_f s OR
                        (if unat (cpu_a s AND 0x0F) + unat (cpu_a s AND 0x0F) > 0x0F
                         then FLAG_H else 0)\<rparr>
              in s\<lparr>cpu_a := ucast (result AND 0xFF)\<rparr>)
      else if opcode = 0xA1 then
        Some (let s = s\<lparr>cpu_a := cpu_a s AND cpu_c s\<rparr>
              in s\<lparr>cpu_f := (if cpu_a s = 0 then FLAG_Z else 0) OR FLAG_H\<rparr>)
      else if opcode = 0xA7 then
        Some (s\<lparr>cpu_f := (if cpu_a s = 0 then FLAG_Z else 0) OR FLAG_H\<rparr>)
      else if opcode = 0xA9 then
        Some (let s = s\<lparr>cpu_a := cpu_a s XOR cpu_c s\<rparr>
              in s\<lparr>cpu_f := (if cpu_a s = 0 then FLAG_Z else 0)\<rparr>)
      else if opcode = 0xAE then
        Some (let s = s\<lparr>cpu_a := cpu_a s XOR memory_read s (get_hl s)\<rparr>
              in s\<lparr>cpu_f := (if cpu_a s = 0 then FLAG_Z else 0)\<rparr>)
      else if opcode = 0xAF then Some (s\<lparr>cpu_a := 0, cpu_f := FLAG_Z\<rparr>)
      else if opcode = 0xB0 then
        Some (let s = s\<lparr>cpu_a := cpu_a s OR cpu_b s\<rparr>
              in s\<lparr>cpu_f := (if cpu_a s = 0 then FLAG_Z else 0)\<rparr>)
      else if opcode = 0xB1 then
        Some (let s = s\<lparr>cpu_a := cpu_a s OR cpu_c s\<rparr>
              in s\<lparr>cpu_f := (if cpu_a s = 0 then FLAG_Z else 0)\<rparr>)
      else if opcode = 0xB7 then
        Some (s\<lparr>cpu_f := (if cpu_a s = 0 then FLAG_Z else 0)\<rparr>)
      else if opcode = 0xBE then
        Some (let v = memory_read s (get_hl s);
                  result = cpu_a s - v
              in s\<lparr>cpu_f := FLAG_N OR (if result = 0 then FLAG_Z else 0) OR
                      (if (cpu_a s AND 0x0F) < (v AND 0x0F) then FLAG_H else 0) OR
                      (if cpu_a s < v then FLAG_C else 0)\<rparr>)
      else None)"

definition opcode_switch_C0 :: "byte \<Rightarrow> 'a cpu_sys_scheme \<Rightarrow> 'a cpu_sys_scheme option" where
  "opcode_switch_C0 opcode s =
     (if opcode = 0xC0 then
        Some (if \<not> get_flag FLAG_Z s then
                (let (w, s) = pop_word s in s\<lparr>cpu_pc := w\<rparr>)
              else s)
      else if opcode = 0xC1 then
        Some (let (w, s) = pop_word s in set_bc w s)
      else if opcode = 0xC2 then
        Some (let (addr, s) = cpu_fetch_word s
              in if \<not> get_flag FLAG_Z s then s\<lparr>cpu_pc := addr\<rparr> else s)
      else if opcode = 0xC3 then
        Some (let (w, s) = cpu_fetch_word s in s\<lparr>cpu_pc := w\<rparr>)
      else if opcode = 0xC5 then
        Some (let s = push_byte (cpu_b s) s in push_byte (cpu_c s) s)
      else if opcode = 0xC6 then
        Some (let (v, s) = cpu_fetch_byte s;
                  result = (ucast (cpu_a s) + ucast v :: 16 word);
                  s = s\<lparr>cpu_f := (if result AND 0xFF = 0 then FLAG_Z else 0)\<rparr>;
                  s = s\<lparr>cpu_f := cpu_f s OR (if result > 0xFF then FLAG_C else 0)\<rparr>;
                  s = s\<lparr>cpu_f := cpu_f s OR
                        (if unat (cpu_a s AND 0x0F) + unat (v AND 0x0F) > 0x0F
                         then FLAG_H else 0)\<rparr>
              in s\<lparr>cpu_a := ucast (result AND 0xFF)\<rparr>)
      else if opcode = 0xC8 then
        Some (if get_flag FLAG_Z s then
                (let (w, s) = pop_word s in s\<lparr>cpu_pc := w\<rparr>)
              else s)
      else if opcode = 0xCA then
        Some (let (addr, s) = cpu_fetch_word s
              in if get_flag FLAG_Z s then s\<lparr>cpu_pc := addr\<rparr> else s)
      else if opcode = 0xCC then
        Some (let (addr, s) = cpu_fetch_word s
              in if get_flag FLAG_Z s then
                   (let s = push_byte (ucast (drop_bit 8 (cpu_pc s))) s;
                        s = push_byte (ucast (cpu_pc s AND 0xFF)) s
                    in s\<lparr>cpu_pc := addr\<rparr>)
                 else s)
      else if opcode = 0xD0 then
        Some (if \<not> get_flag FLAG_C s then
                (let (w, s) = pop_word s in s\<lparr>cpu_pc := w\<rparr>)
              else s)
      else if opcode = 0xD1 then
        Some (let (w, s) = pop_word s in set_de w s)
      else if opcode = 0xD2 then
        Some (let (addr, s) = cpu_fetch_word s
              in if \<not> get_flag FLAG_C s then s\<lparr>cpu_pc := addr\<rparr> else s)
      else if opcode = 0xD4 then
        Some (let (addr, s) = cpu_fetch_word s
              in if \<not> get_flag FLAG_C s then
                   (let s = push_byte (ucast (drop_bit 8 (cpu_pc s))) s;
                        s = push_byte (ucast (cpu_pc s AND 0xFF)) s
                    in s\<lparr>cpu_pc := addr\<rparr>)
                 else s)
      else if opcode = 0xD6 then
        Some (let (v, s) = cpu_fetch_byte s;
                  result = cpu_a s - v;
                  s = s\<lparr>cpu_f := FLAG_N OR (if result = 0 then FLAG_Z else 0) OR
                        (if (cpu_a s AND 0x0F) < (v AND 0x0F) then FLAG_H else 0) OR
                        (if cpu_a s < v then FLAG_C else 0)\<rparr>
              in s\<lparr>cpu_a := result\<rparr>)
      else if opcode = 0xD8 then
        Some (if get_flag FLAG_C s then
                (let (w, s) = pop_word s in s\<lparr>cpu_pc := w\<rparr>)
              else s)
      else if opcode = 0xDA then
        Some (let (addr, s) = cpu_fetch_word s
              in if get_flag FLAG_C s then s\<lparr>cpu_pc := addr\<rparr> else s)
      else if opcode = 0xDC then
        Some (let (addr, s) = cpu_fetch_word s
              in if get_flag FLAG_C s then
                   (let s = push_byte (ucast (drop_bit 8 (cpu_pc s))) s;
                        s = push_byte (ucast (cpu_pc s AND 0xFF)) s
                    in s\<lparr>cpu_pc := addr\<rparr>)
                 else s)
      else if opcode = 0xDE then
        Some (let (v, s) = cpu_fetch_byte s;
                  carry = (if get_flag FLAG_C s then 1 else 0 :: byte);
                  result = cpu_a s - v - carry;
                  s = s\<lparr>cpu_f := FLAG_N OR (if result = 0 then FLAG_Z else 0) OR
                        (if unat (cpu_a s AND 0x0F) < unat (v AND 0x0F) + unat carry
                         then FLAG_H else 0) OR
                        (if unat (cpu_a s) < unat v + unat carry then FLAG_C else 0)\<rparr>
              in s\<lparr>cpu_a := result\<rparr>)
      else if opcode = 0xC9 then
        Some (let (w, s) = pop_word s in s\<lparr>cpu_pc := w\<rparr>)
      else None)"

text \<open>
  The inner switch on the byte after the prefix 0xCB.  It has a \<open>default\<close> label in
  both revisions; the state passed is the one after both fetches.
\<close>

definition cb_switch :: "byte \<Rightarrow> 'a cpu_sys_scheme \<Rightarrow> 'a cpu_sys_scheme" where
  "cb_switch cb_opcode s =
     (if cb_opcode = 0x07 then
        (let s = s\<lparr>cpu_f := (if cpu_a s AND 0x80 \<noteq> 0 then FLAG_C else 0)\<rparr>;
             s = s\<lparr>cpu_a := push_bit 1 (cpu_a s) OR
                    (if cpu_f s AND FLAG_C \<noteq> 0 then 0x01 else 0)\<rparr>
         in s\<lparr>cpu_f := cpu_f s OR (if cpu_a s = 0 then FLAG_Z else 0)\<rparr>)
      else if cb_opcode = 0x0F then
        (let s = s\<lparr>cpu_f := (if cpu_a s AND 0x01 \<noteq> 0 then FLAG_C else 0)\<rparr>;
             s = s\<lparr>cpu_a := drop_bit 1 (cpu_a s) OR
                    (if cpu_f s AND FLAG_C \<noteq> 0 then 0x80 else 0)\<rparr>
         in s\<lparr>cpu_f := cpu_f s OR (if cpu_a s = 0 then FLAG_Z else 0)\<rparr>)
      else if cb_opcode = 0x17 then
        (let old_carry = (if get_flag FLAG_C s then 1 else 0 :: byte);
             s = s\<lparr>cpu_f := (if cpu_a s AND 0x80 \<noteq> 0 then FLAG_C else 0)\<rparr>;
             s = s\<lparr>cpu_a := push_bit 1 (cpu_a s) OR old_carry\<rparr>
         in s\<lparr>cpu_f := cpu_f s OR (if cpu_a s = 0 then FLAG_Z else 0)\<rparr>)
      else if cb_opcode = 0x1F then
        (let old_carry = (if get_flag FLAG_C s then 0x80 else 0 :: byte);
             s = s\<lparr>cpu_f := (if cpu_a s AND 0x01 \<noteq> 0 then FLAG_C else 0)\<rparr>;
             s = s\<lparr>cpu_a := drop_bit 1 (cpu_a s) OR old_carry\<rparr>
         in s\<lparr>cpu_f := cpu_f s OR (if cpu_a s = 0 then FLAG_Z else 0)\<rparr>)
      else if cb_opcode = 0x27 then
        (let s = s\<lparr>cpu_f := (if cpu_a s AND 0x80 \<noteq> 0 then FLAG_C else 0)\<rparr>;
             s = s\<lparr>cpu_a := push_bit 1 (cpu_a s)\<rparr>
         in s\<lparr>cpu_f := cpu_f s OR (if cpu_a s = 0 then FLAG_Z else 0)\<rparr>)
      else if cb_opcode = 0x2F then
        (let s = s\<lparr>cpu_f := (if cpu_a s AND 0x01 \<noteq> 0 then FLAG_C else 0)\<rparr>;
             s = s\<lparr>cpu_a := drop_bit 1 (cpu_a s) OR (cpu_a s AND 0x80)\<rparr>
         in s\<lparr>cpu_f := cpu_f s OR (if cpu_a s = 0 then FLAG_Z else 0)\<rparr>)
      else if cb_opcode = 0x37 then
        (let s = s\<lparr>cpu_a := push_bit 4 (cpu_a s AND 0x0F) OR drop_bit 4 (cpu_a s AND 0xF0)\<rparr>
         in s\<lparr>cpu_f := (if cpu_a s = 0 then FLAG_Z else 0)\<rparr>)
      else if cb_opcode = 0x3F then
        (let s = s\<lparr>cpu_f := (if cpu_a s AND 0x01 \<noteq> 0 then FLAG_C else 0)\<rparr>;
             s = s\<lparr>cpu_a := drop_bit 1 (cpu_a s)\<rparr>
         in s\<lparr>cpu_f := cpu_f s OR (if cpu_a s = 0 then FLAG_Z else 0)\<rparr>)
      else if cb_opcode = 0x7C then
        s\<lparr>cpu_f := (cpu_f s AND FLAG_C) OR FLAG_H OR
                (if cpu_h s AND 0x80 \<noteq> 0 then 0 else FLAG_Z)\<rparr>
      else if 0x40 \<le> cb_opcode \<and> cb_opcode \<le> 0x7F then
        (let bit = (cb_opcode - 0x40) div 8;
             reg = (cb_opcode - 0x40) mod 8;
             v = (if reg = 0 then cpu_b s
                  else if reg = 1 then cpu_c s
                  else if reg = 2 then cpu_d s
                  else if reg = 3 then cpu_e s
                  else if reg = 4 then cpu_h s
                  else if reg = 5 then cpu_l s
                  else if reg = 6 then memory_read s (get_hl s)
                  else if reg = 7 then cpu_a s
                  else 0)
         in s\<lparr>cpu_f := (cpu_f s AND FLAG_C) OR FLAG_H OR
                 (if v AND push_bit (unat bit) 1 \<noteq> 0 then 0 else FLAG_Z)\<rparr>)
      else if cb_opcode = 0x87 then s\<lparr>cpu_a := cpu_a s AND NOT 0x01\<rparr>
      else if cb_opcode = 0xC7 then s\<lparr>cpu_a := cpu_a s OR 0x01\<rparr>
      else printf (Unimplemented_CB_opcode cb_opcode (int (unat (cpu_pc s)) - 2)) s)"

definition opcode_switch_CB :: "byte \<Rightarrow> 'a cpu_sys_scheme \<Rightarrow> 'a cpu_sys_scheme option" where
  "opcode_switch_CB opcode s =
     (if opcode = 0xCB then
        Some (let (cb_opcode, s) = cpu_fetch_byte s in cb_switch cb_opcode s)
      else if opcode = 0xCD then
        Some (let (addr, s) = cpu_fetch_word s;
                  s = push_byte (ucast (drop_bit 8 (cpu_pc s))) s;
                  s = push_byte (ucast (cpu_pc s AND 0xFF)) s
              in s\<lparr>cpu_pc := addr\<rparr>)
      else if opcode = 0xCE then
        Some (let (v, s) = cpu_fetch_byte s;
                  carry = (if get_flag FLAG_C s then 1 else 0 :: byte);
                  result = (ucast (cpu_a s) + ucast v + ucast carry :: 16 word);
                  s = s\<lparr>cpu_f := (if result AND 0xFF = 0 then FLAG_Z else 0)\<rparr>;
                  s = s\<lparr>cpu_f := cpu_f s OR (if result > 0xFF then FLAG_C else 0)\<rparr>;
                  s = s\<lparr>cpu_f := cpu_f s OR
                        (if unat (cpu_a s AND 0x0F) + unat (v AND 0x0F) + unat carry > 0x0F
                         then FLAG_H else 0)\<rparr>
              in s\<lparr>cpu_a := ucast (result AND 0xFF)\<rparr>)
      else if opcode = 0xD5 then
        Some (let s = push_byte (cpu_d s) s in push_byte (cpu_e s) s)
      else if opcode = 0xE0 then
        Some (let (a8, s) = cpu_fetch_byte s
              in memory_write (0xFF00 + ucast a8) (cpu_a s) s)
      else if opcode = 0xE1 then
        Some (let (w, s) = pop_word s in set_hl w s)
      else if opcode = 0xE2 then
        Some (memory_write (0xFF00 + ucast (cpu_c s)) (cpu_a s) s)
      else if opcode = 0xE5 then
        Some (let s = push_byte (cpu_h s) s in push_byte (cpu_l s) s)
      else if opcode = 0xE6 then
        Some (let (v, s) = cpu_fetch_byte s;
                  s = s\<lparr>cpu_a := cpu_a s AND v\<rparr>
              in s\<lparr>cpu_f := (if cpu_a s = 0 then FLAG_Z else 0) OR FLAG_H\<rparr>)
      else if opcode = 0xE9 then Some (s\<lparr>cpu_pc := get_hl s\<rparr>)
      else if opcode = 0xEA then
        Some (let (addr, s) = cpu_fetch_word s in memory_write addr (cpu_a s) s)
      else if opcode = 0xEF then
        Some (let s = push_byte (ucast (drop_bit 8 (cpu_pc s))) s;
                  s = push_byte (ucast (cpu_pc s AND 0xFF)) s
              in s\<lparr>cpu_pc := 0x0028\<rparr>)
      else if opcode = 0xF0 then
        Some (let (a8, s) = cpu_fetch_byte s
              in s\<lparr>cpu_a := memory_read s (0xFF00 + ucast a8)\<rparr>)
      else if opcode = 0xF2 then
        Some (s\<lparr>cpu_a := memory_read s (0xFF00 + ucast (cpu_c s))\<rparr>)
      else if opcode = 0xF3 then Some (s\<lparr>cpu_interrupts_enabled := False\<rparr>)
      else if opcode = 0xF5 then
        Some (let s = push_byte (cpu_a s) s in push_byte (cpu_f s) s)
      else if opcode = 0xFA then
        Some (let (addr, s) = cpu_fetch_word s in s\<lparr>cpu_a := memory_read s addr\<rparr>)
      else if opcode = 0xFB then Some (s\<lparr>cpu_interrupts_enabled := True\<rparr>)
      else if opcode = 0xFE then
        Some (let (v, s) = cpu_fetch_byte s;
                  result = cpu_a s - v
              in s\<lparr>cpu_f := FLAG_N OR (if result = 0 then FLAG_Z else 0) OR
                      (if (cpu_a s AND 0x0F) < (v AND 0x0F) then FLAG_H else 0) OR
                      (if cpu_a s < v then FLAG_C else 0)\<rparr>)
      else None)"

definition opcode_switch :: "byte \<Rightarrow> 'a cpu_sys_scheme \<Rightarrow> 'a cpu_sys_scheme option" where
  "opcode_switch opcode s =
     (case opcode_switch_00 opcode s of
        Some t \<Rightarrow> Some t
      | None \<Rightarrow>
     (case opcode_switch_20 opcode s of
        Some t \<Rightarrow> Some t
      | None \<Rightarrow>
     (case opcode_switch_40 opcode s of
        Some t \<Rightarrow> Some t
      | None \<Rightarrow>
     (case opcode_switch_C0 opcode s of
        Some t \<Rightarrow> Some t
      | None \<Rightarrow> opcode_switch_CB opcode s))))"

subsection \<open>The two revisions of \<open>cpu_execute_instruction\<close>\<close>

text \<open>\<open>get_opcode_name\<close> of the logging revision (src/gameboy-emulator/src/cpu.c).\<close>

definition get_opcode_name :: "byte \<Rightarrow> string" where
  "get_opcode_name opcode =
    (if opcode = 0x00 then ''NOP''
     else if opcode = 0x01 then ''LD BC, d16''
     else if opcode = 0x02 then ''LD (BC), A''
     else if opcode = 0x03 then ''INC BC''
     else if opcode = 0x04 then ''INC B''
     else if opcode = 0x05 then ''DEC B''
     else if opcode = 0x06 then ''LD B, d8''
     else if opcode = 0x07 then ''RLCA''
     else if opcode = 0x08 then ''LD (a16), SP''
     else if opcode = 0x09 then ''ADD HL, BC''
     else if opcode = 0x0A then ''LD A, (BC)''
     else if opcode = 0x0B then ''DEC BC''
     else if opcode = 0x0C then ''INC C''
     else if opcode = 0x0D then ''DEC C''
     else if opcode = 0x0E then ''LD C, d8''
     else if opcode = 0x0F then ''RRCA''
     else if opcode = 0x11 then ''LD DE, d16''
     else if opcode = 0x12 then ''LD (DE), A''
     else if opcode = 0x13 then ''INC DE''
     else if opcode = 0x14 then ''INC D''
     else if opcode = 0x15 then ''DEC D''
     else if opcode = 0x16 then ''LD D, d8''
     else if opcode = 0x17 then ''RLA''
     else if opcode = 0x18 then ''JR r8''
     else if opcode = 0x19 then ''ADD HL, DE''
     else if opcode = 0x1A then ''LD A, (DE)''
     else if opcode = 0x1B then ''DEC DE''
     else if opcode = 0x1C then ''INC E''
     else if opcode = 0x1D then ''DEC E''
     else if opcode = 0x1E then ''LD E, d8''
     else if opcode = 0x1F then ''RRA''
     else if opcode = 0x20 then ''JR NZ, r8''
     else if opcode = 0x21 then ''LD HL, d16''
     else if opcode = 0x22 then ''LD (HL+), A''
     else if opcode = 0x23 then ''INC HL''
     else if opcode = 0x24 then ''INC H''
     else if opcode = 0x25 then ''DEC H''
     else if opcode = 0x26 then ''LD H, d8''
     else if opcode = 0x27 then ''DAA''
     else if opcode = 0x28 then ''JR Z, r8''
     else if opcode = 0x29 then ''ADD HL, HL''
     else if opcode = 0x2A then ''LD A, (HL+)''
     else if opcode = 0x2C then ''INC L''
     else if opcode = 0x2F then ''CPL''
     else if opcode = 0x31 then ''LD SP, d16''
     else if opcode = 0x32 then ''LD (HL-), A''
     else if opcode = 0x35 then ''DEC (HL)''
     else if opcode = 0x36 then ''LD (HL), d8''
     else if opcode = 0x37 then ''SCF''
     else if opcode = 0x3D then ''DEC A''
     else if opcode = 0x3E then ''LD A, d8''
     else if opcode = 0x44 then ''LD B, H''
     else if opcode = 0x47 then ''LD B, A''
     else if opcode = 0x4F then ''LD C, A''
     else if opcode = 0x56 then ''LD D, (HL)''
     else if opcode = 0x57 then ''LD D, A''
     else if opcode = 0x5E then ''LD E, (HL)''
     else if opcode = 0x5F then ''LD E, A''
     else if opcode = 0x67 then ''LD H, A''
     else if opcode = 0x6F then ''LD L, A''
     else if opcode = 0x77 then ''LD (HL), A''
     else if opcode = 0x78 then ''LD A, B''
     else if opcode = 0x79 then ''LD A, C''
     else if opcode = 0x7A then ''LD A, D''
     else if opcode = 0x7B then ''LD A, E''
     else if opcode = 0x7C then ''LD A, H''
     else if opcode = 0x7D then ''LD A, L''
     else if opcode = 0x7E then ''LD A, (HL)''
     else if opcode = 0x7F then ''LD A, A''
     else if opcode = 0x87 then ''ADD A, A''
     else if opcode = 0xA1 then ''AND C''
     else if opcode = 0xA7 then ''AND A''
     else if opcode = 0xA9 then ''XOR C''
     else if opcode = 0xAE then ''XOR (HL)''
     else if opcode = 0xAF then ''XOR A''
     else if opcode = 0xB0 then ''OR B''
     else if opcode = 0xB1 then ''OR C''
     else if opcode = 0xB7 then ''OR A''
     else if opcode = 0xBE then ''CP (HL)''
     else if opcode = 0xC0 then ''RET NZ''
     else if opcode = 0xC1 then ''POP BC''
     else if opcode = 0xC2 then ''JP NZ, a16''
     else if opcode = 0xC3 then ''JP a16''
     else if opcode = 0xC5 then ''PUSH BC''
     else if opcode = 0xC6 then ''ADD A, d8''
     else if opcode = 0xC8 then ''RET Z''
     else if opcode = 0xC9 then ''RET''
     else if opcode = 0xCA then ''JP Z, a16''
     else if opcode = 0xCB then ''CB PREFIX''
     else if opcode = 0xCC then ''CALL Z, a16''
     else if opcode = 0xCD then ''CALL a16''
     else if opcode = 0xCE then ''ADC A, d8''
     else if opcode = 0xD0 then ''RET NC''
     else if opcode = 0xD1 then ''POP DE''
     else if opcode = 0xD2 then ''JP NC, a16''
     else if opcode = 0xD4 then ''CALL NC, a16''
     else if opcode = 0xD5 then ''PUSH DE''
     else if opcode = 0xD6 then ''SUB d8''
     else if opcode = 0xD8 then ''RET C''
     else if opcode = 0xDA then ''JP C, a16''
     else if opcode = 0xDC then ''CALL C, a16''
     else if opcode = 0xDE then ''SBC A, d8''
     else if opcode = 0xE0 then ''LDH (a8), A''
     else if opcode = 0xE1 then ''POP HL''
     else if opcode = 0xE2 then ''LD (C), A''
     else if opcode = 0xE5 then ''PUSH HL''
     else if opcode = 0xE6 then ''AND d8''
     else if opcode = 0xE9 then ''JP (HL)''
     else if opcode = 0xEA then ''LD (a16), A''
     else if opcode = 0xEF then ''RST 28H''
     else if opcode = 0xF0 then ''LDH A, (a8)''
     else if opcode = 0xF2 then ''LD A, (C)''
     else if opcode = 0xF3 then ''DI''
     else if opcode = 0xF5 then ''PUSH AF''
     else if opcode = 0xFA then ''LD A, (a16)''
     else if opcode = 0xFB then ''EI''
     else if opcode = 0xFE then ''CP d8''
      else ''UNKNOWN'')"

text \<open>
  \<open>cpu_execute_instruction\<close> of src/gameboy-emulator/src/cpu.c: every instruction is
  logged at debug level before the switch, and the switch has no \<open>default\<close> label, so
  an opcode without a label does nothing further.
\<close>

definition cpu_execute_instruction :: "'a cpu_sys_scheme \<Rightarrow> 'a cpu_sys_scheme" where
  "cpu_execute_instruction s =
     (let current_pc = cpu_pc s;
          (opcode, s) = cpu_fetch_byte s;
          s = logger_log LOG_DEBUG
                (Executing current_pc opcode (get_opcode_name opcode)
                   [cpu_a s, cpu_f s, cpu_b s, cpu_c s, cpu_d s, cpu_e s, cpu_h s, cpu_l s]
                   (cpu_sp s)) s
      in case opcode_switch opcode s of
           Some t \<Rightarrow> t
         | None \<Rightarrow> s)"

definition execute_cpu_cycle :: "'a cpu_sys_scheme \<Rightarrow> 'a cpu_sys_scheme" where
  "execute_cpu_cycle s = (if cpu_halted s then s else cpu_execute_instruction s)"

text \<open>
  \<open>cpu_execute_instruction\<close> of the revision in src/unnamed/part_001: no logging, the
  halted test inside the function, and two more labels at the end of the switch,
  \<open>case 0x76\<close> (HALT) and \<open>default\<close>, which prints the opcode and \<open>cpu.pc - 1\<close>.
\<close>

definition cpu_execute_instruction_p1 :: "'a cpu_sys_scheme \<Rightarrow> 'a cpu_sys_scheme" where
  "cpu_execute_instruction_p1 s =
     (if cpu_halted s then s
      else
        (let (opcode, s) = cpu_fetch_byte s
         in case opcode_switch opcode s of
              Some t \<Rightarrow> t
            | None \<Rightarrow>
                if opcode = 0x76 then s\<lparr>cpu_halted := True\<rparr>
                else printf (Unimplemented_opcode opcode (int (unat (cpu_pc s)) - 1)) s))"

text \<open>
  The labels of the shared switch, and the test whether the inner switch after 0xCB has
  a label for a byte (its BIT labels cover 0x40 to 0x7F).
\<close>

definition opcode_labels :: "byte list" where
  "opcode_labels =
     [0x00, 0x01, 0x02, 0x03, 0x04, 0x05, 0x06, 0x07, 0x08, 0x09, 0x0A, 0x0B, 0x0C, 0x0D,
      0x0E, 0x0F, 0x11, 0x12, 0x13, 0x14, 0x15, 0x16, 0x19, 0x1A, 0x1B, 0x1C, 0x1D, 0x1E,
      0x17, 0x18, 0x1F, 0x20, 0x21, 0x22, 0x23, 0x24, 0x25, 0x26, 0x27, 0x28, 0x29, 0x2A,
      0x2C, 0x2F, 0x31, 0x32, 0x35, 0x36, 0x37, 0x3D, 0x3E, 0x44, 0x47, 0x4F, 0x56, 0x57,
      0x5E, 0x5F, 0x67, 0x6F, 0x77, 0x78, 0x79, 0x7A, 0x7B, 0x7C, 0x7D, 0x7E, 0x7F, 0x87,
      0xA1, 0xA7, 0xA9, 0xAE, 0xAF, 0xB0, 0xB1, 0xB7, 0xBE, 0xC0, 0xC1, 0xC2, 0xC3, 0xC5,
      0xC6, 0xC8, 0xCA, 0xCC, 0xD0, 0xD1, 0xD2, 0xD4, 0xD6, 0xD8, 0xDA, 0xDC, 0xDE, 0xC9,
      0xCB, 0xCD, 0xCE, 0xD5, 0xE0, 0xE1, 0xE2, 0xE5, 0xE6, 0xE9, 0xEA, 0xEF, 0xF0, 0xF2,
      0xF3, 0xF5, 0xFA, 0xFB, 0xFE]"

definition cb_labelled :: "byte \<Rightarrow> bool" where
  "cb_labelled cb_opcode =
     (cb_opcode \<in> set [0x07, 0x0F, 0x17, 0x1F, 0x27, 0x2F, 0x37, 0x3F, 0x7C, 0x87, 0xC7] \<or>
      (0x40 \<le> cb_opcode \<and> cb_opcode \<le> 0x7F))"

subsection \<open>Vocabulary for the CPU properties\<close>

text \<open>
  The state in which the switch of the logging revision starts: the opcode fetched and
  the debug line written.  Then the opcodes of the 8-bit INC and DEC instructions that
  have a \<open>case\<close> label, and the operand each of them works on.
\<close>

definition cpu_after_fetch :: "'a cpu_sys_scheme \<Rightarrow> 'a cpu_sys_scheme" where
  "cpu_after_fetch s =
     logger_log LOG_DEBUG
       (Executing (cpu_pc s) (memory_read s (cpu_pc s))
          (get_opcode_name (memory_read s (cpu_pc s)))
          [cpu_a s, cpu_f s, cpu_b s, cpu_c s, cpu_d s, cpu_e s, cpu_h s, cpu_l s] (cpu_sp s))
       (s\<lparr>cpu_pc := cpu_pc s + 1\<rparr>)"

definition inc8_opcodes :: "byte list" where
  "inc8_opcodes = [0x04, 0x0C, 0x14, 0x1C, 0x24, 0x2C]"

definition dec8_opcodes :: "byte list" where
  "dec8_opcodes = [0x05, 0x0D, 0x15, 0x1D, 0x25, 0x35, 0x3D]"

definition operand8 :: "byte \<Rightarrow> 'a cpu_sys_scheme \<Rightarrow> byte" where
  "operand8 opcode s =
     (if opcode = 0x04 \<or> opcode = 0x05 then cpu_b s
      else if opcode = 0x0C \<or> opcode = 0x0D then cpu_c s
      else if opcode = 0x14 \<or> opcode = 0x15 then cpu_d s
      else if opcode = 0x1C \<or> opcode = 0x1D then cpu_e s
      else if opcode = 0x24 \<or> opcode = 0x25 then cpu_h s
      else if opcode = 0x2C then cpu_l s
      else if opcode = 0x35 then memory_read s (get_hl s)
      else cpu_a s)"

text \<open>
  The invariant of the register file: the low nibble of F is clear, and PC and SP are
  values below 65536.  A zeroed machine state, for concrete instances.
\<close>

definition cpu_invariant :: "'a cpu_sys_scheme \<Rightarrow> bool" where
  "cpu_invariant s =
     (cpu_f s AND 0x0F = 0 \<and> unat (cpu_pc s) < 65536 \<and> unat (cpu_sp s) < 65536)"

definition cpu_blank :: cpu_sys where
  "cpu_blank =
     \<lparr>memory = (\<lambda>_. 0), current_cartridge = None,
      cpu_a = 0, cpu_f = 0, cpu_b = 0, cpu_c = 0, cpu_d = 0, cpu_e = 0, cpu_h = 0, cpu_l = 0,
      cpu_pc = 0, cpu_sp = 0, cpu_halted = False, cpu_interrupts_enabled = False,
      console = [], log_file = False, log_lines = []\<rparr>"

text \<open>
  The conditional absolute jumps and calls that have a \<open>case\<close> label (JP NZ, JP Z,
  JP NC, JP C, CALL Z, CALL NC, CALL C), the condition each of them tests, and a state
  that is about to execute JP NZ with the Z flag set.
\<close>

definition cond_jump_opcodes :: "byte list" where
  "cond_jump_opcodes = [0xC2, 0xCA, 0xD2, 0xDA, 0xCC, 0xD4, 0xDC]"

definition cond_holds :: "byte \<Rightarrow> 'a cpu_sys_scheme \<Rightarrow> bool" where
  "cond_holds opcode s =
     (if opcode = 0xC2 then \<not> get_flag FLAG_Z s
      else if opcode = 0xCA \<or> opcode = 0xCC then get_flag FLAG_Z s
      else if opcode = 0xD2 \<or> opcode = 0xD4 then \<not> get_flag FLAG_C s
      else get_flag FLAG_C s)"

definition jp_nz_state :: cpu_sys where
  "jp_nz_state = cpu_blank\<lparr>memory := (\<lambda>_. 0)(0xC000 := 0xC2), cpu_f := 0x80, cpu_pc := 0xC000\<rparr>"

text \<open>
  Three states for concrete instances: one about to execute INC B with B = 0xFF, one
  about to execute DEC (HL) on the byte 0x10 at 0xC100, and one about to execute the
  byte 0x3C (INC A on the hardware, without a \<open>case\<close> label here) with A = 0x0F; in all
  of them the carry flag is set.
\<close>

definition inc_b_state :: cpu_sys where
  "inc_b_state = cpu_blank\<lparr>memory := (\<lambda>_. 0)(0xC000 := 0x04), cpu_f := 0x10, cpu_b := 0xFF,
     cpu_pc := 0xC000\<rparr>"

definition dec_hl_state :: cpu_sys where
  "dec_hl_state = cpu_blank\<lparr>memory := (\<lambda>_. 0)(0xC000 := 0x35, 0xC100 := 0x10), cpu_f := 0x10,
     cpu_h := 0xC1, cpu_l := 0x00, cpu_pc := 0xC000\<rparr>"

definition inc_a_state :: cpu_sys where
  "inc_a_state = cpu_blank\<lparr>memory := (\<lambda>_. 0)(0xC000 := 0x3C), cpu_a := 0x0F, cpu_f := 0x10,
     cpu_pc := 0xC000\<rparr>"

text \<open>
  The PUSH and POP opcodes that have a \<open>case\<close> label, the register pair (high byte,
  low byte) each PUSH stores and the setter each POP calls; a state about to execute
  PUSH BC and then POP DE from work RAM with BC = 0x1234 and SP = 0xFFFE, and the same
  state with SP = 0x8000, where the two stack bytes lie in the cartridge window.
\<close>

definition push_opcodes :: "byte list" where
  "push_opcodes = [0xC5, 0xD5, 0xE5, 0xF5]"

definition pop_opcodes :: "byte list" where
  "pop_opcodes = [0xC1, 0xD1, 0xE1]"

definition push_pair :: "byte \<Rightarrow> 'a cpu_sys_scheme \<Rightarrow> byte \<times> byte" where
  "push_pair opcode s =
     (if opcode = 0xC5 then (cpu_b s, cpu_c s)
      else if opcode = 0xD5 then (cpu_d s, cpu_e s)
      else if opcode = 0xE5 then (cpu_h s, cpu_l s)
      else (cpu_a s, cpu_f s))"

definition pop_store :: "byte \<Rightarrow> addr \<Rightarrow> 'a cpu_sys_scheme \<Rightarrow> 'a cpu_sys_scheme" where
  "pop_store opcode w s =
     (if opcode = 0xC1 then set_bc w s
      else if opcode = 0xD1 then set_de w s
      else set_hl w s)"

definition push_bc_state :: cpu_sys where
  "push_bc_state =
     cpu_blank\<lparr>memory := (\<lambda>_. 0)(0xC000 := 0xC5, 0xC001 := 0xD1),
       cpu_b := 0x12, cpu_c := 0x34, cpu_pc := 0xC000, cpu_sp := 0xFFFE\<rparr>"

definition push_rom_state :: cpu_sys where
  "push_rom_state = push_bc_state\<lparr>cpu_sp := 0x8000\<rparr>"

text \<open>
  Three states for concrete instances: one about to execute the byte 0xD3, which has
  no label, at 0xC000, one about to execute it at 0xFFFF, and one about to execute
  0xCB 0x00, whose second byte has no label; the log file is closed in all of them.
\<close>

definition unknown_op_state :: cpu_sys where
  "unknown_op_state = cpu_blank\<lparr>memory := (\<lambda>_. 0)(0xC000 := 0xD3), cpu_pc := 0xC000\<rparr>"

definition unknown_wrap_state :: cpu_sys where
  "unknown_wrap_state = cpu_blank\<lparr>memory := (\<lambda>_. 0)(0xFFFF := 0xD3), cpu_pc := 0xFFFF\<rparr>"

definition unknown_cb_state :: cpu_sys where
  "unknown_cb_state = cpu_blank\<lparr>memory := (\<lambda>_. 0)(0xC000 := 0xCB), cpu_pc := 0xC000\<rparr>"

chapter \<open>Verified properties\<close>

section \<open>Properties of the memory bus\<close>

lemma memory_write_echo:
  "0xE000 \<le> address \<Longrightarrow> address < 0xFE00 \<Longrightarrow>
   memory_read (memory_write address v s) address = v \<and>
   memory_read (memory_write address v s) (address - 0x2000) = v"
proof -
  assume lo: "0xE000 \<le> address" and hi: "address < 0xFE00"
  from lo have "\<not> address < 0x8000" by (simp add: word_le_nat_alt word_less_nat_alt)
  moreover from lo hi have "\<not> address - 0x2000 < 0x8000"
    by (simp add: word_le_nat_alt word_less_nat_alt unat_sub_if')
  ultimately show ?thesis using lo hi
    by (simp add: memory_read_def memory_write_def)
qed

text \<open>
  C2.  A byte written to an echo address (0xE000 to 0xFDFF) is mirrored into work RAM,
  but the mirror is one-way: a byte written to the work-RAM address 0xC010 is stored
  there only, and a later read of the echo address 0xE010 returns the old content of
  \<open>memory[0xE010]\<close> (0 after \<open>memory_init\<close>), not the byte written.
\<close>

theorem wram_write_not_echoed:
  "memory_read (memory_write 0xC010 0xAB
     (memory_init \<lparr>memory = m, current_cartridge = None\<rparr>)) 0xE010 = 0 \<and>
   memory_read (memory_write 0xC010 0xAB
     (memory_init \<lparr>memory = m, current_cartridge = None\<rparr>)) 0xC010 = 0xAB"
  by (simp add: memory_read_def memory_write_def memory_init_def)

text \<open>
  C9.  A cartridge read with no cartridge loaded, or at an address at or beyond the
  length of the loaded buffer, returns 0xFF (the function is total: there is no error
  result); hence a bus read below 0x8000 with no cartridge loaded returns 0xFF.
\<close>

theorem cartridge_read_unmapped:
  "cartridge_read None address = 0xFF \<and>
   (cart_size c \<le> unat address \<longrightarrow> cartridge_read (Some c) address = 0xFF) \<and>
   (address < 0x8000 \<and> current_cartridge s = None \<longrightarrow> memory_read s address = 0xFF)"
  by (simp add: cartridge_read_def memory_read_def)

theorem cartridge_read_unmapped_witness:
  "cartridge_read None 0x0150 = 0xFF \<and>
   cart_size \<lparr>cart_data = [1, 2], cart_title = [], cart_type = 0\<rparr> \<le> unat (5 :: addr) \<and>
   cartridge_read (Some \<lparr>cart_data = [1, 2], cart_title = [], cart_type = 0\<rparr>) 5 = 0xFF \<and>
   (0x0150 :: addr) < 0x8000 \<and>
   memory_read \<lparr>memory = (\<lambda>_. 0), current_cartridge = None\<rparr> 0x0150 = 0xFF"
  using cartridge_read_unmapped
    [of "0x0150" "\<lparr>cart_data = [1, 2], cart_title = [], cart_type = 0\<rparr>"
        "\<lparr>memory = (\<lambda>_. 0), current_cartridge = None\<rparr>"]
    cartridge_read_unmapped
    [of 5 "\<lparr>cart_data = [1, 2], cart_title = [], cart_type = 0\<rparr>"
        "\<lparr>memory = (\<lambda>_. 0), current_cartridge = None\<rparr>"]
  by (simp add: cart_size_def)

section \<open>Properties of the timer\<close>

lemma and3_cases:
  "(x::byte) AND 0x03 = 0 \<or> x AND 0x03 = 1 \<or> x AND 0x03 = 2 \<or> x AND 0x03 = 3"
proof -
  have "unat (x AND 0x03) \<le> 3"
    using word_and_le1 [of x 3] by (simp add: word_le_nat_alt)
  then have "unat (x AND 3) = 0 \<or> unat (x AND 3) = 1 \<or> unat (x AND 3) = 2 \<or> unat (x AND 3) = 3"
    by linarith
  then show ?thesis
    by (simp add: word_unat_eq_iff)
qed

lemma timer_threshold_nth: "timer_threshold tac = [1024, 16, 64, 256] ! unat (tac AND 0x03)"
  using and3_cases [of tac] by (auto simp: timer_threshold_def)

lemma timer_update_result:
  "timer_update cycles s =
     (let dc = divider_cycles s + cycles;
          tac = memory s 0xFF07;
          tc = timer_cycles s + cycles;
          thr = timer_threshold tac;
          tima = memory s 0xFF05
      in s\<lparr>divider_cycles := (if dc \<ge> 256 then dc - 256 else dc),
            timer_cycles :=
              (if tac AND 0x04 \<noteq> 0 then (if tc \<ge> thr then tc - thr else tc)
               else timer_cycles s),
            memory := (memory s)
               (0xFF04 := (if dc \<ge> 256 then memory s 0xFF04 + 1 else memory s 0xFF04),
                0xFF05 := (if tac AND 0x04 \<noteq> 0 \<and> tc \<ge> thr
                           then (if tima = 0xFF then memory s 0xFF06 else tima + 1)
                           else tima))\<rparr>)"
  apply (simp add: timer_update_def Let_def memory_read_def memory_write_def)
  apply (auto simp: fun_upd_twist)
  done

text \<open>
  C5.  One call \<open>timer_update cycles\<close>: the divider accumulator is increased by
  \<open>cycles\<close> (16-bit addition) and, when the sum has reached 256, reduced by 256 while the
  byte at 0xFF04 is incremented modulo 256.  When bit 2 of the byte at 0xFF07 is set,
  the TIMA accumulator is increased by \<open>cycles\<close>; the threshold is the entry of
  [1024, 16, 64, 256] selected by the low two bits of 0xFF07; when the accumulator has
  reached it, the threshold is subtracted and the byte at 0xFF05 is incremented, except
  that the value 0xFF is replaced by the byte at 0xFF06.  When bit 2 is clear the TIMA
  accumulator and 0xFF05 keep their values.  Nothing else changes.
\<close>

theorem timer_update_correct:
  "timer_update cycles s =
     (let dc = divider_cycles s + cycles;
          tac = memory s 0xFF07;
          tc = timer_cycles s + cycles;
          thr = [1024, 16, 64, 256] ! unat (tac AND 0x03);
          tima = memory s 0xFF05
      in s\<lparr>divider_cycles := (if dc \<ge> 256 then dc - 256 else dc),
            timer_cycles :=
              (if tac AND 0x04 \<noteq> 0 then (if tc \<ge> thr then tc - thr else tc)
               else timer_cycles s),
            memory := (memory s)
               (0xFF04 := (if dc \<ge> 256 then memory s 0xFF04 + 1 else memory s 0xFF04),
                0xFF05 := (if tac AND 0x04 \<noteq> 0 \<and> tc \<ge> thr
                           then (if tima = 0xFF then memory s 0xFF06 else tima + 1)
                           else tima))\<rparr>)"
  by (simp only: timer_update_result timer_threshold_nth)

theorem timer_update_correct_witness:
  "divider_cycles (timer_update 4
     \<lparr>memory = (\<lambda>_. 0)(0xFF04 := 0xFF, 0xFF05 := 0xFF, 0xFF06 := 0x42, 0xFF07 := 0x05),
      current_cartridge = None, divider_cycles = 252, timer_cycles = 12\<rparr>) = 0 \<and>
   timer_cycles (timer_update 4
     \<lparr>memory = (\<lambda>_. 0)(0xFF04 := 0xFF, 0xFF05 := 0xFF, 0xFF06 := 0x42, 0xFF07 := 0x05),
      current_cartridge = None, divider_cycles = 252, timer_cycles = 12\<rparr>) = 0 \<and>
   memory (timer_update 4
     \<lparr>memory = (\<lambda>_. 0)(0xFF04 := 0xFF, 0xFF05 := 0xFF, 0xFF06 := 0x42, 0xFF07 := 0x05),
      current_cartridge = None, divider_cycles = 252, timer_cycles = 12\<rparr>) 0xFF04 = 0 \<and>
   memory (timer_update 4
     \<lparr>memory = (\<lambda>_. 0)(0xFF04 := 0xFF, 0xFF05 := 0xFF, 0xFF06 := 0x42, 0xFF07 := 0x05),
      current_cartridge = None, divider_cycles = 252, timer_cycles = 12\<rparr>) 0xFF05 = 0x42"
  using timer_update_correct [of 4
     "\<lparr>memory = (\<lambda>_. 0)(0xFF04 := 0xFF, 0xFF05 := 0xFF, 0xFF06 := 0x42, 0xFF07 := 0x05),
      current_cartridge = None, divider_cycles = 252, timer_cycles = 12\<rparr>"]
  by (simp add: Let_def)

section \<open>Properties of the PPU\<close>

lemma unat_byte_succ: "unat (l::byte) < 255 \<Longrightarrow> unat (l + 1) = unat l + 1"
  by (simp add: unat_word_ariths)

lemma unat_cyc_add:
  "unat (cy::16 word) + unat (c::16 word) < 60000 \<Longrightarrow> unat (cy + c) = unat cy + unat c"
  by (simp add: unat_word_ariths)

lemma cyc_exact:
  assumes "unat (c::16 word) * N = T" and "0 < N"
  shows "c * of_nat (N - 1) + c = of_nat T"
proof -
  from assms(2) obtain k where N: "N = k + 1" by (cases N) auto
  have "(of_nat T :: 16 word) = of_nat (unat c * (k + 1))" using assms(1) N by simp
  also have "\<dots> = c * of_nat (k + 1)" by (simp add: algebra_simps)
  also have "\<dots> = c * of_nat k + c" by (simp add: algebra_simps)
  finally show ?thesis using N by simp
qed

lemma render_scanline_frame:
  "unat line < 144 \<Longrightarrow> \<exists>fb. render_scanline line s = Some (s\<lparr>ppu_framebuffer := fb\<rparr>)"
proof (cases "memory_read s LCDC AND 0x80 = 0 \<or> memory_read s LCDC AND 0x01 = 0")
  case True
  then have "render_scanline line s = Some (s\<lparr>ppu_framebuffer := ppu_framebuffer s\<rparr>)"
    by (simp add: render_scanline_def Let_def)
  then show ?thesis by blast
next
  case False
  assume "unat line < 144"
  with False show ?thesis
    by (auto simp add: render_scanline_def Let_def)
qed

lemma step_stay:
  assumes "ppu_at m l cy s" and "m = 0 \<or> m = 1 \<or> m = 2 \<or> m = 3"
    and "unat cy + unat c < (if m = 0 then 204 else if m = 1 then 456 else if m = 2 then 80 else 172)"
  shows "ppu_step_to c s False m l (cy + c)"
proof -
  have u: "unat (cy + c) = unat cy + unat c"
    using assms(3) by (intro unat_cyc_add) (auto split: if_splits)
  show ?thesis using assms u
    by (auto simp: ppu_step_to_def ppu_update_def ppu_at_def ppu_lcd_enabled_def Let_def
        memory_read_def memory_write_def word_le_nat_alt split: if_splits)
qed

lemma step_oam: "ppu_at 2 l cy s \<Longrightarrow> cy + c = 80 \<Longrightarrow> ppu_step_to c s False 3 l 0"
  by (auto simp: ppu_step_to_def ppu_update_def ppu_at_def ppu_lcd_enabled_def Let_def
        memory_read_def memory_write_def)

lemma step_pt: "ppu_at 3 l cy s \<Longrightarrow> cy + c = 172 \<Longrightarrow> ppu_step_to c s False 0 l 0"
  by (auto simp: ppu_step_to_def ppu_update_def ppu_at_def ppu_lcd_enabled_def Let_def
        memory_read_def memory_write_def)

lemma step_vb:
  assumes "ppu_at 1 l cy s" "cy + c = 456" "unat l < 153"
  shows "ppu_step_to c s False 1 (l + 1) 0"
proof -
  have "unat (l + 1) = unat l + 1" using assms(3) by (simp add: unat_byte_succ)
  then have "\<not> l + 1 > 153" using assms(3) by (simp add: word_less_nat_alt)
  then show ?thesis using assms(1,2)
  by (auto simp: ppu_step_to_def ppu_update_def ppu_at_def ppu_lcd_enabled_def Let_def
        memory_read_def memory_write_def)
qed

lemma step_vb_last: "ppu_at 1 153 cy s \<Longrightarrow> cy + c = 456 \<Longrightarrow> ppu_step_to c s False 2 0 0"
  by (auto simp: ppu_step_to_def ppu_update_def ppu_at_def ppu_lcd_enabled_def Let_def
        memory_read_def memory_write_def)

lemma step_hb:
  assumes "ppu_at 0 l cy s" "cy + c = 204" "unat l < 143"
  shows "ppu_step_to c s False 2 (l + 1) 0"
proof -
  let ?s1 = "memory_write LY (l + 1) (s\<lparr>ppu_cycles := 0, ppu_line := l + 1\<rparr>)"
  have ul: "unat (l + 1) = unat l + 1" using assms(3) by (simp add: unat_byte_succ)
  then have ne: "l + 1 \<noteq> 144" using assms(3) by (auto simp: word_unat_eq_iff)
  obtain fb where fb: "render_scanline l ?s1 = Some (?s1\<lparr>ppu_framebuffer := fb\<rparr>)"
    using render_scanline_frame [of l ?s1] assms(3) by auto
  show ?thesis using assms(1,2) ne fb
  by (auto simp: ppu_step_to_def ppu_update_def ppu_at_def ppu_lcd_enabled_def Let_def
        memory_read_def memory_write_def)
qed

lemma step_hb_last:
  assumes "ppu_at 0 143 cy s" "cy + c = 204"
  shows "ppu_step_to c s True 1 144 0"
proof -
  let ?s1 = "memory_write LY 144 (s\<lparr>ppu_cycles := 0, ppu_line := 144\<rparr>)"
  obtain fb where fb: "render_scanline 143 ?s1 = Some (?s1\<lparr>ppu_framebuffer := fb\<rparr>)"
    using render_scanline_frame [of 143 ?s1] by auto
  show ?thesis using assms fb
  by (auto simp: ppu_step_to_def ppu_update_def ppu_at_def ppu_lcd_enabled_def Let_def
        memory_read_def memory_write_def)
qed

lemma ppu_drive_append:
  "ppu_drive c n1 s = Some (tr1, s1) \<Longrightarrow> ppu_drive c n2 s1 = Some (tr2, s2) \<Longrightarrow>
   ppu_drive c (n1 + n2) s = Some (tr1 @ tr2, s2)"
proof (induction n1 arbitrary: s tr1)
  case 0
  then show ?case by simp
next
  case (Suc n)
  then show ?case
    by (auto simp: Let_def split: option.splits if_splits)
qed

text \<open>With 4 cycles per call a step of the driver is a step of the main loop.\<close>

lemma ppu_drive_main_loop:
  "ppu_drive 4 (Suc n) s =
     (case update_ppu s of
        None \<Rightarrow> None
      | Some s1 \<Rightarrow>
          (let ready = ppu_is_frame_ready s1;
               s2 = (if ready then ppu_render_frame s1 else s1)
           in case ppu_drive 4 n s2 of
                None \<Rightarrow> None
              | Some (tr, t) \<Rightarrow> Some ((ppu_mode s, ppu_line s, ready) # tr, t)))"
  by (simp add: update_ppu_def)

lemma ppu_drives_trans:
  assumes "ppu_drives c n1 (s :: 'a ppu_sys_scheme) tr1 m1 l1 c1 d1"
    and "\<And>s1 :: 'a ppu_sys_scheme. ppu_at m1 l1 c1 s1 \<Longrightarrow> ppu_drives c n2 s1 tr2 m2 l2 c2 d2"
  shows "ppu_drives c (n1 + n2) s (tr1 @ tr2) m2 l2 c2 (d1 + d2)"
proof -
  from assms(1) obtain s1 where 1: "ppu_drive c n1 s = Some (tr1, s1)" "ppu_at m1 l1 c1 s1"
    "ppu_frame_count s1 = ppu_frame_count s + d1" by (auto simp: ppu_drives_def)
  from assms(2) [OF 1(2)] obtain s2 where 2: "ppu_drive c n2 s1 = Some (tr2, s2)"
    "ppu_at m2 l2 c2 s2" "ppu_frame_count s2 = ppu_frame_count s1 + d2"
    by (auto simp: ppu_drives_def)
  from ppu_drive_append [OF 1(1) 2(1)] 1(3) 2(2) 2(3) show ?thesis
    by (auto simp: ppu_drives_def)
qed

lemma ppu_drives_step:
  "ppu_at m l cy s \<Longrightarrow> ppu_step_to c s False m' l' c' \<Longrightarrow>
   ppu_drives c 1 s [(m, l, False)] m' l' c' 0"
  by (auto simp: ppu_drives_def ppu_step_to_def ppu_at_def ppu_is_frame_ready_def)

lemma ppu_drives_step_ready:
  "ppu_at m l cy s \<Longrightarrow> ppu_step_to c s True m' l' c' \<Longrightarrow>
   ppu_drives c 1 s [(m, l, True)] m' l' c' 1"
  by (auto simp: ppu_drives_def ppu_step_to_def ppu_at_def ppu_is_frame_ready_def ppu_render_frame_def
      ppu_lcd_enabled_def memory_read_def)

lemma ppu_drives_stay:
  "ppu_at m l cy (s :: 'a ppu_sys_scheme) \<Longrightarrow> m = 0 \<or> m = 1 \<or> m = 2 \<or> m = 3 \<Longrightarrow>
   unat cy + unat c * k < (if m = 0 then 204 else if m = 1 then 456 else if m = 2 then 80 else 172) \<Longrightarrow>
   ppu_drives c k s (replicate k (m, l, False)) m l (cy + c * of_nat k) 0"
proof (induction k arbitrary: cy s)
  case 0
  then show ?case by (simp add: ppu_drives_def)
next
  case (Suc k)
  have b: "unat cy + unat c + unat c * k <
      (if m = 0 then 204 else if m = 1 then 456 else if m = 2 then 80 else 172)"
    using Suc.prems(3) by (simp add: add.assoc)
  have st: "ppu_step_to c s False m l (cy + c)"
    using Suc.prems(1,2) b by (intro step_stay) (auto split: if_splits)
  have u: "unat (cy + c) = unat cy + unat c"
    using b by (intro unat_cyc_add) (auto split: if_splits)
  have "ppu_drives c (1 + k) s ([(m, l, False)] @ replicate k (m, l, False)) m l
          (cy + c + c * of_nat k) (0 + 0)"
  proof (rule ppu_drives_trans [OF ppu_drives_step [OF Suc.prems(1) st]])
    fix s1 :: "'a ppu_sys_scheme" assume "ppu_at m l (cy + c) s1"
    then show "ppu_drives c k s1 (replicate k (m, l, False)) m l (cy + c + c * of_nat k) 0"
      using Suc.prems(2) b u by (intro Suc.IH) simp_all
  qed
  then show ?case by (simp add: algebra_simps)
qed

lemma replicate_snoc: "0 < n \<Longrightarrow> replicate (n - 1) x @ [x] = replicate n x"
  by (cases n) (simp_all add: replicate_append_same)

text \<open>
  A phase of \<open>N\<close> calls that fill the duration of the mode exactly: \<open>N - 1\<close> calls stay
  in the mode and the last one leaves it.
\<close>

lemma phase:
  assumes a: "ppu_at m l 0 (s :: 'a ppu_sys_scheme)"
    and m: "m = 0 \<or> m = 1 \<or> m = 2 \<or> m = 3"
    and N: "unat c * N = (if m = 0 then 204 else if m = 1 then 456 else if m = 2 then 80 else 172)"
    and st: "\<And>s1 :: 'a ppu_sys_scheme. ppu_at m l (c * of_nat (N - 1)) s1 \<Longrightarrow>
               ppu_step_to c s1 r m' l' c'"
  shows "ppu_drives c N s (replicate (N - 1) (m, l, False) @ [(m, l, r)]) m' l' c'
           (if r then 1 else 0)"
proof -
  have pos: "0 < N" "0 < unat c" using N by (auto split: if_splits intro: Nat.gr0I)
  then have lt: "unat c * (N - 1) < unat c * N" by simp
  have "ppu_drives c ((N - 1) + 1) s (replicate (N - 1) (m, l, False) @ [(m, l, r)]) m' l' c'
          (0 + (if r then 1 else 0))"
  proof (rule ppu_drives_trans [OF ppu_drives_stay [OF a m]])
    show "unat (0::16 word) + unat c * (N - 1) <
        (if m = 0 then 204 else if m = 1 then 456 else if m = 2 then 80 else 172)"
      using lt N by simp
    fix s1 :: "'a ppu_sys_scheme" assume "ppu_at m l (0 + c * of_nat (N - 1)) s1"
    then have s1: "ppu_at m l (c * of_nat (N - 1)) s1" by simp
    show "ppu_drives c 1 s1 [(m, l, r)] m' l' c' (if r then 1 else 0)"
    proof (cases r)
      case True
      with st [OF s1] have "ppu_step_to c s1 True m' l' c'" by simp
      from ppu_drives_step_ready [OF s1 this] True show ?thesis by simp
    next
      case False
      with st [OF s1] have "ppu_step_to c s1 False m' l' c'" by simp
      from ppu_drives_step [OF s1 this] False show ?thesis by simp
    qed
  qed
  then show ?thesis using pos(1) by simp
qed

text \<open>
  The call counts when the cycle count of a call is 1, 2 or 4, the divisors of the
  four mode durations' greatest common divisor.
\<close>

lemma per_call:
  assumes "c \<in> {1, 2, 4 :: 16 word}"
  shows "unat c * (80 div unat c) = 80" "unat c * (172 div unat c) = 172"
    "unat c * (204 div unat c) = 204" "unat c * (456 div unat c) = 456"
    "0 < 80 div unat c" "0 < 172 div unat c" "0 < 204 div unat c" "0 < 456 div unat c"
    "80 div unat c + (172 div unat c + 204 div unat c) = 456 div unat c"
    "456 div unat c * 143 + (456 div unat c + 456 div unat c * 10) = 70224 div unat c"
    "204 div unat c + (456 div unat c * 142 + (456 div unat c + 456 div unat c * 10)) =
       69972 div unat c"
  using assms by auto

lemma visible_line:
  assumes c: "c \<in> {1, 2, 4}"
    and a: "ppu_at 2 l 0 (s :: 'a ppu_sys_scheme)"
    and st: "\<And>s1 :: 'a ppu_sys_scheme. ppu_at 0 l (c * of_nat (204 div unat c - 1)) s1 \<Longrightarrow>
               ppu_step_to c s1 r m' l' 0"
  shows "ppu_drives c (456 div unat c) s
           (replicate (80 div unat c) (2, l, False) @ replicate (172 div unat c) (3, l, False) @
            replicate (204 div unat c - 1) (0, l, False) @ [(0, l, r)]) m' l' 0
           (if r then 1 else 0)"
proof -
  note pc = per_call [OF c]
  have eO: "c * of_nat (80 div unat c - 1) + c = 80"
    using cyc_exact [OF pc(1) pc(5)] by simp
  have eP: "c * of_nat (172 div unat c - 1) + c = 172"
    using cyc_exact [OF pc(2) pc(6)] by simp
  have 1: "ppu_drives c (80 div unat c) s
             (replicate (80 div unat c - 1) (2, l, False) @ [(2, l, False)]) 3 l 0
             (if False then 1 else 0)"
  proof (rule phase [OF a])
    show "(2::byte) = 0 \<or> (2::byte) = 1 \<or> (2::byte) = 2 \<or> (2::byte) = 3" by simp
    show "unat c * (80 div unat c) =
        (if (2::byte) = 0 then 204 else if (2::byte) = 1 then 456 else if (2::byte) = 2 then 80 else 172)"
      using pc(1) by simp
    fix s2 :: "'a ppu_sys_scheme" assume "ppu_at 2 l (c * of_nat (80 div unat c - 1)) s2"
    then show "ppu_step_to c s2 False 3 l 0"
      by (rule step_oam [OF _ eO])
  qed
  have 2: "ppu_drives c (172 div unat c) s1
             (replicate (172 div unat c - 1) (3, l, False) @ [(3, l, False)]) 0 l 0
             (if False then 1 else 0)" if "ppu_at 3 l 0 s1" for s1 :: "'a ppu_sys_scheme"
  proof (rule phase [OF that])
    show "(3::byte) = 0 \<or> (3::byte) = 1 \<or> (3::byte) = 2 \<or> (3::byte) = 3" by simp
    show "unat c * (172 div unat c) =
        (if (3::byte) = 0 then 204 else if (3::byte) = 1 then 456 else if (3::byte) = 2 then 80 else 172)"
      using pc(2) by simp
    fix s2 :: "'a ppu_sys_scheme" assume "ppu_at 3 l (c * of_nat (172 div unat c - 1)) s2"
    then show "ppu_step_to c s2 False 0 l 0"
      by (rule step_pt [OF _ eP])
  qed
  have 3: "ppu_drives c (204 div unat c) s1
             (replicate (204 div unat c - 1) (0, l, False) @ [(0, l, r)]) m' l' 0
             (if r then 1 else 0)" if "ppu_at 0 l 0 s1" for s1 :: "'a ppu_sys_scheme"
  proof (rule phase [OF that])
    show "(0::byte) = 0 \<or> (0::byte) = 1 \<or> (0::byte) = 2 \<or> (0::byte) = 3" by simp
    show "unat c * (204 div unat c) =
        (if (0::byte) = 0 then 204 else if (0::byte) = 1 then 456 else if (0::byte) = 2 then 80 else 172)"
      using pc(3) by simp
    fix s2 :: "'a ppu_sys_scheme" assume "ppu_at 0 l (c * of_nat (204 div unat c - 1)) s2"
    then show "ppu_step_to c s2 r m' l' 0"
      by (rule st)
  qed
  have "ppu_drives c (80 div unat c + (172 div unat c + 204 div unat c)) s
          ((replicate (80 div unat c - 1) (2, l, False) @ [(2, l, False)]) @
           ((replicate (172 div unat c - 1) (3, l, False) @ [(3, l, False)]) @
            (replicate (204 div unat c - 1) (0, l, False) @ [(0, l, r)]))) m' l' 0
          ((if False then 1 else 0) + ((if False then 1 else 0) + (if r then 1 else 0)))"
    by (rule ppu_drives_trans [OF 1]) (rule ppu_drives_trans [OF 2], assumption, rule 3)
  then show ?thesis
    unfolding replicate_snoc [OF pc(5)] replicate_snoc [OF pc(6)] pc(9) by simp
qed

lemma unat_of_nat_byte: "n < 256 \<Longrightarrow> unat (of_nat n :: byte) = n"
  by (simp add: unat_of_nat)

lemma line_ok:
  assumes c: "c \<in> {1, 2, 4}"
    and "ppu_at 2 (of_nat n) 0 (s :: 'a ppu_sys_scheme)" and "n < 143"
  shows "ppu_drives c (456 div unat c) s (line_schedule (unat c) False n) 2 (of_nat (Suc n)) 0 0"
proof -
  note pc = per_call [OF c]
  have eH: "c * of_nat (204 div unat c - 1) + c = 204"
    using cyc_exact [OF pc(3) pc(7)] by simp
  have u: "unat (of_nat n :: byte) < 143" using assms(3) by (simp add: unat_of_nat_byte)
  have "ppu_drives c (456 div unat c) s (line_schedule (unat c) False n) 2 (of_nat n + 1) 0
          (if False then 1 else 0)"
    unfolding line_schedule_def
    by (rule visible_line [OF c assms(2)]) (rule step_hb [OF _ eH u])
  then show ?thesis by (simp add: add.commute)
qed

lemma line_last:
  assumes c: "c \<in> {1, 2, 4}" and "ppu_at 2 143 0 (s :: 'a ppu_sys_scheme)"
  shows "ppu_drives c (456 div unat c) s (line_schedule (unat c) True 143) 1 144 0 1"
proof -
  note pc = per_call [OF c]
  have eH: "c * of_nat (204 div unat c - 1) + c = 204"
    using cyc_exact [OF pc(3) pc(7)] by simp
  have "ppu_drives c (456 div unat c) s
           (replicate (80 div unat c) (2, 143, False) @ replicate (172 div unat c) (3, 143, False) @
            replicate (204 div unat c - 1) (0, 143, False) @ [(0, 143, True)]) 1 144 0
           (if True then 1 else 0)"
    by (rule visible_line [OF c assms(2)]) (rule step_hb_last [OF _ eH])
  then show ?thesis by (simp add: line_schedule_def)
qed

lemma vblank_line:
  assumes c: "c \<in> {1, 2, 4}"
    and a: "ppu_at 1 l 0 (s :: 'a ppu_sys_scheme)"
    and st: "\<And>s1 :: 'a ppu_sys_scheme. ppu_at 1 l (c * of_nat (456 div unat c - 1)) s1 \<Longrightarrow>
               ppu_step_to c s1 False m' l' 0"
  shows "ppu_drives c (456 div unat c) s (replicate (456 div unat c) (1, l, False)) m' l' 0 0"
proof -
  note pc = per_call [OF c]
  have "ppu_drives c (456 div unat c) s
          (replicate (456 div unat c - 1) (1, l, False) @ [(1, l, False)]) m' l' 0
          (if False then 1 else 0)"
  proof (rule phase [OF a])
    show "(1::byte) = 0 \<or> (1::byte) = 1 \<or> (1::byte) = 2 \<or> (1::byte) = 3" by simp
    show "unat c * (456 div unat c) =
        (if (1::byte) = 0 then 204 else if (1::byte) = 1 then 456 else if (1::byte) = 2 then 80 else 172)"
      using pc(4) by simp
    fix s2 :: "'a ppu_sys_scheme" assume "ppu_at 1 l (c * of_nat (456 div unat c - 1)) s2"
    then show "ppu_step_to c s2 False m' l' 0"
      by (rule st)
  qed
  then show ?thesis unfolding replicate_snoc [OF pc(8)] by simp
qed

lemma visible_lines:
  "c \<in> {1, 2, 4} \<Longrightarrow> a + k \<le> 143 \<Longrightarrow> ppu_at 2 (of_nat a) 0 (s :: 'a ppu_sys_scheme) \<Longrightarrow>
   ppu_drives c (456 div unat c * k) s
     (concat (map (line_schedule (unat c) False) [a..<a + k])) 2 (of_nat (a + k)) 0 0"
proof (induction k)
  case 0
  then show ?case by (simp add: ppu_drives_def)
next
  case (Suc k)
  have "ppu_drives c (456 div unat c * k + 456 div unat c) s
          (concat (map (line_schedule (unat c) False) [a..<a + k]) @
           line_schedule (unat c) False (a + k))
          2 (of_nat (Suc (a + k))) 0 (0 + 0)"
  proof (rule ppu_drives_trans)
    show "ppu_drives c (456 div unat c * k) s
            (concat (map (line_schedule (unat c) False) [a..<a + k])) 2 (of_nat (a + k)) 0 0"
      using Suc by simp
    fix s1 :: "'a ppu_sys_scheme" assume "ppu_at 2 (of_nat (a + k)) 0 s1"
    then show "ppu_drives c (456 div unat c) s1 (line_schedule (unat c) False (a + k)) 2
        (of_nat (Suc (a + k))) 0 0"
      using Suc.prems(1,2) by (intro line_ok) auto
  qed
  then show ?case by (simp add: add.commute)
qed

lemma vblank_lines:
  "c \<in> {1, 2, 4} \<Longrightarrow> a + k \<le> 153 \<Longrightarrow> ppu_at 1 (of_nat a) 0 (s :: 'a ppu_sys_scheme) \<Longrightarrow>
   ppu_drives c (456 div unat c * k) s
     (concat (map (\<lambda>l. replicate (456 div unat c) (1, of_nat l, False)) [a..<a + k]))
     1 (of_nat (a + k)) 0 0"
proof (induction k)
  case 0
  then show ?case by (simp add: ppu_drives_def)
next
  case (Suc k)
  note pc = per_call [OF Suc.prems(1)]
  have eV: "c * of_nat (456 div unat c - 1) + c = 456"
    using cyc_exact [OF pc(4) pc(8)] by simp
  have "a + k < 256" using Suc.prems(2) by simp
  from unat_of_nat_byte [OF this] have u: "unat (of_nat (a + k) :: byte) < 153"
    using Suc.prems(2) by (simp only:)
  have "ppu_drives c (456 div unat c * k + 456 div unat c) s
          (concat (map (\<lambda>l. replicate (456 div unat c) (1, of_nat l, False)) [a..<a + k]) @
           replicate (456 div unat c) (1, of_nat (a + k), False))
          1 (of_nat (a + k) + 1) 0 (0 + 0)"
  proof (rule ppu_drives_trans)
    show "ppu_drives c (456 div unat c * k) s
            (concat (map (\<lambda>l. replicate (456 div unat c) (1, of_nat l, False)) [a..<a + k]))
            1 (of_nat (a + k)) 0 0"
      using Suc by simp
    fix s1 :: "'a ppu_sys_scheme" assume s1: "ppu_at 1 (of_nat (a + k)) 0 s1"
    show "ppu_drives c (456 div unat c) s1 (replicate (456 div unat c) (1, of_nat (a + k), False))
        1 (of_nat (a + k) + 1) 0 0"
      by (rule vblank_line [OF Suc.prems(1) s1]) (rule step_vb [OF _ eV u])
  qed
  then show ?case by (simp add: add.commute)
qed

lemma vblank_all:
  assumes c: "c \<in> {1, 2, 4}" and "ppu_at 1 144 0 (s :: 'a ppu_sys_scheme)"
  shows "ppu_drives c (456 div unat c * 10) s (vblank_schedule (unat c)) 2 0 0 0"
proof -
  note pc = per_call [OF c]
  have eV: "c * of_nat (456 div unat c - 1) + c = 456"
    using cyc_exact [OF pc(4) pc(8)] by simp
  have l: "[144..<154] = [144..<144 + 9] @ [153::nat]"
    using upt_Suc_append [of 144 153] by simp
  have "ppu_drives c (456 div unat c * 9 + 456 div unat c) s
          (concat (map (\<lambda>l. replicate (456 div unat c) (1, of_nat l, False)) [144..<144 + 9]) @
           replicate (456 div unat c) (1, 153, False)) 2 0 0 (0 + 0)"
  proof (rule ppu_drives_trans)
    show "ppu_drives c (456 div unat c * 9) s
            (concat (map (\<lambda>l. replicate (456 div unat c) (1, of_nat l, False)) [144..<144 + 9]))
            1 (of_nat (144 + 9)) 0 0"
      using assms by (intro vblank_lines) auto
    fix s1 :: "'a ppu_sys_scheme" assume "ppu_at 1 (of_nat (144 + 9)) 0 s1"
    then have s1: "ppu_at 1 153 0 s1" by simp
    show "ppu_drives c (456 div unat c) s1 (replicate (456 div unat c) (1, 153, False)) 2 0 0 0"
      by (rule vblank_line [OF c s1]) (rule step_vb_last [OF _ eV])
  qed
  then show ?thesis unfolding vblank_schedule_def l by (simp add: mult.commute)
qed

lemma frame_tail:
  assumes c: "c \<in> {1, 2, 4}" and "ppu_at 2 143 0 (s :: 'a ppu_sys_scheme)"
  shows "ppu_drives c (456 div unat c + 456 div unat c * 10) s
           (line_schedule (unat c) True 143 @ vblank_schedule (unat c)) 2 0 0 1"
proof -
  have "ppu_drives c (456 div unat c + 456 div unat c * 10) s
          (line_schedule (unat c) True 143 @ vblank_schedule (unat c)) 2 0 0 (1 + 0)"
    by (rule ppu_drives_trans [OF line_last [OF assms]]) (rule vblank_all [OF c])
  then show ?thesis by simp
qed

lemma frame_steady:
  assumes c: "c \<in> {1, 2, 4}" and "ppu_at 2 0 0 (s :: 'a ppu_sys_scheme)"
  shows "ppu_drives c (70224 div unat c) s (frame_schedule (unat c)) 2 0 0 1"
proof -
  have "ppu_drives c (456 div unat c * 143 + (456 div unat c + 456 div unat c * 10)) s
          (concat (map (line_schedule (unat c) False) [0..<0 + 143]) @
           (line_schedule (unat c) True 143 @ vblank_schedule (unat c))) 2 0 0 (0 + 1)"
  proof (rule ppu_drives_trans)
    show "ppu_drives c (456 div unat c * 143) s
            (concat (map (line_schedule (unat c) False) [0..<0 + 143]))
            2 (of_nat (0 + 143)) 0 0"
      using assms by (intro visible_lines) auto
    fix s1 :: "'a ppu_sys_scheme" assume "ppu_at 2 (of_nat (0 + 143)) 0 s1"
    then have "ppu_at 2 143 0 s1" by simp
    then show "ppu_drives c (456 div unat c + 456 div unat c * 10) s1
        (line_schedule (unat c) True 143 @ vblank_schedule (unat c)) 2 0 0 1"
      by (rule frame_tail [OF c])
  qed
  then show ?thesis unfolding per_call(10) [OF c] by (simp add: frame_schedule_def)
qed

lemma ppu_init_at: "ppu_at 0 0 0 (ppu_init s)" and ppu_init_count: "ppu_frame_count (ppu_init s) = 0"
  by (simp_all add: ppu_init_def ppu_at_def ppu_lcd_enabled_def memory_read_def memory_write_def)

lemma frame_reset:
  assumes c: "c \<in> {1, 2, 4}" and a: "ppu_at 0 0 0 (s :: 'a ppu_sys_scheme)"
  shows "ppu_drives c (69972 div unat c) s (reset_schedule (unat c)) 2 0 0 1"
proof -
  note pc = per_call [OF c]
  have eH: "c * of_nat (204 div unat c - 1) + c = 204"
    using cyc_exact [OF pc(3) pc(7)] by simp
  have hb0: "ppu_step_to c s1 False 2 (0 + 1) 0" if "ppu_at 0 0 (c * of_nat (204 div unat c - 1)) s1"
    for s1 :: "'a ppu_sys_scheme"
    by (rule step_hb [OF that eH]) simp
  have 1: "ppu_drives c (204 div unat c) s
             (replicate (204 div unat c - 1) (0, 0, False) @ [(0, 0, False)]) 2 (0 + 1) 0
             (if False then 1 else 0)"
  proof (rule phase [OF a])
    show "(0::byte) = 0 \<or> (0::byte) = 1 \<or> (0::byte) = 2 \<or> (0::byte) = 3" by simp
    show "unat c * (204 div unat c) =
        (if (0::byte) = 0 then 204 else if (0::byte) = 1 then 456 else if (0::byte) = 2 then 80 else 172)"
      using pc(3) by simp
    fix s2 :: "'a ppu_sys_scheme" assume "ppu_at 0 0 (c * of_nat (204 div unat c - 1)) s2"
    then show "ppu_step_to c s2 False 2 (0 + 1) 0"
      by (rule hb0)
  qed
  have "ppu_drives c
          (204 div unat c + (456 div unat c * 142 + (456 div unat c + 456 div unat c * 10))) s
          ((replicate (204 div unat c - 1) (0, 0, False) @ [(0, 0, False)]) @
           (concat (map (line_schedule (unat c) False) [1..<1 + 142]) @
            (line_schedule (unat c) True 143 @ vblank_schedule (unat c)))) 2 0 0
          ((if False then 1 else 0) + (0 + 1))"
  proof (rule ppu_drives_trans [OF 1], rule ppu_drives_trans)
    fix s1 :: "'a ppu_sys_scheme" assume "ppu_at 2 (0 + 1) 0 s1"
    then show "ppu_drives c (456 div unat c * 142) s1
            (concat (map (line_schedule (unat c) False) [1..<1 + 142]))
            2 (of_nat (1 + 142)) 0 0"
      using c by (intro visible_lines) auto
  next
    fix s2 :: "'a ppu_sys_scheme" assume "ppu_at 2 (of_nat (1 + 142)) 0 s2"
    then have "ppu_at 2 143 0 s2" by simp
    then show "ppu_drives c (456 div unat c + 456 div unat c * 10) s2
        (line_schedule (unat c) True 143 @ vblank_schedule (unat c)) 2 0 0 1"
      by (rule frame_tail [OF c])
  qed
  then show ?thesis
    unfolding replicate_snoc [OF pc(7)] pc(11) by (simp add: reset_schedule_def)
qed

lemma ppu_update_keeps_ready:
  "ppu_update c s = Some t \<Longrightarrow> ppu_frame_ready s \<Longrightarrow> ppu_frame_ready t"
  by (auto simp: ppu_update_def Let_def memory_write_def render_scanline_def
      split: if_splits option.splits)

lemma ppu_update_lcd_off:
  "\<not> ppu_lcd_enabled s \<Longrightarrow> ppu_update c s = Some (s\<lparr>ppu_cycles := ppu_cycles s + c\<rparr>)"
  by (simp add: ppu_update_def ppu_lcd_enabled_def memory_read_def Let_def)

lemma ppu_update_plain_lcd_off:
  "\<not> ppu_lcd_enabled s \<Longrightarrow> ppu_update_plain c s = s"
  by (simp add: ppu_update_plain_def ppu_lcd_enabled_def)

text \<open>
  C4.  With bit 7 of the byte at 0xFF40 clear, \<open>ppu_update\<close> of the rendering revision
  leaves the mode, the line, the frame-ready flag, the frame buffer and the memory as
  they are and renders nothing, but it has already added the cycles to the cycle
  counter: from the zeroed power-on state a call with 4 cycles returns the same state
  with \<open>cycles = 4\<close>.  The first revision (ppu.c) tests the LCD bit before touching the
  counter and returns the state unchanged.
\<close>

theorem ppu_update_lcd_off_accumulates:
  "ppu_update 4 ppu_blank = Some (ppu_blank\<lparr>ppu_cycles := 4\<rparr>) \<and>
   ppu_update_plain 4 ppu_blank = ppu_blank"
  by (simp add: ppu_update_def ppu_update_plain_def ppu_blank_def memory_read_def Let_def)

lemma ppu_drive_head:
  "ppu_drive c (Suc n) s = Some (tr, t) \<Longrightarrow> tr \<noteq> [] \<and> fst (hd tr) = ppu_mode s"
  by (auto simp: Let_def split: option.splits if_splits)

lemma frame_schedule_head: "fst (hd (frame_schedule 4)) = 2"
proof -
  have "[0..<143] = 0 # [1..<143]" by (simp add: upt_conv_Cons)
  moreover have "replicate 20 x = x # replicate 19 x" for x :: ppu_obs
    using replicate_Suc [of 19 x] by simp
  ultimately show ?thesis
    by (simp add: frame_schedule_def line_schedule_def)
qed

lemma reset_not_oam:
  "map_option fst (ppu_drive 4 17556 (ppu_init ppu_blank)) \<noteq> Some (frame_schedule 4)"
proof
  assume a: "map_option fst (ppu_drive 4 17556 (ppu_init ppu_blank)) = Some (frame_schedule 4)"
  have n: "(17556::nat) = Suc 17555" by simp
  from a obtain t where
    "ppu_drive 4 (Suc 17555) (ppu_init ppu_blank) = Some (frame_schedule 4, t)"
    unfolding n by (auto simp del: ppu_drive.simps)
  from ppu_drive_head [OF this] have "ppu_mode (ppu_init ppu_blank) = 2"
    by (simp add: frame_schedule_head)
  then show False
    by (simp add: ppu_init_def memory_write_def)
qed

lemma ppu_oam0_at: "ppu_at 2 0 0 ppu_oam0"
  by (simp add: ppu_at_def ppu_oam0_def ppu_blank_def ppu_lcd_enabled_def memory_read_def)

lemma frame_schedule_ready_once:
  "filter (\<lambda>(m, l, r). r) (frame_schedule c) = [(0, 143, True)]"
  by (simp add: frame_schedule_def line_schedule_def vblank_schedule_def filter_concat comp_def)

lemma step_pt_over:
  "ppu_at 3 l cy s \<Longrightarrow> 172 \<le> cy + c \<Longrightarrow> ppu_step_to c s False 0 l (cy + c - 172)"
  by (auto simp: ppu_step_to_def ppu_update_def ppu_at_def ppu_lcd_enabled_def Let_def
        memory_read_def memory_write_def)

lemma eight_per_call:
  "ppu_drives 8 32 ppu_oam0 (replicate 10 (2, 0, False) @ replicate 22 (3, 0, False)) 0 0 4 0"
proof -
  have 1: "ppu_drives 8 9 ppu_oam0 (replicate 9 (2, 0, False)) 2 0 (0 + 8 * of_nat 9) 0"
    by (rule ppu_drives_stay [OF ppu_oam0_at]) simp_all
  have 2: "ppu_drives 8 1 s1 [(2, 0, False)] 3 0 0 0" if "ppu_at 2 0 (0 + 8 * of_nat 9) s1"
    for s1 :: ppu_sys
    by (rule ppu_drives_step [OF that]) (rule step_oam [OF that], simp)
  have 3: "ppu_drives 8 21 s1 (replicate 21 (3, 0, False)) 3 0 (0 + 8 * of_nat 21) 0"
    if "ppu_at 3 0 0 s1" for s1 :: ppu_sys
    by (rule ppu_drives_stay [OF that]) simp_all
  have 4: "ppu_drives 8 1 s1 [(3, 0, False)] 0 0 4 0" if "ppu_at 3 0 (0 + 8 * of_nat 21) s1"
    for s1 :: ppu_sys
  proof (rule ppu_drives_step [OF that])
    have "ppu_step_to 8 s1 False 0 0 (0 + 8 * of_nat 21 + 8 - 172)"
      by (rule step_pt_over [OF that]) simp
    then show "ppu_step_to 8 s1 False 0 0 4" by simp
  qed
  have "ppu_drives 8 (9 + (1 + (21 + 1))) ppu_oam0
          (replicate 9 (2, 0, False) @ ([(2, 0, False)] @ (replicate 21 (3, 0, False) @
           [(3, 0, False)]))) 0 0 4 (0 + (0 + (0 + 0)))"
    by (rule ppu_drives_trans [OF 1], rule ppu_drives_trans [OF 2], assumption,
        rule ppu_drives_trans [OF 3], assumption, rule 4)
  moreover have "replicate 9 a @ ([a] @ (replicate 21 b @ [b])) = replicate 10 a @ replicate 22 b"
    for a b :: ppu_obs
    by (simp add: eval_nat_numeral)
  ultimately show ?thesis by (simp only:) simp
qed

text \<open>
  C3, as stated, fails in two ways.  \<open>ppu_init\<close> leaves the PPU in mode 0 (HBlank), so
  a frame's worth of calls from reset does not begin with OAMScan and does not follow
  the schedule OAMScan, PixelTransfer, HBlank for line 0.  And the durations depend on
  the cycle count of a call: with 8 cycles per call from OAMScan at line 0, the PPU
  spends 10 calls (80 cycles) in OAMScan and then 22 calls (176 cycles, not 172) in
  PixelTransfer, and enters HBlank with 4 cycles already counted.
\<close>

theorem ppu_reset_sequence_counterexample:
  "map_option fst (ppu_drive 4 17556 (ppu_init ppu_blank)) \<noteq> Some (frame_schedule 4) \<and>
   ppu_mode (ppu_init ppu_blank) = 0 \<and>
   ppu_lcd_enabled ppu_oam0 \<and> ppu_mode ppu_oam0 = 2 \<and> ppu_line ppu_oam0 = 0 \<and>
   ppu_cycles ppu_oam0 = 0 \<and>
   map_option fst (ppu_drive 8 32 ppu_oam0) =
     Some (replicate 10 (2, 0, False) @ replicate 22 (3, 0, False)) \<and>
   map_option (ppu_mode \<circ> snd) (ppu_drive 8 32 ppu_oam0) = Some 0 \<and>
   map_option (ppu_cycles \<circ> snd) (ppu_drive 8 32 ppu_oam0) = Some 4"
proof -
  from eight_per_call obtain t where
    t: "ppu_drive 8 32 ppu_oam0 =
          Some (replicate 10 (2, 0, False) @ replicate 22 (3, 0, False), t)" "ppu_at 0 0 4 t"
    unfolding ppu_drives_def by blast
  have 1: "map_option fst (ppu_drive 8 32 ppu_oam0) =
     Some (replicate 10 (2, 0, False) @ replicate 22 (3, 0, False))"
    and 2: "map_option (ppu_mode \<circ> snd) (ppu_drive 8 32 ppu_oam0) = Some 0"
    and 3: "map_option (ppu_cycles \<circ> snd) (ppu_drive 8 32 ppu_oam0) = Some 4"
    using t(2) unfolding t(1) by (simp_all add: ppu_at_def)
  have 4: "ppu_mode (ppu_init ppu_blank) = 0"
    by (simp add: ppu_init_def memory_write_def)
  have 5: "ppu_lcd_enabled ppu_oam0" "ppu_mode ppu_oam0 = 2" "ppu_line ppu_oam0 = 0"
    "ppu_cycles ppu_oam0 = 0"
    using ppu_oam0_at by (simp_all add: ppu_at_def)
  show ?thesis
    by (intro conjI) (fact reset_not_oam 1 2 3 4 5)+
qed

text \<open>
  C3, amended.  With the LCD enabled and every call advancing the PPU by 1, 2 or 4
  cycles (the main loop passes 4): from OAMScan at line 0 with no accumulated cycles,
  the calls that make up 70224 cycles pass through OAMScan (80 cycles), PixelTransfer
  (172) and HBlank (204) on each of the lines 0 to 143, then VBlank (456 cycles per
  line) on the lines 144 to 153, and end in OAMScan at line 0 again; the frame-ready
  flag is set by exactly one call, the one that ends the HBlank of line 143 and makes
  the line counter 144, and the consumer sees one frame (the 32-bit frame counter
  goes up by one, wrapping).  From \<open>ppu_init\<close> the PPU starts in HBlank at line 0, so
  the first frame has only the 204 cycles of HBlank on line 0 (69972 cycles in all) and
  is otherwise the same.  \<open>ppu_update\<close> never clears the frame-ready flag, whatever the
  cycle count of the call.
\<close>

theorem ppu_frame_sequence:
  "(c \<in> {1, 2, 4} \<and> ppu_at 2 0 0 s \<longrightarrow>
      (\<exists>s'. ppu_drive c (70224 div unat c) s = Some (frame_schedule (unat c), s') \<and>
            ppu_at 2 0 0 s' \<and> ppu_frame_count s' = ppu_frame_count s + 1)) \<and>
   (c \<in> {1, 2, 4} \<longrightarrow>
      (\<exists>s'. ppu_drive c (69972 div unat c) (ppu_init s0) = Some (reset_schedule (unat c), s') \<and>
            ppu_at 2 0 0 s' \<and> ppu_frame_count s' = 1)) \<and>
   filter (\<lambda>(m, l, ready). ready) (frame_schedule (unat c)) = [(0, 143, True)] \<and>
   (ppu_frame_ready sr \<and> ppu_update c' sr = Some t \<longrightarrow> ppu_frame_ready t)"
proof (intro conjI impI)
  assume "c \<in> {1, 2, 4} \<and> ppu_at 2 0 0 s"
  then show "\<exists>s'. ppu_drive c (70224 div unat c) s = Some (frame_schedule (unat c), s') \<and>
            ppu_at 2 0 0 s' \<and> ppu_frame_count s' = ppu_frame_count s + 1"
    using frame_steady [of c s] by (simp add: ppu_drives_def)
next
  assume "c \<in> {1, 2, 4}"
  then show "\<exists>s'. ppu_drive c (69972 div unat c) (ppu_init s0) =
             Some (reset_schedule (unat c), s') \<and> ppu_at 2 0 0 s' \<and> ppu_frame_count s' = 1"
    using frame_reset [OF _ ppu_init_at, of c s0] by (simp add: ppu_drives_def ppu_init_count)
next
  show "filter (\<lambda>(m, l, ready). ready) (frame_schedule (unat c)) = [(0, 143, True)]"
    by (rule frame_schedule_ready_once)
next
  assume "ppu_frame_ready sr \<and> ppu_update c' sr = Some t"
  then show "ppu_frame_ready t"
    using ppu_update_keeps_ready [of c' sr t] by simp
qed

theorem ppu_frame_sequence_witness:
  "(4 :: 16 word) \<in> {1, 2, 4} \<and> ppu_at 2 0 0 ppu_oam0 \<and>
   (\<exists>s'. ppu_drive 4 17556 ppu_oam0 = Some (frame_schedule 4, s') \<and> ppu_at 2 0 0 s' \<and>
         ppu_frame_count s' = 1) \<and>
   (\<exists>s'. ppu_drive 4 17493 (ppu_init ppu_blank) = Some (reset_schedule 4, s') \<and>
         ppu_at 2 0 0 s' \<and> ppu_frame_count s' = 1) \<and>
   ppu_lcd_enabled ppu_oam0_ready \<and> ppu_frame_ready ppu_oam0_ready \<and>
   ppu_update 4 ppu_oam0_ready =
     Some (ppu_oam0_ready\<lparr>memory := (memory ppu_oam0_ready)(STAT := 2), ppu_cycles := 4\<rparr>) \<and>
   ppu_frame_ready
     (ppu_oam0_ready\<lparr>memory := (memory ppu_oam0_ready)(STAT := 2), ppu_cycles := 4\<rparr>)"
proof -
  let ?t = "ppu_oam0_ready\<lparr>memory := (memory ppu_oam0_ready)(STAT := 2), ppu_cycles := 4\<rparr>"
  note inst = ppu_frame_sequence [where c = 4 and s = ppu_oam0 and ?s0.0 = ppu_blank
      and sr = ppu_oam0_ready and c' = 4 and t = ?t]
  have h1: "(4 :: 16 word) \<in> {1, 2, 4}" by simp
  have h2: "ppu_at 2 0 0 ppu_oam0" by (rule ppu_oam0_at)
  have h3: "ppu_lcd_enabled ppu_oam0_ready" and h4: "ppu_frame_ready ppu_oam0_ready"
    by (simp_all add: ppu_oam0_ready_def ppu_oam0_def ppu_blank_def ppu_lcd_enabled_def
        memory_read_def)
  have h5: "ppu_update 4 ppu_oam0_ready = Some ?t"
    by (simp add: ppu_update_def ppu_oam0_ready_def ppu_oam0_def ppu_blank_def memory_read_def
        memory_write_def Let_def)
  have n: "70224 div unat (4 :: 16 word) = 17556" "69972 div unat (4 :: 16 word) = 17493"
    "unat (4 :: 16 word) = 4" "ppu_frame_count ppu_oam0 + 1 = 1"
    by (simp_all add: ppu_oam0_def ppu_blank_def)
  from inst h1 h2 have
    "\<exists>s'. ppu_drive 4 (70224 div unat (4 :: 16 word)) ppu_oam0 =
            Some (frame_schedule (unat (4 :: 16 word)), s') \<and>
          ppu_at 2 0 0 s' \<and> ppu_frame_count s' = ppu_frame_count ppu_oam0 + 1"
    by blast
  then have c1: "\<exists>s'. ppu_drive 4 17556 ppu_oam0 = Some (frame_schedule 4, s') \<and>
      ppu_at 2 0 0 s' \<and> ppu_frame_count s' = 1"
    by (simp add: n)
  from inst h1 have
    "\<exists>s'. ppu_drive 4 (69972 div unat (4 :: 16 word)) (ppu_init ppu_blank) =
            Some (reset_schedule (unat (4 :: 16 word)), s') \<and>
          ppu_at 2 0 0 s' \<and> ppu_frame_count s' = 1"
    by blast
  then have c2: "\<exists>s'. ppu_drive 4 17493 (ppu_init ppu_blank) = Some (reset_schedule 4, s') \<and>
      ppu_at 2 0 0 s' \<and> ppu_frame_count s' = 1"
    by (simp add: n)
  from inst h4 h5 have c3: "ppu_frame_ready ?t" by blast
  show ?thesis
    by (intro conjI) (fact h1 h2 h3 h4 h5 c1 c2 c3)+
qed

section \<open>Properties of the CPU\<close>

lemma low_nibble_unat: "unat ((x::byte) AND 0x0F) = unat x mod 16"
proof -
  have "unat (take_bit 4 x) = unat x mod 16"
    by (simp add: take_bit_eq_mod unat_mod_distrib)
  moreover have "take_bit 4 x = x AND 15"
    by (simp add: take_bit_eq_mask mask_eq_exp_minus_1)
  ultimately show ?thesis by simp
qed

lemma inc_half: "((x + 1) AND 0x0F = 0) = ((x::byte) AND 0x0F = 0x0F)"
proof -
  have "((x + 1) AND 0x0F = 0) = (unat (x + 1) mod 16 = 0)"
    by (simp add: word_unat_eq_iff low_nibble_unat)
  also have "\<dots> = ((unat x + 1) mod 256 mod 16 = 0)"
    by (simp add: unat_word_ariths)
  also have "\<dots> = ((unat x + 1) mod 16 = 0)"
    by (simp add: mod_mod_cancel)
  also have "\<dots> = (unat x mod 16 = 15)"
    by arith
  also have "\<dots> = (x AND 0x0F = 0x0F)"
    by (simp add: word_unat_eq_iff low_nibble_unat)
  finally show ?thesis .
qed

lemma cpu_execute_instruction_alt:
  "cpu_execute_instruction s =
     (case opcode_switch (memory_read s (cpu_pc s)) (cpu_after_fetch s) of
        Some t \<Rightarrow> t | None \<Rightarrow> cpu_after_fetch s)"
  by (simp add: cpu_execute_instruction_def cpu_after_fetch_def cpu_fetch_byte_def Let_def
      logger_log_def split: option.splits)

lemma cpu_execute_instruction_p1_alt:
  "\<not> cpu_halted s \<Longrightarrow> cpu_execute_instruction_p1 s =
     (case opcode_switch (memory_read s (cpu_pc s)) (s\<lparr>cpu_pc := cpu_pc s + 1\<rparr>) of
        Some t \<Rightarrow> t
      | None \<Rightarrow>
          if memory_read s (cpu_pc s) = 0x76 then s\<lparr>cpu_pc := cpu_pc s + 1, cpu_halted := True\<rparr>
          else printf (Unimplemented_opcode (memory_read s (cpu_pc s))
                 (int (unat (cpu_pc s + 1)) - 1)) (s\<lparr>cpu_pc := cpu_pc s + 1\<rparr>))"
  by (simp add: cpu_execute_instruction_p1_def cpu_fetch_byte_def Let_def split: option.splits)

lemma after_fetch_regs:
  "cpu_a (cpu_after_fetch s) = cpu_a s" "cpu_f (cpu_after_fetch s) = cpu_f s"
  "cpu_b (cpu_after_fetch s) = cpu_b s" "cpu_c (cpu_after_fetch s) = cpu_c s"
  "cpu_d (cpu_after_fetch s) = cpu_d s" "cpu_e (cpu_after_fetch s) = cpu_e s"
  "cpu_h (cpu_after_fetch s) = cpu_h s" "cpu_l (cpu_after_fetch s) = cpu_l s"
  "cpu_sp (cpu_after_fetch s) = cpu_sp s" "cpu_pc (cpu_after_fetch s) = cpu_pc s + 1"
  "memory (cpu_after_fetch s) = memory s"
  "current_cartridge (cpu_after_fetch s) = current_cartridge s"
  "cpu_halted (cpu_after_fetch s) = cpu_halted s"
  "cpu_interrupts_enabled (cpu_after_fetch s) = cpu_interrupts_enabled s"
  "console (cpu_after_fetch s) = console s"
  "memory_read (cpu_after_fetch s) = memory_read s"
  "get_hl (cpu_after_fetch s) = get_hl s"
  by (simp_all add: cpu_after_fetch_def logger_log_def memory_read_def get_hl_def fun_eq_iff)

lemma flag_and:
  "(f AND FLAG_C) AND FLAG_Z = 0" "(f AND FLAG_C) AND FLAG_H = 0" "(f AND FLAG_C) AND FLAG_N = 0"
  "(f AND FLAG_C) AND FLAG_C = f AND FLAG_C"
  for f :: byte
  by (simp_all add: word_bw_assocs)

lemma inc8_flags:
  assumes "op \<in> set inc8_opcodes" "opcode_switch op s = Some t"
  shows "(cpu_f t AND FLAG_Z \<noteq> 0) = (operand8 op s + 1 = 0) \<and>
         (cpu_f t AND FLAG_H \<noteq> 0) = (operand8 op s AND 0x0F = 0x0F) \<and>
         cpu_f t AND FLAG_N = 0 \<and>
         cpu_f t AND FLAG_C = cpu_f s AND FLAG_C \<and>
         operand8 op t = operand8 op s + 1"
  using assms
  apply (simp add: inc8_opcodes_def)
  apply (elim disjE)
  apply (simp_all add: opcode_switch_def opcode_switch_00_def opcode_switch_20_def operand8_def Let_def)
  apply (auto simp: word_ao_dist flag_and inc_half split: if_splits)
  done

lemma dec8_flags:
  assumes "op \<in> set dec8_opcodes" "opcode_switch op s = Some t"
  shows "(cpu_f t AND FLAG_Z \<noteq> 0) = (operand8 op s - 1 = 0) \<and>
         (cpu_f t AND FLAG_H \<noteq> 0) = (operand8 op s AND 0x0F = 0) \<and>
         cpu_f t AND FLAG_N = FLAG_N \<and>
         cpu_f t AND FLAG_C = cpu_f s AND FLAG_C \<and>
         (if op = 0x35
          then memory t = memory (memory_write (get_hl s) (operand8 op s - 1) s)
          else operand8 op t = operand8 op s - 1)"
  using assms
  apply (simp add: dec8_opcodes_def)
  apply (elim disjE)
  apply (simp_all add: opcode_switch_def opcode_switch_00_def opcode_switch_20_def operand8_def Let_def)
  apply (auto simp: word_ao_dist flag_and memory_write_def get_hl_def split: if_splits)
  done

lemma fetch_f:
  "cpu_f (snd (cpu_fetch_byte s)) = cpu_f s" "cpu_f (snd (cpu_fetch_word s)) = cpu_f s"
  by (simp_all add: cpu_fetch_byte_def cpu_fetch_word_def Let_def split: prod.splits)

lemma helper_f:
  "cpu_f (memory_write a v s) = cpu_f s"
  "cpu_f (set_bc w s) = cpu_f s" "cpu_f (set_de w s) = cpu_f s" "cpu_f (set_hl w s) = cpu_f s"
  "cpu_f (push_byte v s) = cpu_f s" "cpu_f (snd (pop_word s)) = cpu_f s"
  "cpu_f (printf ln s) = cpu_f s"
  by (simp_all add: memory_write_def set_bc_def set_de_def set_hl_def push_byte_def pop_word_def
      printf_def Let_def)

lemma add_hl_f: "cpu_f s AND 0x0F = 0 \<Longrightarrow> cpu_f (add_hl rr s) AND 0x0F = 0"
  by (simp add: add_hl_def Let_def set_hl_def word_ao_dist word_bw_assocs)

lemma nibble_00:
  "opcode_switch_00 op s = Some t \<Longrightarrow> cpu_f s AND 0x0F = 0 \<Longrightarrow> cpu_f t AND 0x0F = 0"
  unfolding opcode_switch_00_def
  by (auto simp: Let_def helper_f fetch_f add_hl_f word_ao_dist word_bw_assocs
      cpu_fetch_byte_def cpu_fetch_word_def
      split: if_splits prod.splits)

lemma nibble_20:
  "opcode_switch_20 op s = Some t \<Longrightarrow> cpu_f s AND 0x0F = 0 \<Longrightarrow> cpu_f t AND 0x0F = 0"
  unfolding opcode_switch_20_def
  by (auto simp: Let_def helper_f fetch_f add_hl_f word_ao_dist word_bw_assocs
      cpu_fetch_byte_def cpu_fetch_word_def
      split: if_splits prod.splits)

lemma nibble_40:
  "opcode_switch_40 op s = Some t \<Longrightarrow> cpu_f s AND 0x0F = 0 \<Longrightarrow> cpu_f t AND 0x0F = 0"
  unfolding opcode_switch_40_def
  by (auto simp: Let_def helper_f fetch_f add_hl_f word_ao_dist word_bw_assocs
      cpu_fetch_byte_def cpu_fetch_word_def
      split: if_splits prod.splits)

lemma nibble_C0:
  "opcode_switch_C0 op s = Some t \<Longrightarrow> cpu_f s AND 0x0F = 0 \<Longrightarrow> cpu_f t AND 0x0F = 0"
  unfolding opcode_switch_C0_def
  by (auto simp: Let_def helper_f fetch_f add_hl_f word_ao_dist word_bw_assocs
      cpu_fetch_byte_def cpu_fetch_word_def pop_word_def
      split: if_splits prod.splits)

lemma nibble_cb:
  "cpu_f s AND 0x0F = 0 \<Longrightarrow> cpu_f (cb_switch op s) AND 0x0F = 0"
  unfolding cb_switch_def
  by (auto simp: Let_def helper_f fetch_f word_ao_dist word_bw_assocs
      split: if_splits prod.splits)

lemma nibble_CB:
  "opcode_switch_CB op s = Some t \<Longrightarrow> cpu_f s AND 0x0F = 0 \<Longrightarrow> cpu_f t AND 0x0F = 0"
  unfolding opcode_switch_CB_def
  by (auto simp: Let_def helper_f fetch_f add_hl_f word_ao_dist word_bw_assocs nibble_cb
      cpu_fetch_byte_def cpu_fetch_word_def pop_word_def
      split: if_splits prod.splits)

lemma nibble_switch:
  "opcode_switch op s = Some t \<Longrightarrow> cpu_f s AND 0x0F = 0 \<Longrightarrow> cpu_f t AND 0x0F = 0"
  unfolding opcode_switch_def
  by (auto split: option.splits dest: nibble_00 nibble_20 nibble_40 nibble_C0 nibble_CB)

lemma word16_bound: "unat (x :: addr) < 65536"
  using unsigned_less [of x, where 'a = nat] by simp

lemma cpu_invariant_nibble: "cpu_invariant s = (cpu_f s AND 0x0F = 0)"
  by (simp add: cpu_invariant_def word16_bound)

lemma cpu_init_regs:
  "cpu_f (cpu_init s) = 0xB0" "cpu_pc (cpu_init s) = 0x0100" "cpu_sp (cpu_init s) = 0xFFFE"
  by (simp_all add: cpu_init_def logger_log_def Let_def)

lemma invariant_logging: "cpu_invariant s \<Longrightarrow> cpu_invariant (cpu_execute_instruction s)"
  unfolding cpu_invariant_nibble cpu_execute_instruction_alt
  by (auto split: option.splits simp: after_fetch_regs dest!: nibble_switch)

lemma invariant_cycle: "cpu_invariant s \<Longrightarrow> cpu_invariant (execute_cpu_cycle s)"
  by (simp add: execute_cpu_cycle_def invariant_logging)

lemma invariant_p1: "cpu_invariant s \<Longrightarrow> cpu_invariant (cpu_execute_instruction_p1 s)"
proof (cases "cpu_halted s")
  case True
  then show "cpu_invariant s \<Longrightarrow> ?thesis" by (simp add: cpu_execute_instruction_p1_def)
next
  case False
  assume "cpu_invariant s"
  then show ?thesis
    unfolding cpu_invariant_nibble cpu_execute_instruction_p1_alt [OF False]
    by (auto split: option.splits simp: helper_f dest!: nibble_switch)
qed

lemma invariant_run:
  "cpu_invariant s \<Longrightarrow> cpu_invariant ((execute_cpu_cycle ^^ n) s)"
  by (induction n) (simp_all add: invariant_cycle)

text \<open>
  C7.  After \<open>cpu_init\<close> F is 0xB0, PC is 0x0100 and SP is 0xFFFE, and the invariant
  holds: the low nibble of F is zero and PC and SP are below 65536.  Every execution of
  one instruction preserves the invariant, in both revisions of
  \<open>cpu_execute_instruction\<close> and for \<open>execute_cpu_cycle\<close>, so it holds after any
  number of instructions from reset.
\<close>

theorem cpu_invariant_preserved:
  "cpu_f (cpu_init s0) = 0xB0 \<and> cpu_pc (cpu_init s0) = 0x0100 \<and> cpu_sp (cpu_init s0) = 0xFFFE \<and>
   cpu_invariant (cpu_init s0) \<and>
   (cpu_invariant s \<longrightarrow>
      cpu_invariant (cpu_execute_instruction s) \<and> cpu_invariant (execute_cpu_cycle s) \<and>
      cpu_invariant (cpu_execute_instruction_p1 s)) \<and>
   cpu_invariant ((execute_cpu_cycle ^^ n) (cpu_init s0))"
proof -
  have "cpu_invariant (cpu_init s0)"
    by (simp add: cpu_invariant_nibble cpu_init_regs)
  then show ?thesis
    by (simp add: cpu_init_regs invariant_logging invariant_cycle invariant_p1 invariant_run)
qed

theorem cpu_invariant_preserved_witness:
  "cpu_invariant (cpu_init cpu_blank) \<and>
   cpu_invariant (cpu_execute_instruction (cpu_init cpu_blank)) \<and>
   cpu_invariant (execute_cpu_cycle (cpu_init cpu_blank)) \<and>
   cpu_invariant (cpu_execute_instruction_p1 (cpu_init cpu_blank))"
  using cpu_invariant_preserved [of cpu_blank "cpu_init cpu_blank" 0]
  by simp

lemma after_fetch_record:
  "cpu_after_fetch s = s\<lparr>cpu_pc := cpu_pc s + 1, log_lines := log_lines (cpu_after_fetch s)\<rparr>"
  by (simp add: cpu_after_fetch_def logger_log_def)

lemma fetch_word_state:
  "snd (cpu_fetch_word s) = s\<lparr>cpu_pc := cpu_pc s + 2\<rparr>"
  by (simp add: cpu_fetch_word_def cpu_fetch_byte_def Let_def)

lemma cond_not_taken_switch:
  assumes "op \<in> set cond_jump_opcodes" "\<not> cond_holds op s"
  shows "opcode_switch op s = Some (s\<lparr>cpu_pc := cpu_pc s + 2\<rparr>)"
  using assms
  apply (simp add: cond_jump_opcodes_def)
  apply (elim disjE)
  apply (simp_all add: opcode_switch_def opcode_switch_00_def opcode_switch_20_def
      opcode_switch_40_def opcode_switch_C0_def cond_holds_def get_flag_def
      fetch_word_state split_beta)
  done

text \<open>
  C10.  A conditional absolute jump or call whose condition is false still fetches its
  two operand bytes: PC ends three bytes past the opcode, and SP, the registers, the
  flags and the memory are as before.  (The logging revision also writes its debug
  line when the log file is open; the other revision executes only when not halted.)
\<close>

theorem cond_jump_not_taken:
  assumes "memory_read s (cpu_pc s) = op" "op \<in> set cond_jump_opcodes" "\<not> cond_holds op s"
  shows "cpu_execute_instruction s =
           s\<lparr>cpu_pc := cpu_pc s + 3, log_lines := log_lines (cpu_after_fetch s)\<rparr> \<and>
         (\<not> cpu_halted s \<longrightarrow> cpu_execute_instruction_p1 s = s\<lparr>cpu_pc := cpu_pc s + 3\<rparr>)"
proof -
  have "cond_holds op (cpu_after_fetch s) = cond_holds op s"
    by (simp add: cond_holds_def get_flag_def after_fetch_regs)
  with assms(3) have c1: "\<not> cond_holds op (cpu_after_fetch s)" by simp
  have "cond_holds op (s\<lparr>cpu_pc := cpu_pc s + 1\<rparr>) = cond_holds op s"
    by (simp add: cond_holds_def get_flag_def)
  with assms(3) have c2: "\<not> cond_holds op (s\<lparr>cpu_pc := cpu_pc s + 1\<rparr>)" by simp
  have "cpu_execute_instruction s = (cpu_after_fetch s)\<lparr>cpu_pc := cpu_pc (cpu_after_fetch s) + 2\<rparr>"
    by (simp add: cpu_execute_instruction_alt assms(1) cond_not_taken_switch [OF assms(2) c1])
  also have "\<dots> = s\<lparr>cpu_pc := cpu_pc s + 3, log_lines := log_lines (cpu_after_fetch s)\<rparr>"
    by (subst after_fetch_record) (simp add: after_fetch_regs)
  finally have 1: "cpu_execute_instruction s =
      s\<lparr>cpu_pc := cpu_pc s + 3, log_lines := log_lines (cpu_after_fetch s)\<rparr>" .
  have 2: "cpu_execute_instruction_p1 s = s\<lparr>cpu_pc := cpu_pc s + 3\<rparr>" if "\<not> cpu_halted s"
    by (simp add: cpu_execute_instruction_p1_alt [OF that] assms(1)
        cond_not_taken_switch [OF assms(2) c2])
  from 1 2 show ?thesis by simp
qed

theorem cond_jump_not_taken_witness:
  "memory_read jp_nz_state (cpu_pc jp_nz_state) = 0xC2 \<and>
   0xC2 \<in> set cond_jump_opcodes \<and> \<not> cond_holds 0xC2 jp_nz_state \<and>
   cpu_execute_instruction jp_nz_state = jp_nz_state\<lparr>cpu_pc := 0xC003\<rparr> \<and>
   \<not> cpu_halted jp_nz_state \<and>
   cpu_execute_instruction_p1 jp_nz_state = jp_nz_state\<lparr>cpu_pc := 0xC003\<rparr>"
proof -
  have 1: "memory_read jp_nz_state (cpu_pc jp_nz_state) = 0xC2"
    by (simp add: jp_nz_state_def cpu_blank_def memory_read_def)
  have 2: "0xC2 \<in> set cond_jump_opcodes" by (simp add: cond_jump_opcodes_def)
  have 3: "\<not> cond_holds 0xC2 jp_nz_state"
    by (simp add: cond_holds_def get_flag_def jp_nz_state_def cpu_blank_def)
  have 4: "log_lines (cpu_after_fetch jp_nz_state) = log_lines jp_nz_state"
    "cpu_pc jp_nz_state + 3 = 0xC003" "\<not> cpu_halted jp_nz_state"
    by (simp_all add: cpu_after_fetch_def logger_log_def jp_nz_state_def cpu_blank_def)
  from cond_jump_not_taken [OF 1 2 3] 1 2 3 4 show ?thesis by simp
qed

lemma labels_00: "(opcode_switch_00 op s = None) =
   (op \<notin> set [0x00, 0x01, 0x02, 0x03, 0x04, 0x05, 0x06, 0x07, 0x08, 0x09, 0x0A, 0x0B, 0x0C, 0x0D,
      0x0E, 0x0F, 0x11, 0x12, 0x13, 0x14, 0x15, 0x16, 0x19, 0x1A, 0x1B, 0x1C, 0x1D, 0x1E,
      0x17, 0x18, 0x1F])"
  by (simp add: opcode_switch_00_def)

lemma labels_20: "(opcode_switch_20 op s = None) =
   (op \<notin> set [0x20, 0x21, 0x22, 0x23, 0x24, 0x25, 0x26, 0x27, 0x28, 0x29, 0x2A,
      0x2C, 0x2F, 0x31, 0x32, 0x35, 0x36, 0x37, 0x3D, 0x3E])"
  by (simp add: opcode_switch_20_def)

lemma labels_40: "(opcode_switch_40 op s = None) =
   (op \<notin> set [0x44, 0x47, 0x4F, 0x56, 0x57,
      0x5E, 0x5F, 0x67, 0x6F, 0x77, 0x78, 0x79, 0x7A, 0x7B, 0x7C, 0x7D, 0x7E, 0x7F, 0x87,
      0xA1, 0xA7, 0xA9, 0xAE, 0xAF, 0xB0, 0xB1, 0xB7, 0xBE])"
  by (simp add: opcode_switch_40_def)

lemma labels_C0: "(opcode_switch_C0 op s = None) =
   (op \<notin> set [0xC0, 0xC1, 0xC2, 0xC3, 0xC5,
      0xC6, 0xC8, 0xCA, 0xCC, 0xD0, 0xD1, 0xD2, 0xD4, 0xD6, 0xD8, 0xDA, 0xDC, 0xDE, 0xC9])"
  by (simp add: opcode_switch_C0_def)

lemma labels_CB: "(opcode_switch_CB op s = None) =
   (op \<notin> set [0xCB, 0xCD, 0xCE, 0xD5, 0xE0, 0xE1, 0xE2, 0xE5, 0xE6, 0xE9, 0xEA, 0xEF, 0xF0, 0xF2,
      0xF3, 0xF5, 0xFA, 0xFB, 0xFE])"
  by (simp add: opcode_switch_CB_def)

lemma opcode_switch_labels: "(opcode_switch op s = None) = (op \<notin> set opcode_labels)"
proof -
  have "(opcode_switch op s = None) =
      (opcode_switch_00 op s = None \<and> opcode_switch_20 op s = None \<and>
       opcode_switch_40 op s = None \<and> opcode_switch_C0 op s = None \<and>
       opcode_switch_CB op s = None)"
    by (simp add: opcode_switch_def split: option.splits)
  also have "\<dots> = (op \<notin> set opcode_labels)"
    unfolding labels_00 labels_20 labels_40 labels_C0 labels_CB opcode_labels_def
    by (simp only: set_simps insert_iff empty_iff de_Morgan_disj) blast
  finally show ?thesis .
qed

lemma unknown_name: "op \<notin> set opcode_labels \<Longrightarrow> get_opcode_name op = ''UNKNOWN''"
  by (simp add: opcode_labels_def get_opcode_name_def)

lemma cb_default:
  "\<not> cb_labelled cb \<Longrightarrow>
   cb_switch cb s = printf (Unimplemented_CB_opcode cb (int (unat (cpu_pc s)) - 2)) s"
  by (auto simp: cb_labelled_def cb_switch_def)


lemma wrap_free:
  "cpu_pc s \<noteq> 0xFFFF \<Longrightarrow> int (unat (cpu_pc s + 1)) - 1 = int (unat (cpu_pc s))"
  "unat (cpu_pc s) < 0xFFFE \<Longrightarrow> int (unat (cpu_pc s + 2)) - 2 = int (unat (cpu_pc s))"
proof -
  assume "cpu_pc s \<noteq> 0xFFFF"
  then have "unat (cpu_pc s) \<noteq> 65535" by (simp add: word_unat_eq_iff)
  moreover have "unat (cpu_pc s) < 65536" by (rule word16_bound)
  ultimately show "int (unat (cpu_pc s + 1)) - 1 = int (unat (cpu_pc s))"
    by (simp add: unat_word_ariths)
next
  assume "unat (cpu_pc s) < 0xFFFE"
  then show "int (unat (cpu_pc s + 2)) - 2 = int (unat (cpu_pc s))"
    by (simp add: unat_word_ariths)
qed

lemma unknown_p1:
  assumes "\<not> cpu_halted s" "memory_read s (cpu_pc s) = op" "op \<notin> set opcode_labels" "op \<noteq> 0x76"
  shows "cpu_execute_instruction_p1 s =
     s\<lparr>cpu_pc := cpu_pc s + 1,
       console := console s @ [Unimplemented_opcode op (int (unat (cpu_pc s + 1)) - 1)]\<rparr>"
proof -
  have "opcode_switch op (s\<lparr>cpu_pc := cpu_pc s + 1\<rparr>) = None"
    using assms(3) by (simp add: opcode_switch_labels)
  then show ?thesis
    using assms(2,4) by (simp add: cpu_execute_instruction_p1_alt [OF assms(1)] printf_def)
qed

lemma unknown_logging:
  assumes "memory_read s (cpu_pc s) = op" "op \<notin> set opcode_labels"
  shows "cpu_execute_instruction s =
     s\<lparr>cpu_pc := cpu_pc s + 1,
       log_lines :=
         (if log_file s then
            log_lines s @
            [(LOG_DEBUG, Executing (cpu_pc s) op ''UNKNOWN''
               [cpu_a s, cpu_f s, cpu_b s, cpu_c s, cpu_d s, cpu_e s, cpu_h s, cpu_l s]
               (cpu_sp s))]
          else log_lines s)\<rparr>"
proof -
  have "opcode_switch op (cpu_after_fetch s) = None"
    using assms(2) by (simp add: opcode_switch_labels)
  then have "cpu_execute_instruction s = cpu_after_fetch s"
    by (simp add: cpu_execute_instruction_alt assms(1))
  then show ?thesis
    by (simp add: cpu_after_fetch_def logger_log_def assms(1) unknown_name [OF assms(2)])
qed

lemma inc_dec_labelled:
  "op \<in> set inc8_opcodes \<union> set dec8_opcodes \<Longrightarrow> \<exists>t. opcode_switch op s = Some t"
  apply (simp add: inc8_opcodes_def dec8_opcodes_def)
  apply (elim disjE)
  apply (simp_all add: opcode_switch_def opcode_switch_00_def opcode_switch_20_def)
  done

lemma memory_write_memory_cong:
  "memory s = memory s' \<Longrightarrow> memory (memory_write a v s) = memory (memory_write a v s')"
  by (simp add: memory_write_def)

lemma operand8_after_fetch: "operand8 op (cpu_after_fetch s) = operand8 op s"
  by (simp add: operand8_def after_fetch_regs)

lemma operand8_pc: "operand8 op (s\<lparr>cpu_pc := x\<rparr>) = operand8 op s"
  by (simp add: operand8_def memory_read_def get_hl_def)

lemma inc_dec_switch:
  assumes "opcode_switch op s' = Some t"
    and eq: "operand8 op s' = operand8 op s" "cpu_f s' = cpu_f s" "get_hl s' = get_hl s"
      "memory s' = memory s"
  shows "(op \<in> set inc8_opcodes \<longrightarrow>
           (cpu_f t AND FLAG_Z \<noteq> 0) = (operand8 op s + 1 = 0) \<and>
           (cpu_f t AND FLAG_H \<noteq> 0) = (operand8 op s AND 0x0F = 0x0F) \<and>
           cpu_f t AND FLAG_N = 0 \<and>
           cpu_f t AND FLAG_C = cpu_f s AND FLAG_C \<and>
           operand8 op t = operand8 op s + 1) \<and>
         (op \<in> set dec8_opcodes \<longrightarrow>
           (cpu_f t AND FLAG_Z \<noteq> 0) = (operand8 op s - 1 = 0) \<and>
           (cpu_f t AND FLAG_H \<noteq> 0) = (operand8 op s AND 0x0F = 0) \<and>
           cpu_f t AND FLAG_N = FLAG_N \<and>
           cpu_f t AND FLAG_C = cpu_f s AND FLAG_C \<and>
           (if op = 0x35
            then memory t = memory (memory_write (get_hl s) (operand8 op s - 1) s)
            else operand8 op t = operand8 op s - 1))"
proof (rule conjI; rule impI)
  assume "op \<in> set inc8_opcodes"
  from inc8_flags [OF this assms(1)]
  show "(cpu_f t AND FLAG_Z \<noteq> 0) = (operand8 op s + 1 = 0) \<and>
        (cpu_f t AND FLAG_H \<noteq> 0) = (operand8 op s AND 0x0F = 0x0F) \<and>
        cpu_f t AND FLAG_N = 0 \<and>
        cpu_f t AND FLAG_C = cpu_f s AND FLAG_C \<and>
        operand8 op t = operand8 op s + 1"
    by (simp only: eq)
next
  assume "op \<in> set dec8_opcodes"
  from dec8_flags [OF this assms(1)]
  show "(cpu_f t AND FLAG_Z \<noteq> 0) = (operand8 op s - 1 = 0) \<and>
        (cpu_f t AND FLAG_H \<noteq> 0) = (operand8 op s AND 0x0F = 0) \<and>
        cpu_f t AND FLAG_N = FLAG_N \<and>
        cpu_f t AND FLAG_C = cpu_f s AND FLAG_C \<and>
        (if op = 0x35
         then memory t = memory (memory_write (get_hl s) (operand8 op s - 1) s)
         else operand8 op t = operand8 op s - 1)"
    by (simp only: eq memory_write_memory_cong [OF eq(4)]) simp
qed

text \<open>
  C1, amended.  For each 8-bit INC and DEC that the switch implements (INC B, C, D, E, H,
  L with the opcodes 04, 0C, 14, 1C, 24, 2C; DEC B, C, D, E, H, (HL), A with the opcodes
  05, 0D, 15, 1D, 25, 35, 3D), after the instruction: Z is set iff the 8-bit result is
  0; H is set iff the low nibble of the operand was 0xF before an INC, or 0x0 before a
  DEC; N is clear after INC and set after DEC; C is as before.  The result is the
  operand plus or minus one modulo 256, stored in the register or written to the
  address in HL.  INC A (3C), INC (HL) (34) and DEC L (2D) have no \<open>case\<close> label.
\<close>

theorem inc_dec_flags:
  assumes "memory_read s (cpu_pc s) = op"
    and "op \<in> set inc8_opcodes \<union> set dec8_opcodes"
    and "t = cpu_execute_instruction s \<or> (\<not> cpu_halted s \<and> t = cpu_execute_instruction_p1 s)"
  shows "(op \<in> set inc8_opcodes \<longrightarrow>
           (cpu_f t AND FLAG_Z \<noteq> 0) = (operand8 op s + 1 = 0) \<and>
           (cpu_f t AND FLAG_H \<noteq> 0) = (operand8 op s AND 0x0F = 0x0F) \<and>
           cpu_f t AND FLAG_N = 0 \<and>
           cpu_f t AND FLAG_C = cpu_f s AND FLAG_C \<and>
           operand8 op t = operand8 op s + 1) \<and>
         (op \<in> set dec8_opcodes \<longrightarrow>
           (cpu_f t AND FLAG_Z \<noteq> 0) = (operand8 op s - 1 = 0) \<and>
           (cpu_f t AND FLAG_H \<noteq> 0) = (operand8 op s AND 0x0F = 0) \<and>
           cpu_f t AND FLAG_N = FLAG_N \<and>
           cpu_f t AND FLAG_C = cpu_f s AND FLAG_C \<and>
           (if op = 0x35
            then memory t = memory (memory_write (get_hl s) (operand8 op s - 1) s)
            else operand8 op t = operand8 op s - 1))"
  using assms(3)
proof
  assume t: "t = cpu_execute_instruction s"
  obtain t' where sw: "opcode_switch op (cpu_after_fetch s) = Some t'"
    using inc_dec_labelled [OF assms(2)] by blast
  then have "t = t'" by (simp add: t cpu_execute_instruction_alt assms(1))
  with sw show ?thesis
    by (intro inc_dec_switch [where s' = "cpu_after_fetch s"])
      (simp_all add: operand8_after_fetch after_fetch_regs)
next
  assume a: "\<not> cpu_halted s \<and> t = cpu_execute_instruction_p1 s"
  obtain t' where sw: "opcode_switch op (s\<lparr>cpu_pc := cpu_pc s + 1\<rparr>) = Some t'"
    using inc_dec_labelled [OF assms(2)] by blast
  then have "t = t'" using a by (simp add: cpu_execute_instruction_p1_alt assms(1))
  with sw show ?thesis
    by (intro inc_dec_switch [where s' = "s\<lparr>cpu_pc := cpu_pc s + 1\<rparr>"])
      (simp_all add: operand8_pc get_hl_def)
qed

theorem inc_dec_flags_witness:
  "memory_read inc_b_state (cpu_pc inc_b_state) = 0x04 \<and>
   0x04 \<in> set inc8_opcodes \<union> set dec8_opcodes \<and> 0x04 \<in> set inc8_opcodes \<and>
   operand8 0x04 inc_b_state = 0xFF \<and> cpu_f inc_b_state = 0x10 \<and>
   cpu_f (cpu_execute_instruction inc_b_state) AND FLAG_Z \<noteq> 0 \<and>
   cpu_f (cpu_execute_instruction inc_b_state) AND FLAG_H \<noteq> 0 \<and>
   cpu_f (cpu_execute_instruction inc_b_state) AND FLAG_N = 0 \<and>
   cpu_f (cpu_execute_instruction inc_b_state) AND FLAG_C = FLAG_C \<and>
   operand8 0x04 (cpu_execute_instruction inc_b_state) = 0 \<and>
   memory_read dec_hl_state (cpu_pc dec_hl_state) = 0x35 \<and>
   0x35 \<in> set inc8_opcodes \<union> set dec8_opcodes \<and> 0x35 \<in> set dec8_opcodes \<and>
   operand8 0x35 dec_hl_state = 0x10 \<and> cpu_f dec_hl_state = 0x10 \<and>
   \<not> cpu_halted dec_hl_state \<and>
   cpu_f (cpu_execute_instruction_p1 dec_hl_state) AND FLAG_Z = 0 \<and>
   cpu_f (cpu_execute_instruction_p1 dec_hl_state) AND FLAG_H \<noteq> 0 \<and>
   cpu_f (cpu_execute_instruction_p1 dec_hl_state) AND FLAG_N = FLAG_N \<and>
   cpu_f (cpu_execute_instruction_p1 dec_hl_state) AND FLAG_C = FLAG_C \<and>
   memory (cpu_execute_instruction_p1 dec_hl_state) 0xC100 = 0x0F"
proof -
  have i: "memory_read inc_b_state (cpu_pc inc_b_state) = 0x04"
    "operand8 0x04 inc_b_state = 0xFF" "cpu_f inc_b_state = 0x10"
    by (simp_all add: inc_b_state_def cpu_blank_def memory_read_def operand8_def)
  have d: "memory_read dec_hl_state (cpu_pc dec_hl_state) = 0x35"
    "operand8 0x35 dec_hl_state = 0x10" "cpu_f dec_hl_state = 0x10" "\<not> cpu_halted dec_hl_state"
    "get_hl dec_hl_state = 0xC100"
    by (simp_all add: dec_hl_state_def cpu_blank_def memory_read_def operand8_def get_hl_def)
  have m: "0x04 \<in> set inc8_opcodes \<union> set dec8_opcodes" "0x04 \<in> set inc8_opcodes"
    "0x35 \<in> set inc8_opcodes \<union> set dec8_opcodes" "0x35 \<in> set dec8_opcodes"
    by (simp_all add: inc8_opcodes_def dec8_opcodes_def)
  have w: "memory (memory_write 0xC100 0x0F dec_hl_state) 0xC100 = 0x0F"
    by (simp add: memory_write_def)
  show ?thesis
    using inc_dec_flags [OF i(1) m(1), of "cpu_execute_instruction inc_b_state"]
      inc_dec_flags [OF d(1) m(3), of "cpu_execute_instruction_p1 dec_hl_state"]
    by (simp add: i d m w)
qed

lemma inc_a_state_facts:
  "memory_read inc_a_state (cpu_pc inc_a_state) = 0x3C" "cpu_pc inc_a_state = 0xC000"
  "cpu_a inc_a_state = 0x0F" "cpu_f inc_a_state = 0x10" "\<not> cpu_halted inc_a_state"
  "memory_read inc_a_state 0xC000 = 0x3C" "console inc_a_state = []"
  by (simp_all add: inc_a_state_def cpu_blank_def memory_read_def)

lemma inc_unlabelled:
  "0x3C \<notin> set opcode_labels" "0x34 \<notin> set opcode_labels" "0x2D \<notin> set opcode_labels"
  by (simp_all add: opcode_labels_def)

text \<open>
  C1, as stated, fails for INC A: the byte 0x3C has no \<open>case\<close> label (nor have 0x34,
  INC (HL), and 0x2D, DEC L), so with A = 0x0F and F = 0x10 the CPU step leaves A at
  0x0F and the flag register at 0x10 in both revisions: the low nibble of the operand
  was 0xF and H is not set, and the operand is not incremented.
\<close>

theorem inc_a_unimplemented_counterexample:
  "memory_read inc_a_state (cpu_pc inc_a_state) = 0x3C \<and>
   0x3C \<notin> set opcode_labels \<and> 0x34 \<notin> set opcode_labels \<and> 0x2D \<notin> set opcode_labels \<and>
   cpu_a inc_a_state = 0x0F \<and> cpu_a inc_a_state AND 0x0F = 0x0F \<and>
   cpu_f inc_a_state = 0x10 \<and> \<not> cpu_halted inc_a_state \<and>
   cpu_a (cpu_execute_instruction inc_a_state) = 0x0F \<and>
   cpu_f (cpu_execute_instruction inc_a_state) = 0x10 \<and>
   cpu_f (cpu_execute_instruction inc_a_state) AND FLAG_H = 0 \<and>
   cpu_a (cpu_execute_instruction_p1 inc_a_state) = 0x0F \<and>
   cpu_f (cpu_execute_instruction_p1 inc_a_state) = 0x10 \<and>
   cpu_f (cpu_execute_instruction_p1 inc_a_state) AND FLAG_H = 0"
  by (simp add: unknown_logging [OF inc_a_state_facts(1) inc_unlabelled(1)]
      unknown_p1 [OF inc_a_state_facts(5) inc_a_state_facts(1) inc_unlabelled(1)]
      inc_a_state_facts inc_unlabelled)

lemma pair_high: "ucast (drop_bit 8 (push_bit 8 (ucast (hi::byte)) OR (ucast (lo::byte) :: addr))) = hi"
  by (rule bit_word_eqI) (auto simp: bit_simps dest: bit_imp_le_length)

lemma low_byte_take_bit: "(w :: addr) AND 0xFF = take_bit 8 w"
  by (simp add: take_bit_eq_mask mask_eq_exp_minus_1)

lemma pair_low: "ucast ((push_bit 8 (ucast (hi::byte)) OR (ucast (lo::byte) :: addr)) AND 0xFF) = lo"
  unfolding low_byte_take_bit
  by (rule bit_word_eqI) (auto simp: bit_simps dest: bit_imp_le_length)

lemma addr_neq: "(a::addr) + 1 \<noteq> a" "(a::addr) - 0x2000 \<noteq> a + 1" "a + 1 - 0x2000 \<noteq> a"
  "a - 2 \<noteq> a - 1" "a - 2 - 0x2000 \<noteq> a - 1" "a - 1 - 0x2000 \<noteq> a - 2" "a - 2 + 1 = a - 1"
  by simp_all

lemma memory_write_sp:
  "memory_write a v (s\<lparr>cpu_sp := x\<rparr>) = (memory_write a v s)\<lparr>cpu_sp := x\<rparr>"
  "cpu_sp (memory_write a v s) = cpu_sp s"
  by (simp_all add: memory_write_def)

lemma memory_write_regs:
  "cpu_a (memory_write x v s) = cpu_a s" "cpu_b (memory_write x v s) = cpu_b s"
  "cpu_c (memory_write x v s) = cpu_c s" "cpu_d (memory_write x v s) = cpu_d s"
  "cpu_e (memory_write x v s) = cpu_e s" "cpu_h (memory_write x v s) = cpu_h s"
  "cpu_l (memory_write x v s) = cpu_l s" "cpu_pc (memory_write x v s) = cpu_pc s"
  "current_cartridge (memory_write x v s) = current_cartridge s"
  by (simp_all add: memory_write_def)

lemma push_byte_eq:
  "push_byte v s = (memory_write (cpu_sp s - 1) v s)\<lparr>cpu_sp := cpu_sp s - 1\<rparr>"
  by (simp add: push_byte_def Let_def memory_write_sp)

lemma push_two:
  "push_byte lo (push_byte hi s) =
     (memory_write (cpu_sp s - 2) lo (memory_write (cpu_sp s - 1) hi s))\<lparr>cpu_sp := cpu_sp s - 2\<rparr>"
proof -
  have "cpu_sp s - 1 - 1 = cpu_sp s - 2" by simp
  then show ?thesis
    by (simp add: push_byte_eq memory_write_sp)
qed

lemma push_byte_regs:
  "cpu_c (push_byte v s) = cpu_c s" "cpu_e (push_byte v s) = cpu_e s"
  "cpu_l (push_byte v s) = cpu_l s" "cpu_f (push_byte v s) = cpu_f s"
  by (simp_all add: push_byte_eq memory_write_regs helper_f)

lemma push_switch:
  assumes "op \<in> set push_opcodes"
  shows "opcode_switch op s =
     Some ((memory_write (cpu_sp s - 2) (snd (push_pair op s))
             (memory_write (cpu_sp s - 1) (fst (push_pair op s)) s))\<lparr>cpu_sp := cpu_sp s - 2\<rparr>)"
  using assms
  apply (simp add: push_opcodes_def)
  apply (elim disjE)
  apply (simp_all add: opcode_switch_def opcode_switch_00_def opcode_switch_20_def
      opcode_switch_40_def opcode_switch_C0_def opcode_switch_CB_def push_pair_def
      Let_def push_byte_regs push_two)
  done

lemma memory_read_sp: "memory_read (s\<lparr>cpu_sp := x\<rparr>) = memory_read s"
  by (simp add: memory_read_def fun_eq_iff)

lemma pop_word_eq:
  "pop_word s =
     (push_bit 8 (ucast (memory_read s (cpu_sp s + 1))) OR ucast (memory_read s (cpu_sp s)),
      s\<lparr>cpu_sp := cpu_sp s + 2\<rparr>)"
proof -
  have "cpu_sp s + 1 + 1 = cpu_sp s + 2" by simp
  then show ?thesis
    by (simp add: pop_word_def Let_def memory_read_sp del: add_2_eq_Suc add_2_eq_Suc')
qed

lemma pop_switch:
  assumes "op \<in> set pop_opcodes"
  shows "opcode_switch op s =
     Some (pop_store op
            (push_bit 8 (ucast (memory_read s (cpu_sp s + 1))) OR ucast (memory_read s (cpu_sp s)))
            (s\<lparr>cpu_sp := cpu_sp s + 2\<rparr>))"
  using assms
  apply (simp add: pop_opcodes_def)
  apply (elim disjE)
  apply (simp_all only: opcode_switch_def opcode_switch_00_def opcode_switch_20_def
      opcode_switch_40_def opcode_switch_C0_def opcode_switch_CB_def pop_store_def
      pop_word_eq)
  apply simp_all
  done

lemma get_set_de: "get_de (set_de w s) = w"
  unfolding get_de_def set_de_def low_byte_take_bit
  by (simp, rule bit_word_eqI) (auto simp: bit_simps dest: bit_imp_le_length)

lemma sp_set_de: "cpu_sp (set_de w s) = cpu_sp s"
  by (simp add: set_de_def)

lemma stack_read:
  assumes "0x8000 \<le> sp - 1" "0x8000 \<le> sp - 2"
    and "memory t = memory (memory_write (sp - 2) lo (memory_write (sp - 1) hi s))"
  shows "memory_read t (sp - 2) = lo \<and> memory_read t (sp - 2 + 1) = hi"
proof -
  have 1: "\<not> sp - 1 < 0x8000" "\<not> sp - 2 < 0x8000" using assms(1,2) by (simp_all add: not_less)
  show ?thesis
    by (simp add: memory_read_def assms(3) memory_write_def 1 addr_neq)
qed

lemma push_bc_exec:
  assumes "memory_read s (cpu_pc s) = op" "op \<in> set push_opcodes"
  shows "cpu_execute_instruction s =
           (memory_write (cpu_sp s - 2) (snd (push_pair op s))
             (memory_write (cpu_sp s - 1) (fst (push_pair op s)) (cpu_after_fetch s)))
           \<lparr>cpu_sp := cpu_sp s - 2\<rparr>"
proof -
  have "push_pair op (cpu_after_fetch s) = push_pair op s"
    by (simp add: push_pair_def after_fetch_regs)
  then show ?thesis
    by (simp add: cpu_execute_instruction_alt assms(1) push_switch [OF assms(2)] after_fetch_regs)
qed

lemma pop_exec:
  assumes "memory_read s (cpu_pc s) = op" "op \<in> set pop_opcodes"
  shows "cpu_execute_instruction s =
           pop_store op
             (push_bit 8 (ucast (memory_read s (cpu_sp s + 1))) OR ucast (memory_read s (cpu_sp s)))
             ((cpu_after_fetch s)\<lparr>cpu_sp := cpu_sp s + 2\<rparr>)"
  by (simp add: cpu_execute_instruction_alt assms(1) pop_switch [OF assms(2)] after_fetch_regs)

lemma push_pop_round_trip:
  assumes 1: "memory_read s (cpu_pc s) = 0xC5"
    and 2: "memory_read (cpu_execute_instruction s) (cpu_pc (cpu_execute_instruction s)) = 0xD1"
    and 3: "0x8000 \<le> cpu_sp s - 1" "0x8000 \<le> cpu_sp s - 2"
  shows "get_de (cpu_execute_instruction (cpu_execute_instruction s)) = get_bc s \<and>
         cpu_sp (cpu_execute_instruction (cpu_execute_instruction s)) = cpu_sp s"
proof -
  let ?t = "cpu_execute_instruction s"
  have push: "0xC5 \<in> set push_opcodes" and pop: "0xD1 \<in> set pop_opcodes"
    by (simp_all add: push_opcodes_def pop_opcodes_def)
  have t: "?t = (memory_write (cpu_sp s - 2) (cpu_c s)
             (memory_write (cpu_sp s - 1) (cpu_b s) (cpu_after_fetch s)))
           \<lparr>cpu_sp := cpu_sp s - 2\<rparr>"
    using push_bc_exec [OF 1 push] by (simp add: push_pair_def)
  have sp: "cpu_sp ?t = cpu_sp s - 2" by (simp add: t)
  have "memory ?t = memory (memory_write (cpu_sp s - 2) (cpu_c s)
             (memory_write (cpu_sp s - 1) (cpu_b s) (cpu_after_fetch s)))"
    by (simp add: t)
  from stack_read [OF 3 this]
  have rd: "memory_read ?t (cpu_sp ?t) = cpu_c s" "memory_read ?t (cpu_sp ?t + 1) = cpu_b s"
    by (simp_all add: sp)
  have "cpu_execute_instruction ?t =
          set_de (push_bit 8 (ucast (cpu_b s)) OR ucast (cpu_c s))
            ((cpu_after_fetch ?t)\<lparr>cpu_sp := cpu_sp ?t + 2\<rparr>)"
    using pop_exec [OF 2 pop] by (simp add: pop_store_def rd)
  then show ?thesis
    by (simp add: get_set_de sp_set_de sp get_bc_def)
qed

lemma push_exec_p1:
  assumes "memory_read s (cpu_pc s) = op" "op \<in> set push_opcodes" "\<not> cpu_halted s"
  shows "cpu_execute_instruction_p1 s =
           (memory_write (cpu_sp s - 2) (snd (push_pair op s))
             (memory_write (cpu_sp s - 1) (fst (push_pair op s)) (s\<lparr>cpu_pc := cpu_pc s + 1\<rparr>)))
           \<lparr>cpu_sp := cpu_sp s - 2\<rparr>"
proof -
  have "push_pair op (s\<lparr>cpu_pc := cpu_pc s + 1\<rparr>) = push_pair op s"
    by (simp add: push_pair_def)
  then show ?thesis
    by (simp add: cpu_execute_instruction_p1_alt [OF assms(3)] assms(1) push_switch [OF assms(2)])
qed

lemma memory_read_pc: "memory_read (s\<lparr>cpu_pc := x\<rparr>) = memory_read s"
  by (simp add: memory_read_def fun_eq_iff)

lemma pop_exec_p1:
  assumes "memory_read s (cpu_pc s) = op" "op \<in> set pop_opcodes" "\<not> cpu_halted s"
  shows "cpu_execute_instruction_p1 s =
           pop_store op
             (push_bit 8 (ucast (memory_read s (cpu_sp s + 1))) OR ucast (memory_read s (cpu_sp s)))
             (s\<lparr>cpu_pc := cpu_pc s + 1, cpu_sp := cpu_sp s + 2\<rparr>)"
  by (simp add: cpu_execute_instruction_p1_alt [OF assms(3)] assms(1) pop_switch [OF assms(2)]
      memory_read_pc)

lemma memory_write_halted: "cpu_halted (memory_write x v s) = cpu_halted s"
  by (simp add: memory_write_def)

lemma push_pop_round_trip_p1:
  assumes 1: "memory_read s (cpu_pc s) = 0xC5"
    and 2: "memory_read (cpu_execute_instruction_p1 s) (cpu_pc (cpu_execute_instruction_p1 s)) = 0xD1"
    and 3: "0x8000 \<le> cpu_sp s - 1" "0x8000 \<le> cpu_sp s - 2"
    and h: "\<not> cpu_halted s"
  shows "get_de (cpu_execute_instruction_p1 (cpu_execute_instruction_p1 s)) = get_bc s \<and>
         cpu_sp (cpu_execute_instruction_p1 (cpu_execute_instruction_p1 s)) = cpu_sp s"
proof -
  let ?t = "cpu_execute_instruction_p1 s"
  have push: "0xC5 \<in> set push_opcodes" and pop: "0xD1 \<in> set pop_opcodes"
    by (simp_all add: push_opcodes_def pop_opcodes_def)
  have t: "?t = (memory_write (cpu_sp s - 2) (cpu_c s)
             (memory_write (cpu_sp s - 1) (cpu_b s) (s\<lparr>cpu_pc := cpu_pc s + 1\<rparr>)))
           \<lparr>cpu_sp := cpu_sp s - 2\<rparr>"
    using push_exec_p1 [OF 1 push h] by (simp add: push_pair_def)
  have sp: "cpu_sp ?t = cpu_sp s - 2" by (simp add: t)
  have ht: "\<not> cpu_halted ?t" using h by (simp add: t memory_write_halted)
  have "memory ?t = memory (memory_write (cpu_sp s - 2) (cpu_c s)
             (memory_write (cpu_sp s - 1) (cpu_b s) (s\<lparr>cpu_pc := cpu_pc s + 1\<rparr>)))"
    by (simp add: t)
  from stack_read [OF 3 this]
  have rd: "memory_read ?t (cpu_sp ?t) = cpu_c s" "memory_read ?t (cpu_sp ?t + 1) = cpu_b s"
    by (simp_all add: sp)
  have "cpu_execute_instruction_p1 ?t =
          set_de (push_bit 8 (ucast (cpu_b s)) OR ucast (cpu_c s))
            (?t\<lparr>cpu_pc := cpu_pc ?t + 1, cpu_sp := cpu_sp ?t + 2\<rparr>)"
    using pop_exec_p1 [OF 2 pop ht] by (simp add: pop_store_def rd)
  then show ?thesis
    by (simp add: get_set_de sp_set_de sp get_bc_def)
qed

text \<open>
  C6, amended.  PUSH of a register pair writes the high byte at SP - 1 and then the low
  byte at SP - 2 and leaves SP reduced by two; POP reads the low byte at SP and the high
  byte at SP + 1 and leaves SP increased by two.  When the two stack bytes SP - 1 and
  SP - 2 lie at or above 0x8000, PUSH BC followed by POP DE yields DE = BC and restores
  SP.  Both revisions of \<open>cpu_execute_instruction\<close> behave so.
\<close>

theorem push_pop_stack:
  "(memory_read s1 (cpu_pc s1) = op1 \<and> op1 \<in> set push_opcodes \<longrightarrow>
      cpu_execute_instruction s1 =
        (memory_write (cpu_sp s1 - 2) (snd (push_pair op1 s1))
          (memory_write (cpu_sp s1 - 1) (fst (push_pair op1 s1)) (cpu_after_fetch s1)))
        \<lparr>cpu_sp := cpu_sp s1 - 2\<rparr>) \<and>
   (memory_read s2 (cpu_pc s2) = op2 \<and> op2 \<in> set pop_opcodes \<longrightarrow>
      cpu_execute_instruction s2 =
        pop_store op2
          (push_bit 8 (ucast (memory_read s2 (cpu_sp s2 + 1))) OR
           ucast (memory_read s2 (cpu_sp s2)))
          ((cpu_after_fetch s2)\<lparr>cpu_sp := cpu_sp s2 + 2\<rparr>)) \<and>
   (memory_read s (cpu_pc s) = 0xC5 \<and>
    memory_read (cpu_execute_instruction s) (cpu_pc (cpu_execute_instruction s)) = 0xD1 \<and>
    0x8000 \<le> cpu_sp s - 1 \<and> 0x8000 \<le> cpu_sp s - 2 \<longrightarrow>
      get_de (cpu_execute_instruction (cpu_execute_instruction s)) = get_bc s \<and>
      cpu_sp (cpu_execute_instruction (cpu_execute_instruction s)) = cpu_sp s) \<and>
   (memory_read s3 (cpu_pc s3) = 0xC5 \<and>
    memory_read (cpu_execute_instruction_p1 s3) (cpu_pc (cpu_execute_instruction_p1 s3)) = 0xD1 \<and>
    0x8000 \<le> cpu_sp s3 - 1 \<and> 0x8000 \<le> cpu_sp s3 - 2 \<and> \<not> cpu_halted s3 \<longrightarrow>
      get_de (cpu_execute_instruction_p1 (cpu_execute_instruction_p1 s3)) = get_bc s3 \<and>
      cpu_sp (cpu_execute_instruction_p1 (cpu_execute_instruction_p1 s3)) = cpu_sp s3)"
  using push_bc_exec [of s1 op1] pop_exec [of s2 op2] push_pop_round_trip [of s]
    push_pop_round_trip_p1 [of s3]
  by blast

lemma push_bc_state_facts:
  "memory_read push_bc_state (cpu_pc push_bc_state) = 0xC5"
  "cpu_sp push_bc_state = 0xFFFE" "cpu_pc push_bc_state = 0xC000"
  "cpu_b push_bc_state = 0x12" "cpu_c push_bc_state = 0x34"
  "get_bc push_bc_state = 0x1234" "\<not> cpu_halted push_bc_state"
  "memory push_bc_state 0xC001 = 0xD1" "current_cartridge push_bc_state = None"
  "memory_read push_bc_state 0xC000 = 0xC5"
  by (simp_all add: push_bc_state_def cpu_blank_def memory_read_def get_bc_def)

lemma push_rom_state_facts:
  "memory_read push_rom_state (cpu_pc push_rom_state) = 0xC5"
  "cpu_sp push_rom_state = 0x8000" "cpu_pc push_rom_state = 0xC000"
  "cpu_b push_rom_state = 0x12" "cpu_c push_rom_state = 0x34"
  "get_bc push_rom_state = 0x1234"
  "memory push_rom_state 0xC001 = 0xD1" "current_cartridge push_rom_state = None"
  "memory_read push_rom_state 0xC000 = 0xC5"
  by (simp_all add: push_rom_state_def push_bc_state_def cpu_blank_def memory_read_def get_bc_def)

lemma opcode_members: "0xC5 \<in> set push_opcodes" "0xD1 \<in> set pop_opcodes"
  by (simp_all add: push_opcodes_def pop_opcodes_def)

lemma push_bc_state_next:
  "memory_read (cpu_execute_instruction push_bc_state)
     (cpu_pc (cpu_execute_instruction push_bc_state)) = 0xD1"
  "memory_read (cpu_execute_instruction_p1 push_bc_state)
     (cpu_pc (cpu_execute_instruction_p1 push_bc_state)) = 0xD1"
  by (simp_all add: push_bc_exec [OF push_bc_state_facts(1) opcode_members(1)]
      push_exec_p1 [OF push_bc_state_facts(1) opcode_members(1) push_bc_state_facts(7)]
      memory_write_regs after_fetch_regs push_bc_state_facts memory_read_def memory_write_def)

theorem push_pop_stack_witness:
  "memory_read push_bc_state (cpu_pc push_bc_state) = 0xC5 \<and> 0xC5 \<in> set push_opcodes \<and>
   cpu_execute_instruction push_bc_state =
     (memory_write 0xFFFC 0x34 (memory_write 0xFFFD 0x12 (cpu_after_fetch push_bc_state)))
     \<lparr>cpu_sp := 0xFFFC\<rparr> \<and>
   memory_read (cpu_execute_instruction push_bc_state)
     (cpu_pc (cpu_execute_instruction push_bc_state)) = 0xD1 \<and>
   0xD1 \<in> set pop_opcodes \<and>
   (0x8000 :: addr) \<le> cpu_sp push_bc_state - 1 \<and> 0x8000 \<le> cpu_sp push_bc_state - 2 \<and>
   get_bc push_bc_state = 0x1234 \<and>
   get_de (cpu_execute_instruction (cpu_execute_instruction push_bc_state)) = 0x1234 \<and>
   cpu_sp (cpu_execute_instruction (cpu_execute_instruction push_bc_state)) = 0xFFFE \<and>
   \<not> cpu_halted push_bc_state \<and>
   memory_read (cpu_execute_instruction_p1 push_bc_state)
     (cpu_pc (cpu_execute_instruction_p1 push_bc_state)) = 0xD1 \<and>
   get_de (cpu_execute_instruction_p1 (cpu_execute_instruction_p1 push_bc_state)) = 0x1234 \<and>
   cpu_sp (cpu_execute_instruction_p1 (cpu_execute_instruction_p1 push_bc_state)) = 0xFFFE"
proof -
  let ?S = push_bc_state
  let ?t = "cpu_execute_instruction ?S"
  note inst = push_pop_stack [of ?S "0xC5" ?t "0xD1" ?S ?S]
  have h1: "memory_read ?S (cpu_pc ?S) = 0xC5" by (rule push_bc_state_facts)
  have h2: "0xC5 \<in> set push_opcodes" and h3: "0xD1 \<in> set pop_opcodes"
    by (rule opcode_members)+
  have h4: "memory_read ?t (cpu_pc ?t) = 0xD1" by (rule push_bc_state_next)
  have h5: "memory_read (cpu_execute_instruction_p1 ?S)
     (cpu_pc (cpu_execute_instruction_p1 ?S)) = 0xD1" by (rule push_bc_state_next)
  have h6: "(0x8000 :: addr) \<le> cpu_sp ?S - 1" and h7: "(0x8000 :: addr) \<le> cpu_sp ?S - 2"
    by (simp_all add: push_bc_state_facts)
  have h8: "\<not> cpu_halted ?S" and h9: "get_bc ?S = 0x1234"
    by (rule push_bc_state_facts)+
  from inst h1 h2 have "cpu_execute_instruction ?S =
        (memory_write (cpu_sp ?S - 2) (snd (push_pair 0xC5 ?S))
          (memory_write (cpu_sp ?S - 1) (fst (push_pair 0xC5 ?S)) (cpu_after_fetch ?S)))
        \<lparr>cpu_sp := cpu_sp ?S - 2\<rparr>" by blast
  then have c1: "cpu_execute_instruction ?S =
     (memory_write 0xFFFC 0x34 (memory_write 0xFFFD 0x12 (cpu_after_fetch ?S)))
     \<lparr>cpu_sp := 0xFFFC\<rparr>"
    by (simp add: push_pair_def push_bc_state_facts)
  from inst h1 h4 h6 h7 have "get_de (cpu_execute_instruction ?t) = get_bc ?S \<and>
      cpu_sp (cpu_execute_instruction ?t) = cpu_sp ?S" by blast
  then have c2: "get_de (cpu_execute_instruction ?t) = 0x1234"
    and c3: "cpu_sp (cpu_execute_instruction ?t) = 0xFFFE"
    by (simp_all add: push_bc_state_facts)
  from inst h1 h5 h6 h7 h8
  have "get_de (cpu_execute_instruction_p1 (cpu_execute_instruction_p1 ?S)) = get_bc ?S \<and>
      cpu_sp (cpu_execute_instruction_p1 (cpu_execute_instruction_p1 ?S)) = cpu_sp ?S" by blast
  then have c4: "get_de (cpu_execute_instruction_p1 (cpu_execute_instruction_p1 ?S)) = 0x1234"
    and c5: "cpu_sp (cpu_execute_instruction_p1 (cpu_execute_instruction_p1 ?S)) = 0xFFFE"
    by (simp_all add: push_bc_state_facts)
  show ?thesis
    by (intro conjI) (fact h1 h2 h3 h4 h5 h6 h7 h8 h9 c1 c2 c3 c4 c5)+
qed

text \<open>
  C6, as stated, fails when the stack lies in the cartridge window: with SP = 0x8000
  and no cartridge the two writes of PUSH BC are discarded and POP DE reads 0xFF twice.
\<close>

theorem push_pop_rom_counterexample:
  "get_bc push_rom_state = 0x1234 \<and>
   memory_read push_rom_state (cpu_pc push_rom_state) = 0xC5 \<and>
   memory_read (cpu_execute_instruction push_rom_state)
     (cpu_pc (cpu_execute_instruction push_rom_state)) = 0xD1 \<and>
   get_de (cpu_execute_instruction (cpu_execute_instruction push_rom_state)) = 0xFFFF"
proof -
  let ?t = "cpu_execute_instruction push_rom_state"
  have t: "?t = (cpu_after_fetch push_rom_state)\<lparr>cpu_sp := 0x7FFE\<rparr>"
    by (simp add: push_bc_exec [OF push_rom_state_facts(1) opcode_members(1)]
        push_rom_state_facts memory_write_def)
  have nx: "memory_read ?t (cpu_pc ?t) = 0xD1"
    by (simp add: t after_fetch_regs push_rom_state_facts memory_read_def)
  have rd: "memory_read ?t (cpu_sp ?t) = 0xFF" "memory_read ?t (cpu_sp ?t + 1) = 0xFF"
    by (simp_all add: t after_fetch_regs push_rom_state_facts memory_read_def cartridge_read_def)
  have "get_de (cpu_execute_instruction ?t) = 0xFFFF"
    by (simp add: pop_exec [OF nx opcode_members(2)] pop_store_def rd get_set_de)
  with nx show ?thesis by (simp add: push_rom_state_facts)
qed

lemma cb_switch_0xCB:
  "opcode_switch 0xCB s =
     Some (cb_switch (memory_read s (cpu_pc s)) (s\<lparr>cpu_pc := cpu_pc s + 1\<rparr>))"
  by (simp add: opcode_switch_def opcode_switch_00_def opcode_switch_20_def
      opcode_switch_40_def opcode_switch_C0_def opcode_switch_CB_def cpu_fetch_byte_def)

lemma unknown_cb_logging:
  assumes "memory_read s (cpu_pc s) = 0xCB" "memory_read s (cpu_pc s + 1) = cb" "\<not> cb_labelled cb"
  shows "cpu_execute_instruction s =
     s\<lparr>cpu_pc := cpu_pc s + 2,
       console := console s @ [Unimplemented_CB_opcode cb (int (unat (cpu_pc s + 2)) - 2)],
       log_lines := log_lines (cpu_after_fetch s)\<rparr>"
proof -
  have a2: "memory_read s (1 + cpu_pc s) = cb" using assms(2) by (simp add: add.commute)
  have "cpu_execute_instruction s =
      cb_switch cb ((cpu_after_fetch s)\<lparr>cpu_pc := cpu_pc s + 2\<rparr>)"
    by (simp add: cpu_execute_instruction_alt assms(1) cb_switch_0xCB after_fetch_regs assms(2)
        a2 add.commute)
  also have "\<dots> = printf (Unimplemented_CB_opcode cb (int (unat (cpu_pc s + 2)) - 2))
      ((cpu_after_fetch s)\<lparr>cpu_pc := cpu_pc s + 2\<rparr>)"
    by (simp add: cb_default [OF assms(3)])
  also have "\<dots> = s\<lparr>cpu_pc := cpu_pc s + 2,
       console := console s @ [Unimplemented_CB_opcode cb (int (unat (cpu_pc s + 2)) - 2)],
       log_lines := log_lines (cpu_after_fetch s)\<rparr>"
    by (subst after_fetch_record) (simp add: printf_def after_fetch_regs)
  finally show ?thesis .
qed

lemma unknown_cb_p1:
  assumes "memory_read s (cpu_pc s) = 0xCB" "memory_read s (cpu_pc s + 1) = cb" "\<not> cb_labelled cb"
    "\<not> cpu_halted s"
  shows "cpu_execute_instruction_p1 s =
     s\<lparr>cpu_pc := cpu_pc s + 2,
       console := console s @ [Unimplemented_CB_opcode cb (int (unat (cpu_pc s + 2)) - 2)]\<rparr>"
proof -
  have a2: "memory_read s (1 + cpu_pc s) = cb" using assms(2) by (simp add: add.commute)
  have "cpu_execute_instruction_p1 s = cb_switch cb (s\<lparr>cpu_pc := cpu_pc s + 2\<rparr>)"
    by (simp add: cpu_execute_instruction_p1_alt [OF assms(4)] assms(1) cb_switch_0xCB
        memory_read_pc assms(2) a2 add.commute)
  then show ?thesis
    by (simp add: cb_default [OF assms(3)] printf_def)
qed

text \<open>
  What both revisions do with a byte that has no \<open>case\<close> label: the byte stays
  consumed (PC is advanced by one, or by two after the prefix 0xCB), no other register
  and no memory byte changes, and the function returns normally.  The revision with
  the \<open>default\<close> label (not halted, opcode other than 0x76) prints a line with the opcode
  and \<open>cpu.pc - 1\<close>; the logging revision only writes its debug line, and only when a
  log file is open; a byte without a label after 0xCB is printed by both, with the byte
  and \<open>cpu.pc - 2\<close>.
\<close>

lemma unknown_opcode_effect:
  "(\<not> cpu_halted s1 \<and> memory_read s1 (cpu_pc s1) = op1 \<and> op1 \<notin> set opcode_labels \<and>
    op1 \<noteq> 0x76 \<longrightarrow>
      cpu_execute_instruction_p1 s1 =
        s1\<lparr>cpu_pc := cpu_pc s1 + 1,
           console := console s1 @ [Unimplemented_opcode op1 (int (unat (cpu_pc s1 + 1)) - 1)]\<rparr> \<and>
      (cpu_pc s1 \<noteq> 0xFFFF \<longrightarrow> int (unat (cpu_pc s1 + 1)) - 1 = int (unat (cpu_pc s1)))) \<and>
   (memory_read s2 (cpu_pc s2) = op2 \<and> op2 \<notin> set opcode_labels \<longrightarrow>
      cpu_execute_instruction s2 =
        s2\<lparr>cpu_pc := cpu_pc s2 + 1,
           log_lines :=
             (if log_file s2 then
                log_lines s2 @
                [(LOG_DEBUG, Executing (cpu_pc s2) op2 ''UNKNOWN''
                   [cpu_a s2, cpu_f s2, cpu_b s2, cpu_c s2, cpu_d s2, cpu_e s2, cpu_h s2,
                    cpu_l s2] (cpu_sp s2))]
              else log_lines s2)\<rparr>) \<and>
   (memory_read s3 (cpu_pc s3) = 0xCB \<and> memory_read s3 (cpu_pc s3 + 1) = cb \<and>
    \<not> cb_labelled cb \<longrightarrow>
      cpu_execute_instruction s3 =
        s3\<lparr>cpu_pc := cpu_pc s3 + 2,
           console := console s3 @
             [Unimplemented_CB_opcode cb (int (unat (cpu_pc s3 + 2)) - 2)],
           log_lines := log_lines (cpu_after_fetch s3)\<rparr> \<and>
      (\<not> cpu_halted s3 \<longrightarrow>
         cpu_execute_instruction_p1 s3 =
           s3\<lparr>cpu_pc := cpu_pc s3 + 2,
              console := console s3 @
                [Unimplemented_CB_opcode cb (int (unat (cpu_pc s3 + 2)) - 2)]\<rparr>) \<and>
      (unat (cpu_pc s3) < 0xFFFE \<longrightarrow>
         int (unat (cpu_pc s3 + 2)) - 2 = int (unat (cpu_pc s3))))"
  using unknown_p1 [of s1 op1] wrap_free(1) [of s1] unknown_logging [of s2 op2]
    unknown_cb_logging [of s3 cb] unknown_cb_p1 [of s3 cb] wrap_free(2) [of s3]
  by blast


lemma unknown_op_state_facts:
  "memory_read unknown_op_state (cpu_pc unknown_op_state) = 0xD3"
  "cpu_pc unknown_op_state = 0xC000" "\<not> cpu_halted unknown_op_state"
  "\<not> log_file unknown_op_state" "console unknown_op_state = []"
  "log_lines unknown_op_state = []" "memory_read unknown_op_state 0xC000 = 0xD3"
  by (simp_all add: unknown_op_state_def cpu_blank_def memory_read_def)

lemma unknown_cb_state_facts:
  "memory_read unknown_cb_state (cpu_pc unknown_cb_state) = 0xCB"
  "memory_read unknown_cb_state (cpu_pc unknown_cb_state + 1) = 0x00"
  "cpu_pc unknown_cb_state = 0xC000" "\<not> cpu_halted unknown_cb_state"
  "\<not> log_file unknown_cb_state" "console unknown_cb_state = []"
  "log_lines unknown_cb_state = []"
  by (simp_all add: unknown_cb_state_def cpu_blank_def memory_read_def)

lemma unlabelled: "0xD3 \<notin> set opcode_labels" "\<not> cb_labelled 0x00"
  by (simp_all add: opcode_labels_def cb_labelled_def)

lemma unknown_wrap_state_facts:
  "memory_read unknown_wrap_state (cpu_pc unknown_wrap_state) = 0xD3"
  "cpu_pc unknown_wrap_state = 0xFFFF" "\<not> cpu_halted unknown_wrap_state"
  "console unknown_wrap_state = []" "memory_read unknown_wrap_state 0xFFFF = 0xD3"
  by (simp_all add: unknown_wrap_state_def cpu_blank_def memory_read_def)

text \<open>
  C8.  The logging revision of \<open>cpu_execute_instruction\<close> (cpu.c) reports nothing for an
  unimplemented primary opcode: its outer switch has lost the \<open>default\<close> label (and
  \<open>case 0x76\<close>) of the older revision.  With the log file closed and the unlabelled
  byte 0xD3 at PC = 0xC000, the call prints nothing and logs nothing; it only advances
  PC to 0xC001.  On the same state the older revision prints the diagnostic with the
  opcode 0xD3 and the address 0xC000, and the logging revision itself prints the
  diagnostic of its inner switch for the unlabelled byte 0x00 after the prefix 0xCB.
  The older revision computes the address it prints as \<open>cpu.pc - 1\<close> in \<open>int\<close>: for the
  same byte fetched at 0xFFFF it prints -1, not 0xFFFF.
\<close>

theorem unknown_opcode_silent:
  "memory_read unknown_op_state (cpu_pc unknown_op_state) = 0xD3 \<and>
   cpu_pc unknown_op_state = 0xC000 \<and> 0xD3 \<notin> set opcode_labels \<and>
   console unknown_op_state = [] \<and> log_lines unknown_op_state = [] \<and>
   cpu_execute_instruction unknown_op_state = unknown_op_state\<lparr>cpu_pc := 0xC001\<rparr> \<and>
   console (cpu_execute_instruction unknown_op_state) = [] \<and>
   log_lines (cpu_execute_instruction unknown_op_state) = [] \<and>
   cpu_execute_instruction_p1 unknown_op_state =
     unknown_op_state\<lparr>cpu_pc := 0xC001, console := [Unimplemented_opcode 0xD3 0xC000]\<rparr> \<and>
   memory_read unknown_cb_state (cpu_pc unknown_cb_state) = 0xCB \<and>
   memory_read unknown_cb_state (cpu_pc unknown_cb_state + 1) = 0x00 \<and>
   \<not> cb_labelled 0x00 \<and>
   cpu_execute_instruction unknown_cb_state =
     unknown_cb_state\<lparr>cpu_pc := 0xC002, console := [Unimplemented_CB_opcode 0x00 0xC000]\<rparr> \<and>
   memory_read unknown_wrap_state (cpu_pc unknown_wrap_state) = 0xD3 \<and>
   cpu_pc unknown_wrap_state = 0xFFFF \<and>
   cpu_execute_instruction_p1 unknown_wrap_state =
     unknown_wrap_state\<lparr>cpu_pc := 0, console := [Unimplemented_opcode 0xD3 (- 1)]\<rparr>"
proof -
  let ?S = unknown_op_state and ?C = unknown_cb_state and ?W = unknown_wrap_state
  have c1: "cpu_execute_instruction ?S = ?S\<lparr>cpu_pc := 0xC001\<rparr>"
    by (simp add: unknown_logging [OF unknown_op_state_facts(1) unlabelled(1)]
        unknown_op_state_facts)
  have c2: "console (cpu_execute_instruction ?S) = []"
    "log_lines (cpu_execute_instruction ?S) = []"
    unfolding c1 by (simp_all add: unknown_op_state_facts)
  have c3: "cpu_execute_instruction_p1 ?S =
      ?S\<lparr>cpu_pc := 0xC001, console := [Unimplemented_opcode 0xD3 0xC000]\<rparr>"
    by (simp add: unknown_p1 [OF unknown_op_state_facts(3) unknown_op_state_facts(1) unlabelled(1)]
        unknown_op_state_facts)
  have lg: "log_lines (cpu_after_fetch ?C) = log_lines ?C"
    by (simp add: cpu_after_fetch_def logger_log_def unknown_cb_state_facts)
  have c4: "cpu_execute_instruction ?C =
      ?C\<lparr>cpu_pc := 0xC002, console := [Unimplemented_CB_opcode 0x00 0xC000]\<rparr>"
    by (simp add: unknown_cb_logging [OF unknown_cb_state_facts(1) unknown_cb_state_facts(2)
          unlabelled(2)] unknown_cb_state_facts lg)
  have c5: "cpu_execute_instruction_p1 ?W =
      ?W\<lparr>cpu_pc := 0, console := [Unimplemented_opcode 0xD3 (- 1)]\<rparr>"
    by (simp add: unknown_p1 [OF unknown_wrap_state_facts(3) unknown_wrap_state_facts(1)
          unlabelled(1)] unknown_wrap_state_facts)
  show ?thesis
    by (intro conjI)
      (fact unknown_op_state_facts unknown_cb_state_facts unknown_wrap_state_facts unlabelled
         c1 c2 c3 c4 c5)+
qed

end
